theory Spec2Isabelle
  imports Complex_Main "HOL-Library.AList"
begin

section \<open>Python dictionaries\<close>

text \<open>
  A Python \<open>dict\<close> keeps its keys in insertion order and holds each key once. It is
  modelled as an association list: \<open>map_of d k\<close> is \<open>d.get(k)\<close>, \<open>AList.update k v d\<close>
  is \<open>d[k] = v\<close> (an existing key keeps its place, a new one goes to the end) and
  \<open>AList.delete k d\<close> is \<open>del d[k]\<close>.
\<close>

type_synonym ('k, 'v) dict = "('k \<times> 'v) list"

definition keys :: "('k, 'v) dict \<Rightarrow> 'k list" where
  "keys d = map fst d"

section \<open>Python values\<close>

text \<open>
  The values a JSON document or a Python \<open>Dict[str, Any]\<close> built from one can hold.
  Python's floats are idealised as exact rationals throughout: sums, the division of the
  mean and the comparisons with thresholds are exact here.
\<close>

datatype json =
    JNull
  | JBool bool
  | JInt int
  | JFloat rat
  | JStr string
  | JList "json list"
  | JDict "(string \<times> json) list"

text \<open>
  An exception is its class name and the text \<open>str(e)\<close> gives. \<open>except Exception\<close>
  catches the subclasses of \<open>Exception\<close>; the classes that derive from
  \<open>BaseException\<close> directly pass it: \<open>asyncio.CancelledError\<close> (what \<open>task.cancel()\<close>
  raises inside the task, since Python 3.8), \<open>KeyboardInterrupt\<close>, \<open>SystemExit\<close> and
  \<open>GeneratorExit\<close>.
\<close>

datatype exn = PyExc (exc_class: string) (exc_text: string)

definition is_exception :: "exn \<Rightarrow> bool" where
  "is_exception ex \<longleftrightarrow>
     exc_class ex \<notin> set [''CancelledError'', ''KeyboardInterrupt'', ''SystemExit'', ''GeneratorExit'']"

text \<open>\<open>str(n)\<close> for an integer: its decimal digits.\<close>

definition digit_char :: "nat \<Rightarrow> char" where
  "digit_char d = ''0123456789'' ! d"

function str_nat :: "nat \<Rightarrow> string" where
  "str_nat n = (if n < 10 then [digit_char n] else str_nat (n div 10) @ [digit_char (n mod 10)])"
  by pat_completeness auto
termination
  by (relation "measure (\<lambda>n. n)") auto

definition str_int :: "int \<Rightarrow> string" where
  "str_int i = (if i < 0 then ''-'' @ str_nat (nat (- i)) else str_nat (nat i))"

text \<open>The truth value of an \<open>Optional[str]\<close>: \<open>None\<close> and the empty string are false.\<close>

fun truthy_str :: "string option \<Rightarrow> bool" where
  "truthy_str None = False"
| "truthy_str (Some s) = (s \<noteq> [])"


section \<open>The connection manager (app/api/websocket.py)\<close>

type_synonym client_id = string
type_synonym job_id = string
type_synonym websocket = nat

text \<open>
  \<open>ConnectionManager\<close>: \<open>active_connections\<close> maps a client id to its socket,
  \<open>job_subscribers\<close> maps a job id to the list of subscribed client ids.
\<close>

record hub =
  active_connections :: "(client_id, websocket) dict"
  job_subscribers :: "(job_id, client_id list) dict"

definition hub_init :: hub where
  "hub_init = \<lparr>active_connections = [], job_subscribers = []\<rparr>"

text \<open>\<open>connect\<close>, after the socket has been accepted.\<close>

definition connect :: "websocket \<Rightarrow> client_id \<Rightarrow> hub \<Rightarrow> hub" where
  "connect ws c h = h\<lparr>active_connections := AList.update c ws (active_connections h)\<rparr>"

text \<open>
  One round of the loop of \<open>disconnect\<close> over \<open>list(self.job_subscribers.keys())\<close>:
  \<open>list.remove\<close> takes out the first occurrence, an emptied list is deleted.
  (The key is present in every round of the source's loop; the \<open>None\<close> branch only
  makes the function total.)
\<close>

definition disconnect_job :: "client_id \<Rightarrow> job_id \<Rightarrow> (job_id, client_id list) dict
    \<Rightarrow> (job_id, client_id list) dict" where
  "disconnect_job c j subs =
     (case map_of subs j of
        None \<Rightarrow> subs
      | Some l \<Rightarrow>
          if c \<in> set l
          then (let l' = remove1 c l
                in if l' = [] then AList.delete j subs else AList.update j l' subs)
          else subs)"

definition disconnect :: "client_id \<Rightarrow> hub \<Rightarrow> hub" where
  "disconnect c h =
     \<lparr>active_connections = AList.delete c (active_connections h),
      job_subscribers = fold (disconnect_job c) (keys (job_subscribers h)) (job_subscribers h)\<rparr>"

definition subscribe_to_job :: "job_id \<Rightarrow> client_id \<Rightarrow> hub \<Rightarrow> hub" where
  "subscribe_to_job j c h =
     (let subs = (if j \<in> set (keys (job_subscribers h)) then job_subscribers h
                  else AList.update j [] (job_subscribers h));
          l = (case map_of subs j of Some l \<Rightarrow> l | None \<Rightarrow> [])
      in if c \<notin> set l then h\<lparr>job_subscribers := AList.update j (l @ [c]) subs\<rparr>
         else h\<lparr>job_subscribers := subs\<rparr>)"

definition unsubscribe_from_job :: "job_id \<Rightarrow> client_id \<Rightarrow> hub \<Rightarrow> hub" where
  "unsubscribe_from_job j c h =
     (case map_of (job_subscribers h) j of
        None \<Rightarrow> h
      | Some l \<Rightarrow>
          if c \<in> set l
          then (let l' = remove1 c l
                in if l' = [] then h\<lparr>job_subscribers := AList.delete j (job_subscribers h)\<rparr>
                   else h\<lparr>job_subscribers := AList.update j l' (job_subscribers h)\<rparr>)
          else h)"

text \<open>The operations a client can drive, and the hub states they reach.\<close>

datatype hub_op =
    Connect websocket client_id
  | Disconnect client_id
  | Subscribe job_id client_id
  | Unsubscribe job_id client_id

fun hub_step :: "hub_op \<Rightarrow> hub \<Rightarrow> hub" where
  "hub_step (Connect ws c) h = connect ws c h"
| "hub_step (Disconnect c) h = disconnect c h"
| "hub_step (Subscribe j c) h = subscribe_to_job j c h"
| "hub_step (Unsubscribe j c) h = unsubscribe_from_job j c h"

definition hub_run :: "hub_op list \<Rightarrow> hub" where
  "hub_run ops = fold hub_step ops hub_init"

text \<open>What holds of every dictionary of subscriber lists the operations build.\<close>

definition subs_ok :: "(job_id, client_id list) dict \<Rightarrow> bool" where
  "subs_ok subs \<longleftrightarrow>
     distinct (map fst subs) \<and> (\<forall>j l. map_of subs j = Some l \<longrightarrow> distinct l \<and> l \<noteq> [])"

text \<open>What \<open>disconnect\<close> does to the entry of one job.\<close>

definition drop_client :: "client_id \<Rightarrow> client_id list option \<Rightarrow> client_id list option" where
  "drop_client c v =
     (case v of None \<Rightarrow> None
      | Some l \<Rightarrow> if c \<in> set l then (if remove1 c l = [] then None else Some (remove1 c l))
                  else Some l)"

text \<open>A small run of the hub, used to instantiate the statements below.\<close>

definition hub_example :: "hub_op list" where
  "hub_example = [Connect 10 ''a'', Connect 20 ''b'', Subscribe ''j1'' ''a'',
     Subscribe ''j1'' ''b'', Subscribe ''j2'' ''a'', Subscribe ''j1'' ''a'']"

section \<open>The job store and the scraping service (app/services/scraping_service.py)\<close>

text \<open>
  The rows of the three tables of app/models/scraping.py. Identifiers are the text of the
  UUID. Timestamps (\<open>created_at\<close>, \<open>completed_at\<close>, \<open>extracted_at\<close>) are left out.
\<close>

record job =
  url :: string
  schema_definition :: "(string, json) dict"
  status :: string
  error_message :: "string option"
  user_id :: string

record generated_script =
  gs_job_id :: job_id
  script_content :: string
  script_type :: string

record extracted_data =
  ed_job_id :: job_id
  data :: json
  data_count :: int

record db =
  jobs :: "(job_id, job) dict"
  scripts :: "generated_script list"
  extracted :: "extracted_data list"

text \<open>The coroutine a registry entry stands for: \<open>_execute_scraping_job\<close> and its arguments.\<close>

record task =
  t_job_id :: job_id
  t_url :: string
  t_schema :: "(string, json) dict"

text \<open>
  The two messages the service broadcasts, \<open>{"type": "job_progress", "job_id", "stage",
  "message"}\<close> and \<open>{"type": "job_status_update", "job_id", "status", "error_message"}\<close>
  (the \<open>timestamp\<close> entry is left out).
\<close>

datatype message =
    JobProgress job_id string string
  | JobStatusUpdate job_id string "string option"

text \<open>
  The state the service works on: the database as last committed, the list of the states
  committed so far (oldest first; what a concurrent reader can have observed), the
  registry \<open>active_jobs\<close>, the global connection manager, and the messages the sockets
  have taken, in order.
\<close>

record world =
  db :: db
  commits :: "db list"
  active_jobs :: "(job_id, task) dict"
  manager :: hub
  outbox :: "(client_id \<times> message) list"

definition world_init :: world where
  "world_init = \<lparr>db = \<lparr>jobs = [], scripts = [], extracted = []\<rparr>, commits = [],
     active_jobs = [], manager = hub_init, outbox = []\<rparr>"

text \<open>What \<open>ai_service.analyze_webpage_and_generate_script\<close> returns:
  \<open>{"status", "error", "script"}\<close>, with \<open>script\<close> a string or \<open>None\<close>.\<close>

record script_result =
  sr_status :: string
  sr_error :: "string option"
  sr_script :: "string option"

text \<open>What \<open>PlaywrightService.execute_extraction_script\<close> returns:
  \<open>{"status", "error", "data", "data_count"}\<close>.\<close>

record extraction_result =
  er_status :: string
  er_error :: "string option"
  er_data :: json
  er_data_count :: int

text \<open>
  The collaborators, as the service sees them. A call of the script generator or of the
  extraction returns or raises (a cancellation of the task shows as \<open>CancelledError\<close>
  raised by the call it waits in); a socket takes a message or fails. \<open>db_commit n d\<close> is
  the answer of the database to \<open>await db.commit()\<close> when \<open>n\<close> states have been
  committed before and the commit would make the state \<open>d\<close>: \<open>None\<close> when it is
  accepted, the exception otherwise (a violated column bound or key, a lost connection).
  \<open>pending_rollback\<close> is the \<open>PendingRollbackError\<close> SQLAlchemy raises when a session
  whose commit has failed is used again without \<open>rollback()\<close>.
\<close>

record env =
  analyze_webpage_and_generate_script ::
    "string \<Rightarrow> (string, json) dict \<Rightarrow> exn + script_result"
  execute_extraction_script ::
    "string \<Rightarrow> string \<Rightarrow> (string, json) dict \<Rightarrow> exn + extraction_result"
  send_text :: "websocket \<Rightarrow> message \<Rightarrow> bool"
  db_commit :: "nat \<Rightarrow> db \<Rightarrow> exn option"
  pending_rollback :: exn

text \<open>
  A session (\<open>AsyncSession\<close>) is active, or inactive after a commit of it has failed.
  \<open>commit e d\<close> is \<open>await db.commit()\<close> on a session whose pending changes (the rows given
  to \<open>db.add\<close>, the UPDATE executed) turn the database into \<open>d\<close>: an inactive session
  raises, a refused commit raises, leaves the database as it was and the session inactive,
  an accepted one makes \<open>d\<close> the committed state.
\<close>

datatype session = Active | Inactive

definition commit :: "env \<Rightarrow> db \<Rightarrow> session \<times> world \<Rightarrow> (exn + unit) \<times> session \<times> world" where
  "commit e d sw =
     (case sw of
        (Inactive, w) \<Rightarrow> (Inl (pending_rollback e), Inactive, w)
      | (Active, w) \<Rightarrow>
          (case db_commit e (length (commits w)) d of
             Some ex \<Rightarrow> (Inl ex, Inactive, w)
           | None \<Rightarrow> (Inr (), Active, w\<lparr>db := d, commits := commits w @ [d]\<rparr>)))"

text \<open>
  \<open>ConnectionManager.broadcast_to_all\<close>: one send per entry of \<open>active_connections\<close>, in
  order; the clients whose send failed are disconnected afterwards.
\<close>

definition broadcast_to_all :: "env \<Rightarrow> message \<Rightarrow> world \<Rightarrow> world" where
  "broadcast_to_all e m w =
     (let conns = active_connections (manager w);
          sent = [(c, m). (c, ws) \<leftarrow> conns, send_text e ws m];
          disconnected_clients = [c. (c, ws) \<leftarrow> conns, \<not> send_text e ws m]
      in w\<lparr>manager := fold disconnect disconnected_clients (manager w),
            outbox := outbox w @ sent\<rparr>)"

definition log_job_progress :: "env \<Rightarrow> job_id \<Rightarrow> string \<Rightarrow> string \<Rightarrow> world \<Rightarrow> world" where
  "log_job_progress e job_id stage msg w = broadcast_to_all e (JobProgress job_id stage msg) w"

text \<open>
  The writes of the service, on the database alone. \<open>update_data\<close> is what the UPDATE of
  \<open>_update_job_status\<close> writes into a row: the status always, \<open>error_message\<close> only when
  it is given and not empty; the UPDATE touches the row with this id, if there is one.
\<close>

definition update_data :: "string \<Rightarrow> string option \<Rightarrow> job \<Rightarrow> job" where
  "update_data st err j =
     (if truthy_str err then j\<lparr>status := st, error_message := err\<rparr> else j\<lparr>status := st\<rparr>)"

definition db_set_status :: "job_id \<Rightarrow> string \<Rightarrow> string option \<Rightarrow> db \<Rightarrow> db" where
  "db_set_status job_id st err d =
     d\<lparr>jobs := AList.map_entry job_id (update_data st err) (jobs d)\<rparr>"

definition db_add_job :: "job_id \<Rightarrow> job \<Rightarrow> db \<Rightarrow> db" where
  "db_add_job job_id j d = d\<lparr>jobs := jobs d @ [(job_id, j)]\<rparr>"

definition db_add_script :: "job_id \<Rightarrow> string \<Rightarrow> db \<Rightarrow> db" where
  "db_add_script job_id s d = d\<lparr>scripts := scripts d @
     [\<lparr>gs_job_id = job_id, script_content = s, script_type = ''playwright''\<rparr>]\<rparr>"

definition db_add_data :: "job_id \<Rightarrow> json \<Rightarrow> int \<Rightarrow> db \<Rightarrow> db" where
  "db_add_data job_id x n d = d\<lparr>extracted := extracted d @
     [\<lparr>ed_job_id = job_id, data = x, data_count = n\<rparr>]\<rparr>"

text \<open>
  \<open>_update_job_status\<close>: the UPDATE and its commit, then the broadcast. When the commit
  raises, nothing is broadcast.
\<close>

definition update_job_status ::
    "env \<Rightarrow> job_id \<Rightarrow> string \<Rightarrow> string option \<Rightarrow> session \<times> world
      \<Rightarrow> (exn + unit) \<times> session \<times> world" where
  "update_job_status e job_id st err sw =
     (case commit e (db_set_status job_id st err (db (snd sw))) sw of
        (Inl ex, s1, w1) \<Rightarrow> (Inl ex, s1, w1)
      | (Inr _, s1, w1) \<Rightarrow> (Inr (), s1, broadcast_to_all e (JobStatusUpdate job_id st err) w1))"

text \<open>
  \<open>create_scraping_job\<close>, on the session of the request. The id is the one \<open>uuid.uuid4\<close>
  draws. Neither the function nor the request type \<open>ScrapingJobCreate\<close> (\<open>url: str\<close>,
  \<open>schema_definition: Dict[str, Any]\<close>) looks at the content of the url or the schema.
  When the commit raises, the handler rolls the session back and raises again with the
  prefix.
\<close>

record scraping_job_create =
  jc_url :: string
  jc_schema_definition :: "(string, json) dict"

definition create_scraping_job ::
    "env \<Rightarrow> job_id \<Rightarrow> scraping_job_create \<Rightarrow> string \<Rightarrow> world \<Rightarrow> (exn + job_id \<times> job) \<times> world" where
  "create_scraping_job e new_id job_data uid w =
     (let j = \<lparr>url = jc_url job_data, schema_definition = jc_schema_definition job_data,
                status = ''pending'', error_message = None, user_id = uid\<rparr>
      in case commit e (db_add_job new_id j (db w)) (Active, w) of
           (Inr _, s1, w1) \<Rightarrow> (Inr (new_id, j), w1)
         | (Inl ex, s1, w1) \<Rightarrow>
             if is_exception ex
             then (Inl (PyExc ''Exception'' (''Failed to create scraping job: '' @ exc_text ex)), w1)
             else (Inl ex, w1))"

text \<open>
  \<open>start_scraping_job\<close>, on the session of the request: the body of its \<open>try\<close>, in
  which the task is created and registered, not run, and the handler that raises again
  with the prefix.
\<close>

definition start_try ::
    "env \<Rightarrow> job_id \<Rightarrow> world \<Rightarrow> (exn + (string, string) dict) \<times> world" where
  "start_try e job_id w =
     (case map_of (jobs (db w)) job_id of
        None \<Rightarrow> (Inl (PyExc ''Exception'' (''Job '' @ job_id @ '' not found'')), w)
      | Some j \<Rightarrow>
          if status j \<noteq> ''pending''
          then (Inl (PyExc ''Exception'' (''Job '' @ job_id @ '' is not in pending status'')), w)
          else (case update_job_status e job_id ''running'' None (Active, w) of
                  (Inl ex, s1, w1) \<Rightarrow> (Inl ex, w1)
                | (Inr _, s1, w1) \<Rightarrow>
                   (let t = \<lparr>t_job_id = job_id, t_url = url j, t_schema = schema_definition j\<rparr>;
                        w2 = w1\<lparr>active_jobs := AList.update job_id t (active_jobs w1)\<rparr>
                    in (Inr [(''status'', ''started''), (''job_id'', job_id),
                             (''message'', ''Scraping job started successfully'')], w2))))"

definition start_scraping_job ::
    "env \<Rightarrow> job_id \<Rightarrow> world \<Rightarrow> (exn + (string, string) dict) \<times> world" where
  "start_scraping_job e job_id w =
     (case start_try e job_id w of
        (Inr reply, w1) \<Rightarrow> (Inr reply, w1)
      | (Inl ex, w1) \<Rightarrow>
          if is_exception ex
          then (Inl (PyExc ''Exception'' (''Failed to start scraping job: '' @ exc_text ex)), w1)
          else (Inl ex, w1))"

text \<open>
  The body of the \<open>try\<close> of \<open>_execute_scraping_job\<close>, on the session the function opens:
  its outcome, the session and the state it leaves.
\<close>

definition execute_try ::
    "env \<Rightarrow> job_id \<Rightarrow> string \<Rightarrow> (string, json) dict \<Rightarrow> world \<Rightarrow> (exn + unit) \<times> session \<times> world" where
  "execute_try e job_id u schema w =
     (let w1 = log_job_progress e job_id ''started'' ''Initializing scraping job'' w;
          w2 = log_job_progress e job_id ''generating_script''
                 ''AI is generating extraction script'' w1
      in case analyze_webpage_and_generate_script e u schema of
           Inl ex \<Rightarrow> (Inl ex, Active, w2)
         | Inr script_result \<Rightarrow>
             if sr_status script_result \<noteq> ''success''
             then (Inl (PyExc ''Exception'' (''Script generation failed: '' @
                     (case sr_error script_result of None \<Rightarrow> ''Unknown error'' | Some t \<Rightarrow> t))),
                   Active, w2)
             else (case sr_script script_result of
                 None \<Rightarrow> (Inl (PyExc ''TypeError'' ''object of type 'NoneType' has no len()''),
                           Active, w2)
               | Some script \<Rightarrow>
                  (let w3 = log_job_progress e job_id ''script_ready''
                              (''Generated '' @ str_nat (length script) @ '' character script'') w2
                   in case commit e (db_add_script job_id script (db w3)) (Active, w3) of
                        (Inl ex, s4, w4) \<Rightarrow> (Inl ex, s4, w4)
                      | (Inr _, s4, w4) \<Rightarrow>
                         (let w5 = log_job_progress e job_id ''extracting''
                                     ''Executing script and extracting data'' w4
                          in case execute_extraction_script e u script schema of
                               Inl ex \<Rightarrow> (Inl ex, s4, w5)
                             | Inr extraction_result \<Rightarrow>
                                 if er_status extraction_result \<noteq> ''success''
                                 then (Inl (PyExc ''Exception'' (''Extraction failed: '' @
                                         (case er_error extraction_result of
                                            None \<Rightarrow> ''Unknown error'' | Some t \<Rightarrow> t))), s4, w5)
                                 else (let n = er_data_count extraction_result;
                                           w6 = log_job_progress e job_id ''data_extracted''
                                                  (''Successfully extracted '' @ str_int n @ '' items'') w5
                                       in case commit e (db_add_data job_id
                                                 (er_data extraction_result) n (db w6)) (s4, w6) of
                                            (Inl ex, s7, w7) \<Rightarrow> (Inl ex, s7, w7)
                                          | (Inr _, s7, w7) \<Rightarrow>
                                             (let w8 = log_job_progress e job_id ''completed''
                                                         (''Job completed successfully with '' @
                                                          str_int n @ '' items'') w7
                                              in update_job_status e job_id ''completed'' None
                                                   (s7, w8)))))))"

text \<open>
  The \<open>except Exception\<close> handler, on the same session (the function never rolls it
  back), and the \<open>finally\<close> clause.
\<close>

definition execute_except ::
    "env \<Rightarrow> job_id \<Rightarrow> exn \<Rightarrow> session \<times> world \<Rightarrow> (exn + unit) \<times> session \<times> world" where
  "execute_except e job_id ex sw =
     (let error_message = exc_text ex;
          w1 = log_job_progress e job_id ''failed'' (''Job failed: '' @ error_message) (snd sw)
      in update_job_status e job_id ''failed'' (Some error_message) (fst sw, w1))"

definition execute_finally :: "job_id \<Rightarrow> world \<Rightarrow> world" where
  "execute_finally job_id w =
     (if job_id \<in> set (keys (active_jobs w))
      then w\<lparr>active_jobs := AList.delete job_id (active_jobs w)\<rparr> else w)"

text \<open>
  \<open>_execute_scraping_job\<close>: how the coroutine ends (\<open>Inl\<close> is an exception that leaves
  it) and the state it leaves. An exception that is no \<open>Exception\<close> passes the handler;
  an exception raised in the handler leaves the function; \<open>finally\<close> runs in every case.
\<close>

definition execute_scraping_job ::
    "env \<Rightarrow> job_id \<Rightarrow> string \<Rightarrow> (string, json) dict \<Rightarrow> world \<Rightarrow> (exn + unit) \<times> world" where
  "execute_scraping_job e job_id u schema w =
     (case execute_try e job_id u schema w of
        (Inr _, s1, w1) \<Rightarrow> (Inr (), execute_finally job_id w1)
      | (Inl ex, s1, w1) \<Rightarrow>
          if is_exception ex
          then (case execute_except e job_id ex (s1, w1) of
                  (r, s2, w2) \<Rightarrow> (r, execute_finally job_id w2))
          else (Inl ex, execute_finally job_id w1))"

text \<open>Readers of the store.\<close>

definition job_status :: "db \<Rightarrow> job_id \<Rightarrow> string option" where
  "job_status d job_id = map_option status (map_of (jobs d) job_id)"

definition job_scripts :: "db \<Rightarrow> job_id \<Rightarrow> generated_script list" where
  "job_scripts d job_id = filter (\<lambda>s. gs_job_id s = job_id) (scripts d)"

definition job_results :: "db \<Rightarrow> job_id \<Rightarrow> extracted_data list" where
  "job_results d job_id = filter (\<lambda>r. ed_job_id r = job_id) (extracted d)"

text \<open>The messages one client has taken, in order.\<close>

definition delivered :: "client_id \<Rightarrow> world \<Rightarrow> message list" where
  "delivered c w = map snd (filter (\<lambda>(c', m). c' = c) (outbox w))"

text \<open>A client with an entry in \<open>active_connections\<close> (a dictionary: its keys are distinct).\<close>

definition live :: "client_id \<Rightarrow> websocket \<Rightarrow> world \<Rightarrow> bool" where
  "live c ws w \<longleftrightarrow>
     distinct (map fst (active_connections (manager w))) \<and>
     map_of (active_connections (manager w)) c = Some ws"


section \<open>The extraction analyzer (app/services/extraction_analyzer.py)\<close>

subsection \<open>Strings and values as Python handles them\<close>

text \<open>
  Text is ASCII here: \<open>lower\<close> folds the letters A to Z, and the case-insensitive
  pattern of \<open>re.findall\<close> is matched on the folded text.
\<close>

definition lower_char :: "char \<Rightarrow> char" where
  "lower_char c =
     (let n = (of_char c :: nat) in if 65 \<le> n \<and> n \<le> 90 then char_of (n + 32) else c)"

definition lower :: "string \<Rightarrow> string" where
  "lower s = map lower_char s"

text \<open>\<open>sub in s\<close> for strings.\<close>

fun starts_with :: "string \<Rightarrow> string \<Rightarrow> bool" where
  "starts_with [] s = True"
| "starts_with (x # xs) [] = False"
| "starts_with (x # xs) (y # ys) = (x = y \<and> starts_with xs ys)"

fun py_in :: "string \<Rightarrow> string \<Rightarrow> bool" where
  "py_in sub [] = (sub = [])"
| "py_in sub (y # ys) = (starts_with sub (y # ys) \<or> py_in sub ys)"

text \<open>
  \<open>len(re.findall(r'<script[^>]*>', html, re.IGNORECASE))\<close>: the matches are taken
  from left to right without overlap; a match runs from \<open><script\<close> to the next \<open>>\<close>.
\<close>

function count_script_tags :: "string \<Rightarrow> nat" where
  "count_script_tags [] = 0"
| "count_script_tags (x # xs) =
     (if starts_with ''<script'' (lower (x # xs))
      then (case dropWhile (\<lambda>c. c \<noteq> CHR ''>'') (drop 7 (x # xs)) of
              [] \<Rightarrow> count_script_tags xs
            | _ # rest \<Rightarrow> Suc (count_script_tags rest))
      else count_script_tags xs)"
  by pat_completeness auto
termination
proof (relation "measure length")
  fix x :: char and xs x21 x22
  assume "dropWhile (\<lambda>c. c \<noteq> CHR ''>'') (drop 7 (x # xs)) = x21 # x22"
  then have "length (x21 # x22) \<le> length (drop 7 (x # xs))"
    by (metis length_dropWhile_le)
  then show "(x22, x # xs) \<in> measure length"
    by simp
qed simp_all

text \<open>\<open>s.replace(old, new)\<close> for a one-character \<open>old\<close>.\<close>

definition replace_char :: "char \<Rightarrow> string \<Rightarrow> string \<Rightarrow> string" where
  "replace_char old new s = concat (map (\<lambda>c. if c = old then new else [c]) s)"

text \<open>Type names, truth values, and \<open>d.get(k, default)\<close>.\<close>

fun type_name :: "json \<Rightarrow> string" where
  "type_name JNull = ''NoneType''"
| "type_name (JBool b) = ''bool''"
| "type_name (JInt i) = ''int''"
| "type_name (JFloat r) = ''float''"
| "type_name (JStr s) = ''str''"
| "type_name (JList l) = ''list''"
| "type_name (JDict d) = ''dict''"

fun truthy :: "json \<Rightarrow> bool" where
  "truthy JNull = False"
| "truthy (JBool b) = b"
| "truthy (JInt i) = (i \<noteq> 0)"
| "truthy (JFloat r) = (r \<noteq> 0)"
| "truthy (JStr s) = (s \<noteq> [])"
| "truthy (JList l) = (l \<noteq> [])"
| "truthy (JDict d) = (d \<noteq> [])"

definition get_default :: "(string, json) dict \<Rightarrow> string \<Rightarrow> json \<Rightarrow> json" where
  "get_default d k dflt = (case map_of d k of None \<Rightarrow> dflt | Some v \<Rightarrow> v)"

text \<open>\<open>x.items()\<close>, \<open>len(x)\<close> and \<open>x > n\<close> raise on the values that do not support them.\<close>

definition quoted :: "string \<Rightarrow> string" where
  "quoted s = [CHR 0x27] @ s @ [CHR 0x27]"

text \<open>\<open>x.items()\<close> and \<open>x.keys()\<close>: the entries of a dictionary, in order.\<close>

fun dict_method :: "string \<Rightarrow> json \<Rightarrow> exn + (string, json) dict" where
  "dict_method name (JDict d) = Inr d"
| "dict_method name v = Inl (PyExc ''AttributeError''
     (quoted (type_name v) @ '' object has no attribute '' @ quoted name))"

fun py_len :: "json \<Rightarrow> exn + nat" where
  "py_len (JDict d) = Inr (length d)"
| "py_len (JList l) = Inr (length l)"
| "py_len (JStr s) = Inr (length s)"
| "py_len v = Inl (PyExc ''TypeError'' (''object of type '' @ quoted (type_name v) @ '' has no len()''))"

fun py_gt :: "json \<Rightarrow> rat \<Rightarrow> exn + bool" where
  "py_gt (JInt i) n = Inr (of_int i > n)"
| "py_gt (JFloat r) n = Inr (r > n)"
| "py_gt (JBool b) n = Inr ((if b then 1 else 0) > n)"
| "py_gt v n = Inl (PyExc ''TypeError''
     (quoted ''>'' @ '' not supported between instances of '' @ quoted (type_name v) @
      '' and '' @ quoted ''int''))"

fun py_replace :: "json \<Rightarrow> char \<Rightarrow> string \<Rightarrow> exn + string" where
  "py_replace (JStr s) old new = Inr (replace_char old new s)"
| "py_replace v old new = Inl (PyExc ''AttributeError''
     (quoted (type_name v) @ '' object has no attribute '' @ quoted ''replace''))"

text \<open>
  A formatted string is kept as its pieces: literal text, and the values that \<open>str()\<close>
  renders into it.
\<close>

datatype fpart = Lit string | Val json

type_synonym fstring = "fpart list"


subsection \<open>The factors\<close>

record factor =
  f_score :: rat
  f_reasons :: "fstring list"

definition js_frameworks :: "string list" where
  "js_frameworks = [''react'', ''angular'', ''vue'', ''svelte'', ''ember'',
     ''backbone'', ''knockout'', ''polymer'', ''lit'']"

definition spa_indicators :: "string list" where
  "spa_indicators = [''data-reactroot'', ''ng-app'', ''ng-version'', ''v-if'', ''v-for'',
     ''__NEXT_DATA__'', ''__NUXT__'', ''gatsby'', ''webpack'']"

definition heavy_js_domains :: "string list" where
  "heavy_js_domains = [''linkedin.com'', ''facebook.com'', ''twitter.com'', ''instagram.com'',
     ''youtube.com'', ''netflix.com'', ''spotify.com'', ''slack.com'',
     ''discord.com'', ''figma.com'', ''notion.so'', ''airtable.com'']"

text \<open>\<open>score += w; reasons.append(r)\<close>, and the same under a test for each element of a list.\<close>

definition bump :: "rat \<Rightarrow> fstring \<Rightarrow> factor \<Rightarrow> factor" where
  "bump w r f = \<lparr>f_score = f_score f + w, f_reasons = f_reasons f @ [r]\<rparr>"

fun bump_each :: "(string \<Rightarrow> bool) \<Rightarrow> rat \<Rightarrow> (string \<Rightarrow> fstring) \<Rightarrow> string list \<Rightarrow> factor \<Rightarrow> factor" where
  "bump_each p w r [] f = f"
| "bump_each p w r (x # xs) f = bump_each p w r xs (if p x then bump w (r x) f else f)"

text \<open>\<open>{"score": min(score, 1.0), "reasons": reasons}\<close>.\<close>

definition clamped :: "factor \<Rightarrow> factor" where
  "clamped f = \<lparr>f_score = min (f_score f) 1, f_reasons = f_reasons f\<rparr>"

definition analyze_domain_complexity :: "string \<Rightarrow> factor" where
  "analyze_domain_complexity domain =
     (let f0 = \<lparr>f_score = 0, f_reasons = []\<rparr>;
          f1 = (case find (\<lambda>d. py_in d domain) heavy_js_domains of
                  Some d \<Rightarrow> bump (8/10) [Lit (''Known heavy JavaScript domain: '' @ d)] f0
                | None \<Rightarrow> f0);
          f2 = (if list_ex (\<lambda>i. py_in i domain)
                     [''facebook'', ''twitter'', ''instagram'', ''linkedin'', ''tiktok'']
                then bump (7/10) [Lit ''Social media platform - requires complex interaction''] f1
                else f1);
          f3 = (if list_ex (\<lambda>i. py_in i domain)
                     [''amazon'', ''ebay'', ''shopify'', ''etsy'', ''alibaba'']
                then bump (5/10) [Lit ''E-commerce platform - dynamic pricing and inventory''] f2
                else f2);
          f4 = (if list_ex (\<lambda>i. py_in i domain)
                     [''app'', ''dashboard'', ''admin'', ''portal'', ''console'']
                then bump (6/10) [Lit ''SaaS application - likely requires authentication''] f3
                else f3)
      in clamped f4)"

definition analyze_html_complexity :: "string \<Rightarrow> factor" where
  "analyze_html_complexity html_content =
     (let f0 = \<lparr>f_score = 0, f_reasons = []\<rparr>;
          f1 = bump_each (\<lambda>framework. py_in (lower framework) (lower html_content)) (3/10)
                 (\<lambda>framework. [Lit (''JavaScript framework detected: '' @ framework)])
                 js_frameworks f0;
          f2 = bump_each (\<lambda>indicator. py_in indicator html_content) (4/10)
                 (\<lambda>indicator. [Lit (''Single Page Application indicator: '' @ indicator)])
                 spa_indicators f1;
          script_count = count_script_tags html_content;
          f3 = (if script_count > 20
                then bump (5/10) [Lit (''High number of script tags: '' @ str_nat script_count)] f2
                else if script_count > 10
                then bump (3/10) [Lit (''Moderate number of script tags: '' @ str_nat script_count)] f2
                else f2);
          dynamic_count = length (filter (\<lambda>indicator. py_in indicator (lower html_content))
                 [''data-bind'', ''ng-'', ''v-'', ''@click'', ''onclick'',
                  ''data-react'', ''data-vue'', ''x-data'', ''wire:'']);
          f4 = (if dynamic_count > 10
                then bump (4/10) [Lit (''High dynamic content indicators: '' @ str_nat dynamic_count)] f3
                else if dynamic_count > 5
                then bump (2/10)
                       [Lit (''Moderate dynamic content indicators: '' @ str_nat dynamic_count)] f3
                else f3);
          f5 = (if list_ex (\<lambda>indicator. py_in indicator (lower html_content))
                     [''loading'', ''spinner'', ''skeleton'', ''placeholder'']
                then bump (3/10) [Lit ''Loading indicators suggest dynamic content''] f4
                else f4);
          ajax_count = length (filter (\<lambda>pattern. py_in pattern html_content)
                 [''fetch('', ''axios'', ''XMLHttpRequest'', ''$.ajax'', ''$.get'', ''$.post'']);
          f6 = (if ajax_count > 0
                then bump (4/10) [Lit (''AJAX/fetch patterns detected: '' @ str_nat ajax_count)] f5
                else f5)
      in clamped f6)"

text \<open>
  \<open>fields\<close>, as \<open>_analyze_schema_complexity\<close>, \<open>_generate_zod_validation\<close> and
  \<open>_generate_extraction_hints\<close> take it from the schema.
\<close>

definition schema_fields :: "(string, json) dict \<Rightarrow> json" where
  "schema_fields schema =
     (if map_of schema ''type'' = Some (JStr ''array'')
      then get_default schema ''items'' (JDict [])
      else get_default schema ''properties'' (JDict []))"

text \<open>The two tests on a field's configuration in \<open>_analyze_schema_complexity\<close>.\<close>

fun is_complex_field :: "json \<Rightarrow> bool" where
  "is_complex_field (JDict field_config) =
     (let field_type = get_default field_config ''type'' (JStr ''string'')
      in field_type = JStr ''array'' \<or> field_type = JStr ''object'')"
| "is_complex_field v = False"

fun has_validation_pattern :: "json \<Rightarrow> bool" where
  "has_validation_pattern (JDict field_config) =
     truthy (get_default field_config ''validationPattern'' JNull)"
| "has_validation_pattern v = False"

text \<open>The loop that counts the complex fields and adds 0.2 to the score for each.\<close>

fun complex_loop :: "(string \<times> json) list \<Rightarrow> nat \<times> rat \<Rightarrow> nat \<times> rat" where
  "complex_loop [] acc = acc"
| "complex_loop ((field_name, field_config) # rest) (complex_fields, score) =
     complex_loop rest
       (if is_complex_field field_config then (complex_fields + 1, score + 2/10)
        else (complex_fields, score))"

definition analyze_schema_complexity :: "(string, json) dict \<Rightarrow> exn + factor" where
  "analyze_schema_complexity schema =
     (let f0 = \<lparr>f_score = 0, f_reasons = []\<rparr>;
          fields = schema_fields schema
      in case py_len fields of
           Inl ex \<Rightarrow> Inl ex
         | Inr field_count \<Rightarrow>
            (let f1 = (if field_count > 15
                       then bump (3/10)
                              [Lit (''High number of fields to extract: '' @ str_nat field_count)] f0
                       else if field_count > 8
                       then bump (1/10)
                              [Lit (''Moderate number of fields to extract: '' @ str_nat field_count)] f0
                       else f0)
             in case dict_method ''items'' fields of
                  Inl ex \<Rightarrow> Inl ex
                | Inr items \<Rightarrow>
                   (let (complex_fields, score) = complex_loop items (0, f_score f1);
                        f2 = \<lparr>f_score = score,
                              f_reasons = (if complex_fields > 0
                                 then f_reasons f1 @ [[Lit (''Complex field types detected: '' @
                                        str_nat complex_fields @ '' array/object fields'')]]
                                 else f_reasons f1)\<rparr>;
                        pattern_fields = length (filter (\<lambda>(field_name, field_config).
                                           has_validation_pattern field_config) items);
                        f3 = (if pattern_fields > 3
                              then bump (1/10)
                                     [Lit (''Multiple validation patterns: '' @ str_nat pattern_fields)] f2
                              else f2)
                    in Inr (clamped f3))))"

text \<open>
  \<open>_analyze_page_metrics\<close>. Each threshold test is a comparison of a value of the
  dictionary with a number, which raises on a value that is no number.
\<close>

definition analyze_page_metrics :: "(string, json) dict \<Rightarrow> exn + factor" where
  "analyze_page_metrics page_metrics =
     (let f0 = \<lparr>f_score = 0, f_reasons = []\<rparr>;
          load_time = get_default page_metrics ''load_time'' (JInt 0);
          request_count = get_default page_metrics ''network_requests'' (JInt 0);
          js_time = get_default page_metrics ''js_execution_time'' (JInt 0)
      in case py_gt load_time 10 of
           Inl ex \<Rightarrow> Inl ex
         | Inr slow \<Rightarrow>
          (case (if slow then Inr False else py_gt load_time 5) of
             Inl ex \<Rightarrow> Inl ex
           | Inr moderate \<Rightarrow>
            (let f1 = (if slow
                       then bump (5/10) [Lit ''Slow page load time: '', Val load_time, Lit ''s''] f0
                       else if moderate
                       then bump (2/10) [Lit ''Moderate page load time: '', Val load_time, Lit ''s''] f0
                       else f0)
             in case py_gt request_count 100 of
                  Inl ex \<Rightarrow> Inl ex
                | Inr many \<Rightarrow>
                 (case (if many then Inr False else py_gt request_count 50) of
                    Inl ex \<Rightarrow> Inl ex
                  | Inr some \<Rightarrow>
                   (let f2 = (if many
                              then bump (4/10)
                                     [Lit ''High number of network requests: '', Val request_count] f1
                              else if some
                              then bump (2/10)
                                     [Lit ''Moderate number of network requests: '', Val request_count] f1
                              else f1)
                    in case py_gt js_time 5 of
                         Inl ex \<Rightarrow> Inl ex
                       | Inr long \<Rightarrow>
                          (let f3 = (if long
                                     then bump (3/10)
                                            [Lit ''High JavaScript execution time: '', Val js_time,
                                             Lit ''s''] f2
                                     else f2)
                           in Inr (clamped f3)))))))"

subsection \<open>Interaction, validation schema and hints\<close>

definition requires_user_interaction :: "string \<Rightarrow> (string, json) dict \<Rightarrow> string \<Rightarrow> bool" where
  "requires_user_interaction html_content schema domain =
     (if list_ex (\<lambda>indicator. py_in indicator (lower html_content))
           [''login'', ''sign in'', ''authenticate'', ''password'',
            ''data-requires-auth'', ''protected'', ''unauthorized'']
      then True
      else if list_ex (\<lambda>indicator. py_in indicator (lower html_content))
           [''load more'', ''show more'', ''next page'', ''pagination'',
            ''infinite-scroll'', ''lazy-load'']
      then True
      else if list_ex (\<lambda>indicator. py_in indicator (lower html_content))
           [''modal'', ''popup'', ''dialog'', ''overlay'']
      then True
      else if list_ex (\<lambda>domain_check. py_in domain_check domain)
           [''linkedin.com'', ''facebook.com'', ''instagram.com'',
            ''twitter.com'', ''discord.com'', ''slack.com'']
      then True
      else False)"

text \<open>
  The Zod type of one field. The values of \<open>minLength\<close> and \<open>maxLength\<close> are formatted
  into the text; \<open>validationPattern\<close> and \<open>description\<close> are passed through
  \<open>.replace\<close>, which a value that is no string does not have.
\<close>

definition zod_type_of :: "(string, json) dict \<Rightarrow> exn + fstring" where
  "zod_type_of field_config =
     (let field_type = get_default field_config ''type'' (JStr ''string'');
          is_required = get_default field_config ''required'' (JBool False);
          min_length = get_default field_config ''minLength'' JNull;
          max_length = get_default field_config ''maxLength'' JNull;
          validation_pattern = get_default field_config ''validationPattern'' JNull;
          description = get_default field_config ''description'' JNull;
          base =
            (if field_type = JStr ''string''
             then (let z0 = [Lit ''z.string()''];
                       z1 = (if truthy min_length
                             then z0 @ [Lit ''.min('', Val min_length, Lit '')''] else z0);
                       z2 = (if truthy max_length
                             then z1 @ [Lit ''.max('', Val max_length, Lit '')''] else z1)
                   in if truthy validation_pattern
                      then (case py_replace validation_pattern (CHR 0x5C) [CHR 0x5C, CHR 0x5C] of
                              Inl ex \<Rightarrow> Inl ex
                            | Inr pattern \<Rightarrow> Inr (z2 @ [Lit (''.regex(/'' @ pattern @ ''/)'')]))
                      else Inr z2)
             else if field_type = JStr ''number'' then Inr [Lit ''z.number()'']
             else if field_type = JStr ''boolean'' then Inr [Lit ''z.boolean()'']
             else if field_type = JStr ''array'' then Inr [Lit ''z.array(z.string())'']
             else Inr [Lit ''z.string()''])
      in case base of
           Inl ex \<Rightarrow> Inl ex
         | Inr z \<Rightarrow>
            (let z3 = (if \<not> truthy is_required then z @ [Lit ''.optional()''] else z)
             in if truthy description
                then (case py_replace description (CHR 0x22) [CHR 0x5C, CHR 0x22] of
                        Inl ex \<Rightarrow> Inl ex
                      | Inr d \<Rightarrow> Inr (z3 @ [Lit (''.describe('' @ [CHR 0x22] @ d @ [CHR 0x22] @ '')'')]))
                else Inr z3))"

fun zod_loop :: "(string \<times> json) list \<Rightarrow> (string, fstring) dict \<Rightarrow> exn + (string, fstring) dict" where
  "zod_loop [] zod_schema = Inr zod_schema"
| "zod_loop ((field_name, JDict field_config) # rest) zod_schema =
     (case zod_type_of field_config of
        Inl ex \<Rightarrow> Inl ex
      | Inr zod_type \<Rightarrow> zod_loop rest (AList.update field_name zod_type zod_schema))"
| "zod_loop ((field_name, v) # rest) zod_schema = zod_loop rest zod_schema"

text \<open>The result of \<open>_generate_zod_validation\<close> (its \<open>generated_at\<close> time is left out).\<close>

record zod =
  schema_type :: json
  zod_fields :: "(string, fstring) dict"

definition generate_zod_validation :: "(string, json) dict \<Rightarrow> exn + zod" where
  "generate_zod_validation schema =
     (case dict_method ''items'' (schema_fields schema) of
        Inl ex \<Rightarrow> Inl ex
      | Inr items \<Rightarrow>
         (case zod_loop items [] of
            Inl ex \<Rightarrow> Inl ex
          | Inr zod_schema \<Rightarrow>
              Inr \<lparr>schema_type = get_default schema ''type'' (JStr ''object''),
                   zod_fields = zod_schema\<rparr>))"

definition field_hint :: "string \<Rightarrow> string list" where
  "field_hint field_name =
     (if py_in ''title'' (lower field_name)
      then [''Title field - prioritize h1, h2, .title, .headline selectors'']
      else if py_in ''price'' (lower field_name)
      then [''Price field - look for currency symbols and .price, .cost selectors'']
      else if py_in ''image'' (lower field_name)
      then [''Image field - extract from img src attributes'']
      else [])"

definition generate_extraction_hints :: "(string, json) dict \<Rightarrow> string \<Rightarrow> exn + string list" where
  "generate_extraction_hints schema html_content =
     (let h1 = (if py_in ''<article'' html_content
                then [''Page contains <article> tags - likely news/blog content''] else []);
          h2 = (if py_in ''product'' (lower html_content)
                then [''Product-related content detected - use e-commerce selectors''] else []);
          h3 = (if py_in ''price'' (lower html_content)
                then [''Price information detected - look for currency symbols''] else []);
          h4 = (if py_in ''rating'' (lower html_content)
                     \<or> py_in [CHR 0xE2, CHR 0x98, CHR 0x85] html_content
                then [''Rating/review content detected''] else []);
          h5 = (if map_of schema ''type'' = Some (JStr ''array'')
                then [''Array schema - look for repeated elements/lists''] else [])
      in case dict_method ''keys'' (schema_fields schema) of
           Inl ex \<Rightarrow> Inl ex
         | Inr items \<Rightarrow> Inr (h1 @ h2 @ h3 @ h4 @ h5 @ concat (map (\<lambda>(field_name, v). field_hint field_name) items)))"

subsection \<open>The analysis\<close>

text \<open>
  The dictionary \<open>analysis\<close>; \<open>extraction_method\<close> is its entry \<open>"method"\<close>, which is
  \<open>"javascript"\<close> or \<open>"playwright"\<close>.
\<close>

record analysis =
  extraction_method :: string
  complexity_score :: rat
  reasons :: "fstring list"
  estimated_load_time :: int
  requires_interaction :: bool
  zod_validation :: zod
  extraction_hints :: "string list"

text \<open>
  The list \<open>complexity_factors\<close>: domain, content and schema, and the page metrics when
  \<open>page_metrics\<close> is given and not empty.
\<close>

definition complexity_factors ::
    "string \<Rightarrow> string \<Rightarrow> (string, json) dict \<Rightarrow> (string, json) dict option \<Rightarrow> exn + factor list" where
  "complexity_factors domain html_content schema page_metrics =
     (let domain_complexity = analyze_domain_complexity domain;
          content_complexity = analyze_html_complexity html_content
      in case analyze_schema_complexity schema of
           Inl ex \<Rightarrow> Inl ex
         | Inr schema_complexity \<Rightarrow>
            (case page_metrics of
               None \<Rightarrow> Inr [domain_complexity, content_complexity, schema_complexity]
             | Some m \<Rightarrow>
                if m = [] then Inr [domain_complexity, content_complexity, schema_complexity]
                else (case analyze_page_metrics m of
                        Inl ex \<Rightarrow> Inl ex
                      | Inr metrics_complexity \<Rightarrow>
                          Inr [domain_complexity, content_complexity, schema_complexity,
                               metrics_complexity])))"

text \<open>
  The body of the \<open>try\<close> of \<open>analyze_extraction_requirements\<close>. \<open>netloc\<close> stands for
  \<open>urlparse(url).netloc\<close> of the standard library, which returns the host part of the
  url or raises \<open>ValueError\<close>.
\<close>

definition analyze_try ::
    "(string \<Rightarrow> exn + string) \<Rightarrow> string \<Rightarrow> string \<Rightarrow> (string, json) dict
      \<Rightarrow> (string, json) dict option \<Rightarrow> exn + analysis" where
  "analyze_try netloc u html_content schema page_metrics =
     (case netloc u of
        Inl ex \<Rightarrow> Inl ex
      | Inr host \<Rightarrow>
         (let domain = lower host
          in case generate_zod_validation schema of
               Inl ex \<Rightarrow> Inl ex
             | Inr zod \<Rightarrow>
                (case generate_extraction_hints schema html_content of
                   Inl ex \<Rightarrow> Inl ex
                 | Inr hints \<Rightarrow>
                    (case complexity_factors domain html_content schema page_metrics of
                       Inl ex \<Rightarrow> Inl ex
                     | Inr factors \<Rightarrow>
                        (let score = sum_list (map f_score factors) / of_nat (length factors);
                             rs = concat (map f_reasons factors);
                             m = (if score > 6/10 then ''playwright'' else ''javascript'');
                             t = (if score > 6/10 then min 90 \<lfloor>10 + score * 80\<rfloor>
                                  else min 15 \<lfloor>3 + score * 12\<rfloor>);
                             interaction = requires_user_interaction html_content
                                             schema domain
                         in Inr \<lparr>extraction_method = (if interaction then ''playwright'' else m),
                                 complexity_score = score,
                                 reasons = (if interaction
                                   then rs @ [[Lit ''Requires user interaction (clicks, scrolling, form filling)'']]
                                   else rs),
                                 estimated_load_time = t,
                                 requires_interaction = interaction,
                                 zod_validation = zod,
                                 extraction_hints = hints\<rparr>)))))"

text \<open>
  \<open>analyze_extraction_requirements\<close>: the \<open>except Exception\<close> handler builds the
  fallback, and calls \<open>_generate_zod_validation\<close> again to do so. \<open>Inl\<close> is an exception
  that reaches the caller.
\<close>

definition analyze_extraction_requirements ::
    "(string \<Rightarrow> exn + string) \<Rightarrow> string \<Rightarrow> string \<Rightarrow> (string, json) dict
      \<Rightarrow> (string, json) dict option \<Rightarrow> exn + analysis" where
  "analyze_extraction_requirements netloc u html_content schema page_metrics =
     (case analyze_try netloc u html_content schema page_metrics of
        Inr a \<Rightarrow> Inr a
      | Inl e \<Rightarrow>
         (case generate_zod_validation schema of
            Inl ex \<Rightarrow> Inl ex
          | Inr zod \<Rightarrow>
              Inr \<lparr>extraction_method = ''playwright'',
                   complexity_score = 8/10,
                   reasons = [[Lit (''Analysis error, defaulting to Playwright: '' @ exc_text e)]],
                   estimated_load_time = 30,
                   requires_interaction = False,
                   zod_validation = zod,
                   extraction_hints = []\<rparr>))"

text \<open>A factor that was computed has its score between 0 and 1.\<close>

definition in_unit :: "exn + factor \<Rightarrow> bool" where
  "in_unit r = (case r of Inl ex \<Rightarrow> True | Inr f \<Rightarrow> 0 \<le> f_score f \<and> f_score f \<le> 1)"


section \<open>Concrete collaborators and states\<close>

text \<open>
  \<open>env_ok\<close>: script generation and extraction succeed, every socket takes every message,
  the database accepts every commit. \<open>env_silent\<close>: the extraction raises an exception
  whose text is empty (as \<open>NotImplementedError()\<close> is). \<open>env_fail\<close>: the extraction
  returns an error. \<open>env_cancelled\<close>: the task is cancelled while it waits for the
  extraction. \<open>env_connection_lost\<close>: the database accepts the first commit and refuses
  the later ones. \<open>env_postgres\<close>: the database enforces the column bounds of
  app/models/scraping.py (\<open>url String(500)\<close>, \<open>status String(50)\<close>,
  \<open>user_id String(100)\<close>), as PostgreSQL does.
\<close>

definition session_error :: exn where
  "session_error = PyExc ''PendingRollbackError''
     ''This Session's transaction has been rolled back due to a previous exception during flush.''"

definition env_ok :: env where
  "env_ok =
     \<lparr>analyze_webpage_and_generate_script =
        (\<lambda>u schema. Inr \<lparr>sr_status = ''success'', sr_error = None, sr_script = Some ''return [];''\<rparr>),
      execute_extraction_script =
        (\<lambda>u script schema. Inr \<lparr>er_status = ''success'', er_error = None, er_data = JList [],
                                 er_data_count = 0\<rparr>),
      send_text = (\<lambda>ws m. True),
      db_commit = (\<lambda>n d. None),
      pending_rollback = session_error\<rparr>"

definition env_silent :: env where
  "env_silent =
     \<lparr>analyze_webpage_and_generate_script =
        (\<lambda>u schema. Inr \<lparr>sr_status = ''success'', sr_error = None, sr_script = Some ''return [];''\<rparr>),
      execute_extraction_script = (\<lambda>u script schema. Inl (PyExc ''NotImplementedError'' [])),
      send_text = (\<lambda>ws m. True),
      db_commit = (\<lambda>n d. None),
      pending_rollback = session_error\<rparr>"

definition env_fail :: env where
  "env_fail =
     \<lparr>analyze_webpage_and_generate_script =
        (\<lambda>u schema. Inr \<lparr>sr_status = ''success'', sr_error = None, sr_script = Some ''return [];''\<rparr>),
      execute_extraction_script =
        (\<lambda>u script schema. Inr \<lparr>er_status = ''error'', er_error = Some ''Page crashed'',
                                 er_data = JDict [], er_data_count = 0\<rparr>),
      send_text = (\<lambda>ws m. True),
      db_commit = (\<lambda>n d. None),
      pending_rollback = session_error\<rparr>"

definition env_cancelled :: env where
  "env_cancelled =
     \<lparr>analyze_webpage_and_generate_script =
        (\<lambda>u schema. Inr \<lparr>sr_status = ''success'', sr_error = None, sr_script = Some ''return [];''\<rparr>),
      execute_extraction_script = (\<lambda>u script schema. Inl (PyExc ''CancelledError'' [])),
      send_text = (\<lambda>ws m. True),
      db_commit = (\<lambda>n d. None),
      pending_rollback = session_error\<rparr>"

definition env_connection_lost :: env where
  "env_connection_lost =
     \<lparr>analyze_webpage_and_generate_script =
        (\<lambda>u schema. Inr \<lparr>sr_status = ''success'', sr_error = None, sr_script = Some ''return [];''\<rparr>),
      execute_extraction_script =
        (\<lambda>u script schema. Inr \<lparr>er_status = ''success'', er_error = None, er_data = JList [],
                                 er_data_count = 0\<rparr>),
      send_text = (\<lambda>ws m. True),
      db_commit = (\<lambda>n d. if n = 0 then None
                           else Some (PyExc ''OperationalError'' ''connection was closed'')),
      pending_rollback = session_error\<rparr>"

definition env_postgres :: env where
  "env_postgres =
     \<lparr>analyze_webpage_and_generate_script =
        (\<lambda>u schema. Inr \<lparr>sr_status = ''success'', sr_error = None, sr_script = Some ''return [];''\<rparr>),
      execute_extraction_script =
        (\<lambda>u script schema. Inr \<lparr>er_status = ''success'', er_error = None, er_data = JList [],
                                 er_data_count = 0\<rparr>),
      send_text = (\<lambda>ws m. True),
      db_commit = (\<lambda>n d.
         if list_ex (\<lambda>(i, j). 500 < length (url j)) (jobs d)
         then Some (PyExc ''DBAPIError'' ''value too long for type character varying(500)'')
         else if list_ex (\<lambda>(i, j). 50 < length (status j)) (jobs d)
         then Some (PyExc ''DBAPIError'' ''value too long for type character varying(50)'')
         else if list_ex (\<lambda>(i, j). 100 < length (user_id j)) (jobs d)
         then Some (PyExc ''DBAPIError'' ''value too long for type character varying(100)'')
         else None),
      pending_rollback = session_error\<rparr>"

text \<open>
  \<open>world_pending\<close> holds one job that waits, \<open>world_running\<close> the same job as
  \<open>start_scraping_job\<close> leaves it; one client is connected and subscribed to no job.
\<close>

definition job_example :: "string \<Rightarrow> job" where
  "job_example st = \<lparr>url = ''http://example.com'', schema_definition = [], status = st,
     error_message = None, user_id = ''anonymous''\<rparr>"

definition world_pending :: world where
  "world_pending =
     \<lparr>db = \<lparr>jobs = [(''j1'', job_example ''pending'')], scripts = [], extracted = []\<rparr>,
      commits = [], active_jobs = [],
      manager = \<lparr>active_connections = [(''a'', 10)], job_subscribers = []\<rparr>, outbox = []\<rparr>"

definition world_running :: world where
  "world_running =
     \<lparr>db = \<lparr>jobs = [(''j1'', job_example ''running'')], scripts = [], extracted = []\<rparr>,
      commits = [],
      active_jobs = [(''j1'', \<lparr>t_job_id = ''j1'', t_url = ''http://example.com'', t_schema = []\<rparr>)],
      manager = \<lparr>active_connections = [(''a'', 10)], job_subscribers = []\<rparr>, outbox = []\<rparr>"

text \<open>A url of 501 characters.\<close>

definition url_long :: string where
  "url_long = ''http://example.com/'' @ replicate 482 CHR ''a''"

section \<open>Inputs of the analyzer\<close>

text \<open>
  Inputs of the analyzer. \<open>netloc_example\<close> is what \<open>urlparse\<close> gives for the urls used
  here; \<open>netloc_invalid\<close> is \<open>urlparse\<close> raising. \<open>schema_tuple_items\<close> is the schema
  \<open>{"type": "array", "items": [{"type": "string"}]}\<close>.
\<close>

definition netloc_example :: "string \<Rightarrow> exn + string" where
  "netloc_example u = Inr ''Shop.Example.com''"

definition netloc_invalid :: "string \<Rightarrow> exn + string" where
  "netloc_invalid u = Inl (PyExc ''ValueError'' ''Invalid IPv6 URL'')"

definition html_example :: string where
  "html_example = ''<div id=app data-reactroot><script src=a.js></script>Loading</div>''"

definition html_login :: string where
  "html_login = ''<a href=/account>Login</a>''"

definition schema_example :: "(string, json) dict" where
  "schema_example =
     [(''type'', JStr ''object''),
      (''properties'', JDict
         [(''name'', JDict [(''type'', JStr ''string''), (''required'', JBool True)]),
          (''tags'', JDict [(''type'', JStr ''array'')])])]"

definition schema_tuple_items :: "(string, json) dict" where
  "schema_tuple_items =
     [(''type'', JStr ''array''), (''items'', JList [JDict [(''type'', JStr ''string'')]])]"

definition metrics_example :: "(string, json) dict" where
  "metrics_example = [(''load_time'', JInt 12), (''network_requests'', JInt 60)]"

definition netloc_heavy :: "string \<Rightarrow> exn + string" where
  "netloc_heavy u = Inr ''app.netflix.com''"

text \<open>The decisions the analyzer takes on these inputs.\<close>

definition zod_example :: zod where
  "zod_example =
     \<lparr>schema_type = JStr ''object'',
      zod_fields = [(''name'', [Lit ''z.string()'']),
                    (''tags'', [Lit ''z.array(z.string())'', Lit ''.optional()''])]\<rparr>"

definition analysis_light :: analysis where
  "analysis_light =
     \<lparr>extraction_method = ''javascript'', complexity_score = 19 / 40,
      reasons =
        [[Lit ''JavaScript framework detected: react''],
         [Lit ''Single Page Application indicator: data-reactroot''],
         [Lit ''Loading indicators suggest dynamic content''],
         [Lit ''Complex field types detected: 1 array/object fields''],
         [Lit ''Slow page load time: '', Val (JInt 12), Lit ''s''],
         [Lit ''Moderate number of network requests: '', Val (JInt 60)]],
      estimated_load_time = 8, requires_interaction = False,
      zod_validation = zod_example, extraction_hints = []\<rparr>"

definition analysis_login :: analysis where
  "analysis_login =
     \<lparr>extraction_method = ''playwright'', complexity_score = 1 / 15,
      reasons =
        [[Lit ''Complex field types detected: 1 array/object fields''],
         [Lit ''Requires user interaction (clicks, scrolling, form filling)'']],
      estimated_load_time = 3, requires_interaction = True,
      zod_validation = zod_example, extraction_hints = []\<rparr>"

definition analysis_heavy :: analysis where
  "analysis_heavy =
     \<lparr>extraction_method = ''playwright'', complexity_score = 11 / 15,
      reasons =
        [[Lit ''Known heavy JavaScript domain: netflix.com''],
         [Lit ''SaaS application - likely requires authentication''],
         [Lit ''JavaScript framework detected: react''],
         [Lit ''Single Page Application indicator: data-reactroot''],
         [Lit ''Loading indicators suggest dynamic content''],
         [Lit ''Complex field types detected: 1 array/object fields'']],
      estimated_load_time = 68, requires_interaction = False,
      zod_validation = zod_example, extraction_hints = []\<rparr>"


text \<open>
  A page without any indicator word, and a schema whose fields are named \<open>login\<close> and
  \<open>password\<close> and described with the words "load more" and "modal".
\<close>

definition html_plain :: string where
  "html_plain = ''<p>Hello</p>''"

definition schema_login :: "(string, json) dict" where
  "schema_login =
     [(''type'', JStr ''object''),
      (''properties'', JDict
         [(''login'', JDict [(''type'', JStr ''string''),
                             (''description'', JStr ''load more'')]),
          (''password'', JDict [(''type'', JStr ''string''),
                                (''description'', JStr ''modal'')])])]"

section \<open>The connection manager: no stale references after disconnect\<close>

lemma map_of_disconnect_job:
  "map_of (disconnect_job c j subs) = (map_of subs)(j := drop_client c (map_of subs j))"
proof (cases "map_of subs j")
  case None
  then show ?thesis
    by (simp add: disconnect_job_def drop_client_def fun_eq_iff)
next
  case (Some l)
  then show ?thesis
    by (simp add: disconnect_job_def drop_client_def Let_def update_conv' delete_conv'
        fun_eq_iff)
qed

lemma distinct_disconnect_job:
  "distinct (map fst subs) \<Longrightarrow> distinct (map fst (disconnect_job c j subs))"
  by (simp add: disconnect_job_def Let_def distinct_update distinct_delete split: option.splits)


lemma map_of_fold_disconnect_job:
  "distinct ks \<Longrightarrow>
   map_of (fold (disconnect_job c) ks subs) =
     (\<lambda>j. if j \<in> set ks then drop_client c (map_of subs j) else map_of subs j)"
proof (induction ks arbitrary: subs)
  case Nil
  then show ?case by simp
next
  case (Cons k ks)
  then have "map_of (fold (disconnect_job c) (k # ks) subs) =
     (\<lambda>j. if j \<in> set ks then drop_client c (map_of (disconnect_job c k subs) j)
          else map_of (disconnect_job c k subs) j)"
    by simp
  also have "\<dots> = (\<lambda>j. if j \<in> set (k # ks) then drop_client c (map_of subs j) else map_of subs j)"
    using Cons.prems by (simp add: map_of_disconnect_job fun_eq_iff)
  finally show ?case .
qed

lemma distinct_fold_disconnect_job:
  "distinct (map fst subs) \<Longrightarrow> distinct (map fst (fold (disconnect_job c) ks subs))"
  by (induction ks arbitrary: subs) (simp_all add: distinct_disconnect_job)

lemma drop_client_None [simp]: "drop_client c None = None"
  by (simp add: drop_client_def)

lemma drop_client_SomeD:
  "drop_client c v = Some l \<Longrightarrow>
     \<exists>l0. v = Some l0 \<and> (l = l0 \<and> c \<notin> set l0 \<or> c \<in> set l0 \<and> l = remove1 c l0 \<and> l \<noteq> [])"
  by (cases v) (auto simp: drop_client_def split: if_splits)

lemma map_of_disconnect:
  assumes "distinct (map fst (job_subscribers h))"
  shows "map_of (job_subscribers (disconnect c h)) j = drop_client c (map_of (job_subscribers h) j)"
proof (cases "j \<in> set (map fst (job_subscribers h))")
  case True
  then show ?thesis
    using assms by (simp add: disconnect_def keys_def map_of_fold_disconnect_job)
next
  case False
  then have "map_of (job_subscribers h) j = None"
    by (simp add: map_of_eq_None_iff)
  then show ?thesis
    using assms False by (simp add: disconnect_def keys_def map_of_fold_disconnect_job)
qed

lemma subs_ok_disconnect:
  assumes "subs_ok (job_subscribers h)"
  shows "subs_ok (job_subscribers (disconnect c h))"
proof -
  have d: "distinct (map fst (job_subscribers h))"
    using assms by (simp add: subs_ok_def)
  have "distinct (map fst (job_subscribers (disconnect c h)))"
    using d by (simp add: disconnect_def distinct_fold_disconnect_job)
  moreover have "distinct l \<and> l \<noteq> []"
    if "map_of (job_subscribers (disconnect c h)) j = Some l" for j l
  proof -
    from that have "drop_client c (map_of (job_subscribers h) j) = Some l"
      by (simp add: map_of_disconnect [OF d])
    then obtain l0 where l0: "map_of (job_subscribers h) j = Some l0"
      and l: "l = l0 \<and> c \<notin> set l0 \<or> c \<in> set l0 \<and> l = remove1 c l0 \<and> l \<noteq> []"
      by (blast dest: drop_client_SomeD)
    from l0 assms have "distinct l0 \<and> l0 \<noteq> []"
      unfolding subs_ok_def by blast
    with l show ?thesis by auto
  qed
  ultimately show ?thesis
    unfolding subs_ok_def by blast
qed

lemma subs_okI:
  "distinct (map fst subs) \<Longrightarrow> (\<And>j l. map_of subs j = Some l \<Longrightarrow> distinct l \<and> l \<noteq> [])
     \<Longrightarrow> subs_ok subs"
  unfolding subs_ok_def by blast

lemma subs_okD:
  "subs_ok subs \<Longrightarrow> map_of subs j = Some l \<Longrightarrow> distinct l \<and> l \<noteq> []"
  unfolding subs_ok_def by blast

lemma subs_ok_distinct: "subs_ok subs \<Longrightarrow> distinct (map fst subs)"
  unfolding subs_ok_def by blast

lemma subs_ok_update:
  assumes "subs_ok subs" and "distinct l" and "l \<noteq> []"
  shows "subs_ok (AList.update j l subs)"
proof (rule subs_okI)
  show "distinct (map fst (AList.update j l subs))"
    using assms(1) by (simp add: subs_ok_distinct distinct_update)
  fix k m assume "map_of (AList.update j l subs) k = Some m"
  then have "k = j \<and> m = l \<or> map_of subs k = Some m"
    by (simp add: update_conv' split: if_splits)
  then show "distinct m \<and> m \<noteq> []"
    using assms subs_okD by blast
qed

lemma subs_ok_delete:
  assumes "subs_ok subs"
  shows "subs_ok (AList.delete j subs)"
proof (rule subs_okI)
  show "distinct (map fst (AList.delete j subs))"
    using assms by (simp add: subs_ok_distinct distinct_delete)
  fix k m assume "map_of (AList.delete j subs) k = Some m"
  then have "map_of subs k = Some m"
    by (simp add: delete_conv' split: if_splits)
  then show "distinct m \<and> m \<noteq> []"
    using assms subs_okD by blast
qed

lemma subs_ok_subscribe:
  assumes ok: "subs_ok (job_subscribers h)"
  shows "subs_ok (job_subscribers (subscribe_to_job j c h))"
proof (cases "map_of (job_subscribers h) j")
  case None
  then have nk: "j \<notin> set (keys (job_subscribers h))"
    by (simp add: keys_def map_of_eq_None_iff)
  have "job_subscribers (subscribe_to_job j c h) =
          AList.update j [c] (AList.update j [] (job_subscribers h))"
    using nk by (simp add: subscribe_to_job_def update_conv')
  also have "\<dots> = AList.update j [c] (job_subscribers h)"
    by simp
  finally show ?thesis
    using ok by (simp add: subs_ok_update)
next
  case (Some l)
  then have k: "j \<in> set (keys (job_subscribers h))"
    by (metis keys_def map_of_eq_None_iff option.distinct(1) set_map)
  have l: "distinct l \<and> l \<noteq> []"
    using ok Some by (rule subs_okD)
  show ?thesis
  proof (cases "c \<in> set l")
    case True
    then have "job_subscribers (subscribe_to_job j c h) = job_subscribers h"
      using k Some by (simp add: subscribe_to_job_def)
    then show ?thesis using ok by simp
  next
    case False
    then have "job_subscribers (subscribe_to_job j c h) = AList.update j (l @ [c]) (job_subscribers h)"
      using k Some by (simp add: subscribe_to_job_def)
    then show ?thesis
      using ok l False by (simp add: subs_ok_update)
  qed
qed

lemma subs_ok_unsubscribe:
  assumes ok: "subs_ok (job_subscribers h)"
  shows "subs_ok (job_subscribers (unsubscribe_from_job j c h))"
proof (cases "map_of (job_subscribers h) j")
  case None
  then show ?thesis using ok by (simp add: unsubscribe_from_job_def)
next
  case (Some l)
  have l: "distinct l \<and> l \<noteq> []"
    using ok Some by (rule subs_okD)
  show ?thesis
    using ok Some l
    by (simp add: unsubscribe_from_job_def Let_def subs_ok_update subs_ok_delete)
qed

lemma subs_ok_step: "subs_ok (job_subscribers h) \<Longrightarrow> subs_ok (job_subscribers (hub_step x h))"
  by (cases x) (simp_all add: subs_ok_disconnect subs_ok_subscribe subs_ok_unsubscribe connect_def)

lemma subs_ok_fold:
  "subs_ok (job_subscribers h) \<Longrightarrow> subs_ok (job_subscribers (fold hub_step ops h))"
  by (induction ops arbitrary: h) (simp_all add: subs_ok_step)

lemma subs_ok_run: "subs_ok (job_subscribers (hub_run ops))"
  unfolding hub_run_def by (rule subs_ok_fold) (simp add: hub_init_def subs_ok_def)

text \<open>
  Claim C9. In every hub state reached by connect, disconnect, subscribe and unsubscribe
  operations, after \<open>disconnect c\<close> the client \<open>c\<close> is no key of
  \<open>active_connections\<close>, it is in no list of \<open>job_subscribers\<close>, no list of
  \<open>job_subscribers\<close> is empty, and every job whose list the removal emptied is no
  longer a key of \<open>job_subscribers\<close>.
\<close>

theorem disconnect_no_leak:
  "c \<notin> set (keys (active_connections (disconnect c (hub_run ops)))) \<and>
   (\<forall>(j, l) \<in> set (job_subscribers (disconnect c (hub_run ops))). c \<notin> set l \<and> l \<noteq> []) \<and>
   (\<forall>(j, l) \<in> set (job_subscribers (hub_run ops)).
      c \<in> set l \<and> remove1 c l = [] \<longrightarrow>
      j \<notin> set (keys (job_subscribers (disconnect c (hub_run ops)))))"
proof (intro conjI)
  define h where "h = hub_run ops"
  define h' where "h' = disconnect c h"
  have ok: "subs_ok (job_subscribers h)"
    unfolding h_def by (rule subs_ok_run)
  then have d: "distinct (map fst (job_subscribers h))"
    by (rule subs_ok_distinct)
  have ok': "subs_ok (job_subscribers h')"
    unfolding h'_def using ok by (rule subs_ok_disconnect)
  have m': "map_of (job_subscribers h') j = drop_client c (map_of (job_subscribers h) j)" for j
    unfolding h'_def by (rule map_of_disconnect [OF d])
  show "c \<notin> set (keys (active_connections (disconnect c (hub_run ops))))"
    by (simp add: disconnect_def keys_def delete_keys)
  have "c \<notin> set l \<and> l \<noteq> []" if "(j, l) \<in> set (job_subscribers h')" for j l
  proof -
    have m: "map_of (job_subscribers h') j = Some l"
      using that subs_ok_distinct [OF ok'] by simp
    then have "drop_client c (map_of (job_subscribers h) j) = Some l"
      by (simp add: m')
    then obtain l0 where l0: "map_of (job_subscribers h) j = Some l0"
      and l: "l = l0 \<and> c \<notin> set l0 \<or> c \<in> set l0 \<and> l = remove1 c l0 \<and> l \<noteq> []"
      by (blast dest: drop_client_SomeD)
    have "distinct l0"
      using subs_okD [OF ok l0] by simp
    with l have "c \<notin> set l" by auto
    moreover have "l \<noteq> []"
      using subs_okD [OF ok' m] by simp
    ultimately show ?thesis by simp
  qed
  then show "\<forall>(j, l) \<in> set (job_subscribers (disconnect c (hub_run ops))). c \<notin> set l \<and> l \<noteq> []"
    unfolding h'_def h_def by blast
  have "j \<notin> set (keys (job_subscribers h'))"
    if "(j, l) \<in> set (job_subscribers h)" and "c \<in> set l" and "remove1 c l = []" for j l
  proof -
    have "map_of (job_subscribers h) j = Some l"
      using that(1) d by simp
    then have "map_of (job_subscribers h') j = None"
      using that(2,3) by (simp add: m' drop_client_def)
    then show ?thesis
      by (simp add: keys_def map_of_eq_None_iff)
  qed
  then show "\<forall>(j, l) \<in> set (job_subscribers (hub_run ops)).
      c \<in> set l \<and> remove1 c l = [] \<longrightarrow>
      j \<notin> set (keys (job_subscribers (disconnect c (hub_run ops))))"
    unfolding h'_def h_def by blast
qed

lemma hub_example_run:
  "hub_run hub_example =
     \<lparr>active_connections = [(''a'', 10), (''b'', 20)],
      job_subscribers = [(''j1'', [''a'', ''b'']), (''j2'', [''a''])]\<rparr>"
  by code_simp

lemma hub_example_disconnect:
  "disconnect ''a''
     \<lparr>active_connections = [(''a'', 10), (''b'', 20)],
      job_subscribers = [(''j1'', [''a'', ''b'']), (''j2'', [''a''])]\<rparr> =
     \<lparr>active_connections = [(''b'', 20)], job_subscribers = [(''j1'', [''b''])]\<rparr>"
  by code_simp

theorem disconnect_no_leak_witness:
  "(''j2'', [''a'']) \<in> set (job_subscribers (hub_run hub_example)) \<and>
   ''a'' \<in> set [''a''] \<and> remove1 ''a'' [''a''] = [] \<and>
   ''j2'' \<notin> set (keys (job_subscribers (disconnect ''a'' (hub_run hub_example)))) \<and>
   (''j1'', [''b'']) \<in> set (job_subscribers (disconnect ''a'' (hub_run hub_example))) \<and>
   ''a'' \<notin> set [''b''] \<and>
   ''a'' \<notin> set (keys (active_connections (disconnect ''a'' (hub_run hub_example))))"
  using disconnect_no_leak [of "''a''" hub_example]
  by (simp add: hub_example_run hub_example_disconnect keys_def)

section \<open>The scraping service: what a run of the pipeline leaves\<close>

lemma broadcast_to_all_db [simp]:
  "db (broadcast_to_all e m w) = db w"
  "commits (broadcast_to_all e m w) = commits w"
  "active_jobs (broadcast_to_all e m w) = active_jobs w"
  by (simp_all add: broadcast_to_all_def Let_def)

lemma log_job_progress_db [simp]:
  "db (log_job_progress e j s t w) = db w"
  "commits (log_job_progress e j s t w) = commits w"
  "active_jobs (log_job_progress e j s t w) = active_jobs w"
  by (simp_all add: log_job_progress_def)

text \<open>The two ways a commit can end.\<close>

lemma commit_cases:
  obtains
    (accepted) "s = Active" "db_commit e (length (commits w)) d = None"
      "commit e d (s, w) = (Inr (), Active, w\<lparr>db := d, commits := commits w @ [d]\<rparr>)"
  | (refused) ex where "commit e d (s, w) = (Inl ex, Inactive, w)"
      "s = Inactive \<or> db_commit e (length (commits w)) d = Some ex"
proof (cases s)
  case Active
  show ?thesis
  proof (cases "db_commit e (length (commits w)) d")
    case None
    with Active show ?thesis by (intro accepted) (simp_all add: commit_def)
  next
    case (Some ex)
    with Active show ?thesis by (intro refused [where ex = ex]) (simp_all add: commit_def)
  qed
next
  case Inactive
  then show ?thesis by (intro refused [where ex = "pending_rollback e"]) (simp_all add: commit_def)
qed

lemma commit_accepted:
  "db_commit e (length (commits w)) d = None \<Longrightarrow>
   commit e d (Active, w) = (Inr (), Active, w\<lparr>db := d, commits := commits w @ [d]\<rparr>)"
  by (simp add: commit_def)

lemma commit_Inr:
  assumes "commit e d (s, w) = (Inr u, s1, w1)"
  shows "s = Active \<and> s1 = Active \<and> db_commit e (length (commits w)) d = None \<and>
         w1 = w\<lparr>db := d, commits := commits w @ [d]\<rparr>"
  using assms by (cases rule: commit_cases [of s e w d]) simp_all

lemma commit_Inl:
  assumes "commit e d (s, w) = (Inl ex, s1, w1)"
  shows "s1 = Inactive \<and> w1 = w \<and> (s = Inactive \<or> db_commit e (length (commits w)) d = Some ex)"
  using assms by (cases rule: commit_cases [of s e w d]) simp_all

text \<open>The two ways \<open>_update_job_status\<close> can end.\<close>

lemma update_job_status_cases:
  obtains
    (written) "s = Active" "db_commit e (length (commits w)) (db_set_status j st err (db w)) = None"
      "update_job_status e j st err (s, w) =
         (Inr (), Active, broadcast_to_all e (JobStatusUpdate j st err)
            (w\<lparr>db := db_set_status j st err (db w),
               commits := commits w @ [db_set_status j st err (db w)]\<rparr>))"
  | (refused) ex where "update_job_status e j st err (s, w) = (Inl ex, Inactive, w)"
      "s = Inactive \<or> db_commit e (length (commits w)) (db_set_status j st err (db w)) = Some ex"
proof (cases rule: commit_cases [of s e w "db_set_status j st err (db w)"])
  case accepted
  then show ?thesis by (intro written) (simp_all add: update_job_status_def)
next
  case (refused ex)
  then show ?thesis by (intro that(2) [where ex = ex]) (simp_all add: update_job_status_def)
qed

text \<open>The ways the body of the try can end, by the number of commits it has made.\<close>

lemma execute_try_cases:
  obtains
    (fail0) ex s1 w1 where "execute_try e jid u schema w = (Inl ex, s1, w1)"
      "db w1 = db w" "commits w1 = commits w" "active_jobs w1 = active_jobs w"
      "s1 = Active \<longrightarrow> (\<forall>sr. analyze_webpage_and_generate_script e u schema = Inr sr \<longrightarrow>
          sr_status sr \<noteq> ''success'' \<or> sr_script sr = None)"
  | (fail1) ex s1 w1 s sr where "execute_try e jid u schema w = (Inl ex, s1, w1)"
      "db w1 = db_add_script jid s (db w)" "commits w1 = commits w @ [db_add_script jid s (db w)]"
      "active_jobs w1 = active_jobs w"
      "analyze_webpage_and_generate_script e u schema = Inr sr" "sr_script sr = Some s"
  | (fail2) ex w1 s sr er where "execute_try e jid u schema w = (Inl ex, Inactive, w1)"
      "db w1 = db_add_data jid (er_data er) (er_data_count er) (db_add_script jid s (db w))"
      "commits w1 = commits w @ [db_add_script jid s (db w),
          db_add_data jid (er_data er) (er_data_count er) (db_add_script jid s (db w))]"
      "active_jobs w1 = active_jobs w"
      "analyze_webpage_and_generate_script e u schema = Inr sr" "sr_script sr = Some s"
      "execute_extraction_script e u s schema = Inr er"
  | (success) w1 s sr er where "execute_try e jid u schema w = (Inr (), Active, w1)"
      "db w1 = db_set_status jid ''completed'' None
         (db_add_data jid (er_data er) (er_data_count er) (db_add_script jid s (db w)))"
      "commits w1 = commits w @ [db_add_script jid s (db w),
          db_add_data jid (er_data er) (er_data_count er) (db_add_script jid s (db w)),
          db_set_status jid ''completed'' None
            (db_add_data jid (er_data er) (er_data_count er) (db_add_script jid s (db w)))]"
      "active_jobs w1 = active_jobs w"
      "analyze_webpage_and_generate_script e u schema = Inr sr" "sr_script sr = Some s"
      "execute_extraction_script e u s schema = Inr er"
proof -
  define w2 where "w2 = log_job_progress e jid ''generating_script''
      ''AI is generating extraction script''
      (log_job_progress e jid ''started'' ''Initializing scraping job'' w)"
  have w2: "db w2 = db w" "commits w2 = commits w" "active_jobs w2 = active_jobs w"
    by (simp_all add: w2_def)
  show ?thesis
  proof (cases "analyze_webpage_and_generate_script e u schema")
    case (Inl ex)
    then have "execute_try e jid u schema w = (Inl ex, Active, w2)"
      by (simp add: execute_try_def Let_def w2_def)
    then show ?thesis
      using w2 Inl by (intro fail0 [where ex = ex and ?s1.0 = Active and ?w1.0 = w2]) simp_all
  next
    case (Inr sr)
    note ai = this
    show ?thesis
    proof (cases "sr_status sr = ''success''")
      case False
      then have "execute_try e jid u schema w = (Inl (PyExc ''Exception''
          (''Script generation failed: '' @
             (case sr_error sr of None \<Rightarrow> ''Unknown error'' | Some t \<Rightarrow> t))), Active, w2)"
        using ai by (simp add: execute_try_def Let_def w2_def)
      then show ?thesis
        using w2 ai False by (intro fail0 [where ?s1.0 = Active and ?w1.0 = w2]) simp_all
    next
      case True
      note st = this
      show ?thesis
      proof (cases "sr_script sr")
        case None
        then have "execute_try e jid u schema w =
            (Inl (PyExc ''TypeError'' ''object of type 'NoneType' has no len()''), Active, w2)"
          using ai st by (simp add: execute_try_def Let_def w2_def)
        then show ?thesis
          using w2 ai None by (intro fail0 [where ?s1.0 = Active and ?w1.0 = w2]) simp_all
      next
        case (Some s)
        note sc = this
        define w3 where "w3 = log_job_progress e jid ''script_ready''
            (''Generated '' @ str_nat (length s) @ '' character script'') w2"
        have w3: "db w3 = db w" "commits w3 = commits w" "active_jobs w3 = active_jobs w"
          by (simp_all add: w3_def w2)
        define d1 where "d1 = db_add_script jid s (db w)"
        have unfold3: "execute_try e jid u schema w =
            (case commit e d1 (Active, w3) of
               (Inl ex, s4, w4) \<Rightarrow> (Inl ex, s4, w4)
             | (Inr _, s4, w4) \<Rightarrow>
                (let w5 = log_job_progress e jid ''extracting''
                            ''Executing script and extracting data'' w4
                 in case execute_extraction_script e u s schema of
                      Inl ex \<Rightarrow> (Inl ex, s4, w5)
                    | Inr extraction_result \<Rightarrow>
                        if er_status extraction_result \<noteq> ''success''
                        then (Inl (PyExc ''Exception'' (''Extraction failed: '' @
                                (case er_error extraction_result of
                                   None \<Rightarrow> ''Unknown error'' | Some t \<Rightarrow> t))), s4, w5)
                        else (let n = er_data_count extraction_result;
                                  w6 = log_job_progress e jid ''data_extracted''
                                         (''Successfully extracted '' @ str_int n @ '' items'') w5
                              in case commit e (db_add_data jid
                                        (er_data extraction_result) n (db w6)) (s4, w6) of
                                   (Inl ex, s7, w7) \<Rightarrow> (Inl ex, s7, w7)
                                 | (Inr _, s7, w7) \<Rightarrow>
                                    (let w8 = log_job_progress e jid ''completed''
                                                (''Job completed successfully with '' @
                                                 str_int n @ '' items'') w7
                                     in update_job_status e jid ''completed'' None (s7, w8)))))"
          using ai st sc by (simp add: execute_try_def Let_def w2_def w3_def d1_def)
        show ?thesis
        proof (cases rule: commit_cases [of Active e w3 d1])
          case (refused ex)
          then have "execute_try e jid u schema w = (Inl ex, Inactive, w3)"
            by (simp add: unfold3)
          then show ?thesis
            using w3 by (intro fail0 [where ex = ex and ?s1.0 = Inactive and ?w1.0 = w3]) simp_all
        next
          case accepted
          define w4 where "w4 = w3\<lparr>db := d1, commits := commits w3 @ [d1]\<rparr>"
          define w5 where "w5 = log_job_progress e jid ''extracting''
              ''Executing script and extracting data'' w4"
          have w5: "db w5 = d1" "commits w5 = commits w @ [d1]" "active_jobs w5 = active_jobs w"
            by (simp_all add: w5_def w4_def w3)
          note c1 = accepted(3) [folded w4_def]
          show ?thesis
          proof (cases "execute_extraction_script e u s schema")
            case (Inl ex)
            then have "execute_try e jid u schema w = (Inl ex, Active, w5)"
              by (simp add: unfold3 c1 Let_def w5_def)
            then show ?thesis
              using w5 ai sc unfolding d1_def
              by (intro fail1 [where ex = ex and ?s1.0 = Active and ?w1.0 = w5 and s = s and sr = sr])
                simp_all
          next
            case (Inr er)
            note ex = this
            show ?thesis
            proof (cases "er_status er = ''success''")
              case False
              then have "execute_try e jid u schema w = (Inl (PyExc ''Exception''
                  (''Extraction failed: '' @
                     (case er_error er of None \<Rightarrow> ''Unknown error'' | Some t \<Rightarrow> t))), Active, w5)"
                using ex by (simp add: unfold3 c1 Let_def w5_def)
              then show ?thesis
                using w5 ai sc unfolding d1_def
                by (intro fail1 [where ?s1.0 = Active and ?w1.0 = w5 and s = s and sr = sr])
                  simp_all
            next
              case True
              define w6 where "w6 = log_job_progress e jid ''data_extracted''
                  (''Successfully extracted '' @ str_int (er_data_count er) @ '' items'') w5"
              have w6: "db w6 = d1" "commits w6 = commits w @ [d1]" "active_jobs w6 = active_jobs w"
                by (simp_all add: w6_def w5)
              define d2 where "d2 = db_add_data jid (er_data er) (er_data_count er) d1"
              have unfold6: "execute_try e jid u schema w =
                  (case commit e d2 (Active, w6) of
                     (Inl ex, s7, w7) \<Rightarrow> (Inl ex, s7, w7)
                   | (Inr _, s7, w7) \<Rightarrow>
                      (let w8 = log_job_progress e jid ''completed''
                                  (''Job completed successfully with '' @
                                   str_int (er_data_count er) @ '' items'') w7
                       in update_job_status e jid ''completed'' None (s7, w8)))"
                using ex True by (simp add: unfold3 c1 Let_def w5_def w6_def d2_def w4_def)
              show ?thesis
              proof (cases rule: commit_cases [of Active e w6 d2])
                case (refused ex')
                then have "execute_try e jid u schema w = (Inl ex', Inactive, w6)"
                  by (simp add: unfold6)
                then show ?thesis
                  using w6 ai sc unfolding d1_def
                  by (intro fail1 [where ex = ex' and ?s1.0 = Inactive and ?w1.0 = w6
                        and s = s and sr = sr]) simp_all
              next
                case accepted
                define w7 where "w7 = w6\<lparr>db := d2, commits := commits w6 @ [d2]\<rparr>"
                define w8 where "w8 = log_job_progress e jid ''completed''
                    (''Job completed successfully with '' @ str_int (er_data_count er) @ '' items'') w7"
                have w8: "db w8 = d2" "commits w8 = commits w @ [d1, d2]"
                  "active_jobs w8 = active_jobs w"
                  by (simp_all add: w8_def w7_def w6)
                note c2 = accepted(3) [folded w7_def]
                have unfold8: "execute_try e jid u schema w =
                    update_job_status e jid ''completed'' None (Active, w8)"
                  by (simp add: unfold6 c2 Let_def w8_def)
                show ?thesis
                proof (cases rule: update_job_status_cases [of Active e w8 jid "''completed''" None])
                  case (refused ex')
                  then have "execute_try e jid u schema w = (Inl ex', Inactive, w8)"
                    by (simp add: unfold8)
                  then show ?thesis
                    using w8 ai sc ex unfolding d1_def d2_def
                    by (intro fail2 [where ex = ex' and ?w1.0 = w8 and s = s and sr = sr and er = er])
                      simp_all
                next
                  case written
                  define w9 where "w9 = broadcast_to_all e (JobStatusUpdate jid ''completed'' None)
                      (w8\<lparr>db := db_set_status jid ''completed'' None (db w8),
                          commits := commits w8 @ [db_set_status jid ''completed'' None (db w8)]\<rparr>)"
                  have "execute_try e jid u schema w = (Inr (), Active, w9)"
                    using written(3) by (simp add: unfold8 w9_def)
                  moreover have "db w9 = db_set_status jid ''completed'' None d2"
                    "commits w9 = commits w @ [d1, d2, db_set_status jid ''completed'' None d2]"
                    "active_jobs w9 = active_jobs w"
                    by (simp_all add: w9_def w8)
                  ultimately show ?thesis
                    using ai sc ex unfolding d1_def d2_def
                    by (intro success [where ?w1.0 = w9 and s = s and sr = sr and er = er])
                      simp_all
                qed
              qed
            qed
          qed
        qed
      qed
    qed
  qed
qed

text \<open>The state the body of the try leaves when the collaborators and the three commits succeed.\<close>

lemma execute_try_success:
  assumes ai: "analyze_webpage_and_generate_script e u schema = Inr sr"
    and st: "sr_status sr = ''success''" and sc: "sr_script sr = Some s"
    and ex: "execute_extraction_script e u s schema = Inr er" and es: "er_status er = ''success''"
    and c1: "db_commit e (length (commits w)) (db_add_script jid s (db w)) = None"
    and c2: "db_commit e (Suc (length (commits w)))
        (db_add_data jid (er_data er) (er_data_count er) (db_add_script jid s (db w))) = None"
    and c3: "db_commit e (Suc (Suc (length (commits w))))
        (db_set_status jid ''completed'' None
           (db_add_data jid (er_data er) (er_data_count er) (db_add_script jid s (db w)))) = None"
  shows "execute_try e jid u schema w =
    (Inr (), Active,
     broadcast_to_all e (JobStatusUpdate jid ''completed'' None)
      ((log_job_progress e jid ''completed''
         (''Job completed successfully with '' @ str_int (er_data_count er) @ '' items'')
       ((log_job_progress e jid ''data_extracted''
          (''Successfully extracted '' @ str_int (er_data_count er) @ '' items'')
        (log_job_progress e jid ''extracting'' ''Executing script and extracting data''
         ((log_job_progress e jid ''script_ready''
            (''Generated '' @ str_nat (length s) @ '' character script'')
          (log_job_progress e jid ''generating_script'' ''AI is generating extraction script''
           (log_job_progress e jid ''started'' ''Initializing scraping job'' w)))
          \<lparr>db := db_add_script jid s (db w),
            commits := commits w @ [db_add_script jid s (db w)]\<rparr>)))
        \<lparr>db := db_add_data jid (er_data er) (er_data_count er) (db_add_script jid s (db w)),
          commits := commits w @ [db_add_script jid s (db w),
            db_add_data jid (er_data er) (er_data_count er) (db_add_script jid s (db w))]\<rparr>))
       \<lparr>db := db_set_status jid ''completed'' None
          (db_add_data jid (er_data er) (er_data_count er) (db_add_script jid s (db w))),
         commits := commits w @ [db_add_script jid s (db w),
            db_add_data jid (er_data er) (er_data_count er) (db_add_script jid s (db w)),
            db_set_status jid ''completed'' None
              (db_add_data jid (er_data er) (er_data_count er) (db_add_script jid s (db w)))]\<rparr>))"
  using assms by (simp add: execute_try_def Let_def commit_def update_job_status_def)

lemma execute_finally_simps [simp]:
  "db (execute_finally j w) = db w"
  "commits (execute_finally j w) = commits w"
  "outbox (execute_finally j w) = outbox w"
  "manager (execute_finally j w) = manager w"
  by (simp_all add: execute_finally_def)

lemma execute_finally_registry: "j \<notin> set (keys (active_jobs (execute_finally j w)))"
  by (simp add: execute_finally_def keys_def delete_notin_dom)

lemma execute_scraping_job_registry:
  "jid \<notin> set (keys (active_jobs (snd (execute_scraping_job e jid u schema w))))"
  by (simp add: execute_scraping_job_def execute_finally_registry split: prod.splits sum.splits)

text \<open>The handler, and the three ways the function can end.\<close>

lemma execute_except_cases:
  obtains
    (written) "s = Active"
      "db_commit e (length (commits w)) (db_set_status j ''failed'' (Some (exc_text ex)) (db w)) = None"
      "fst (execute_except e j ex (s, w)) = Inr ()"
      "db (snd (snd (execute_except e j ex (s, w)))) =
         db_set_status j ''failed'' (Some (exc_text ex)) (db w)"
      "commits (snd (snd (execute_except e j ex (s, w)))) =
         commits w @ [db_set_status j ''failed'' (Some (exc_text ex)) (db w)]"
  | (refused) ex' where
      "s = Inactive \<or> db_commit e (length (commits w))
         (db_set_status j ''failed'' (Some (exc_text ex)) (db w)) = Some ex'"
      "fst (execute_except e j ex (s, w)) = Inl ex'"
      "db (snd (snd (execute_except e j ex (s, w)))) = db w"
      "commits (snd (snd (execute_except e j ex (s, w)))) = commits w"
proof -
  define w1 where "w1 = log_job_progress e j ''failed'' (''Job failed: '' @ exc_text ex) w"
  have w1: "db w1 = db w" "commits w1 = commits w"
    by (simp_all add: w1_def)
  have r: "execute_except e j ex (s, w) =
      update_job_status e j ''failed'' (Some (exc_text ex)) (s, w1)"
    by (simp add: execute_except_def Let_def w1_def)
  show ?thesis
  proof (cases rule: update_job_status_cases [of s e w1 j "''failed''" "Some (exc_text ex)"])
    case written
    then show ?thesis
      using w1 by (intro that(1) [unfolded r]) simp_all
  next
    case (refused ex')
    then show ?thesis
      using w1 by (intro that(2) [unfolded r, where ex' = ex']) simp_all
  qed
qed

lemma execute_scraping_job_success:
  "execute_try e jid u schema w = (Inr r, s1, w1) \<Longrightarrow>
   execute_scraping_job e jid u schema w = (Inr (), execute_finally jid w1)"
  by (simp add: execute_scraping_job_def)

lemma execute_scraping_job_handled:
  "execute_try e jid u schema w = (Inl ex, s1, w1) \<Longrightarrow> is_exception ex \<Longrightarrow>
   execute_scraping_job e jid u schema w =
     (fst (execute_except e jid ex (s1, w1)),
      execute_finally jid (snd (snd (execute_except e jid ex (s1, w1)))))"
  by (simp add: execute_scraping_job_def split: prod.splits)

lemma execute_scraping_job_passed:
  "execute_try e jid u schema w = (Inl ex, s1, w1) \<Longrightarrow> \<not> is_exception ex \<Longrightarrow>
   execute_scraping_job e jid u schema w = (Inl ex, execute_finally jid w1)"
  by (simp add: execute_scraping_job_def)

lemma job_status_add [simp]:
  "job_status (db_add_script j s d) k = job_status d k"
  "job_status (db_add_data j x n d) k = job_status d k"
  by (simp_all add: job_status_def db_add_script_def db_add_data_def)

lemma status_update_data [simp]: "status (update_data st err j) = st"
  by (simp add: update_data_def)

lemma job_status_set:
  "job_status (db_set_status j st err d) k =
     (if k = j then map_option (\<lambda>_. st) (job_status d j) else job_status d k)"
  by (cases "map_of (jobs d) j")
     (simp_all add: job_status_def db_set_status_def map_of_map_entry)

lemma job_scripts_simps [simp]:
  "job_scripts (db_add_script j s d) j \<noteq> []"
  "job_scripts (db_add_data j x n d) k = job_scripts d k"
  "job_scripts (db_set_status j st err d) k = job_scripts d k"
  by (simp_all add: job_scripts_def db_add_script_def db_add_data_def db_set_status_def)

lemma job_results_simps [simp]:
  "job_results (db_add_data j x n d) j \<noteq> []"
  "job_results (db_set_status j st err d) k = job_results d k"
  by (simp_all add: job_results_def db_add_data_def db_set_status_def)

text \<open>
  No state committed by a run, and not the state it leaves, shows the job \<open>completed\<close>
  without a script and a result of the job.
\<close>

lemma completed_snapshots:
  assumes "job_status (db w) jid = Some st" and "st \<noteq> ''completed''"
  shows "\<forall>d \<in> set (drop (length (commits w)) (commits (snd (execute_scraping_job e jid u schema w))))
                 \<union> {db (snd (execute_scraping_job e jid u schema w))}.
            job_status d jid = Some ''completed'' \<longrightarrow>
            job_scripts d jid \<noteq> [] \<and> job_results d jid \<noteq> []"
proof (cases rule: execute_try_cases [of e jid u schema w])
  case (success w1 s sr er)
  then show ?thesis
    using assms by (simp add: execute_scraping_job_success job_status_set)
next
  case (fail0 ex s1 w1)
  show ?thesis
  proof (cases "is_exception ex")
    case False
    with fail0 show ?thesis
      using assms by (simp add: execute_scraping_job_passed)
  next
    case True
    show ?thesis
      by (cases rule: execute_except_cases [of s1 e w1 jid ex])
         (use fail0 True assms in
           \<open>simp_all add: execute_scraping_job_handled job_status_set\<close>)
  qed
next
  case (fail1 ex s1 w1 s sr)
  show ?thesis
  proof (cases "is_exception ex")
    case False
    with fail1 show ?thesis
      using assms by (simp add: execute_scraping_job_passed)
  next
    case True
    show ?thesis
      by (cases rule: execute_except_cases [of s1 e w1 jid ex])
         (use fail1 True assms in
           \<open>simp_all add: execute_scraping_job_handled job_status_set\<close>)
  qed
next
  case (fail2 ex w1 s sr er)
  show ?thesis
  proof (cases "is_exception ex")
    case False
    with fail2 show ?thesis
      using assms by (simp add: execute_scraping_job_passed)
  next
    case True
    show ?thesis
      by (cases rule: execute_except_cases [of Inactive e w1 jid ex])
         (use fail2 True assms in
           \<open>simp_all add: execute_scraping_job_handled job_status_set\<close>)
  qed
qed

text \<open>
  Claim C1. A job is stored and not yet \<open>completed\<close>. When the body of the try of
  \<open>_execute_scraping_job\<close> reaches its end, the run has made exactly three commits, in
  this order: the state with the script record added, that state with the result record
  added, and that state with the status set to \<open>completed\<close>; the first two still show
  the old status, the last is the state the run leaves. So in every state a reader can
  observe during or after a run (every state the run commits and the state it leaves,
  whatever way the run ends), a status \<open>completed\<close> of the job comes with a script
  record and a result record of the job.
\<close>

theorem completed_after_script_and_result:
  assumes "job_status (db w) jid = Some st" and "st \<noteq> ''completed''"
  shows "(\<forall>s1 w1. execute_try e jid u schema w = (Inr (), s1, w1) \<longrightarrow>
            (\<exists>sr s er.
               analyze_webpage_and_generate_script e u schema = Inr sr \<and> sr_script sr = Some s \<and>
               execute_extraction_script e u s schema = Inr er \<and>
               commits (snd (execute_scraping_job e jid u schema w)) = commits w @
                 [db_add_script jid s (db w),
                  db_add_data jid (er_data er) (er_data_count er) (db_add_script jid s (db w)),
                  db_set_status jid ''completed'' None
                    (db_add_data jid (er_data er) (er_data_count er) (db_add_script jid s (db w)))] \<and>
               db (snd (execute_scraping_job e jid u schema w)) =
                 db_set_status jid ''completed'' None
                   (db_add_data jid (er_data er) (er_data_count er) (db_add_script jid s (db w))) \<and>
               job_status (db_add_script jid s (db w)) jid = Some st \<and>
               job_scripts (db_add_script jid s (db w)) jid \<noteq> [] \<and>
               job_status (db_add_data jid (er_data er) (er_data_count er)
                 (db_add_script jid s (db w))) jid = Some st \<and>
               job_results (db_add_data jid (er_data er) (er_data_count er)
                 (db_add_script jid s (db w))) jid \<noteq> [] \<and>
               job_status (db (snd (execute_scraping_job e jid u schema w))) jid =
                 Some ''completed'')) \<and>
         (\<forall>d \<in> set (drop (length (commits w)) (commits (snd (execute_scraping_job e jid u schema w))))
                 \<union> {db (snd (execute_scraping_job e jid u schema w))}.
            job_status d jid = Some ''completed'' \<longrightarrow>
            job_scripts d jid \<noteq> [] \<and> job_results d jid \<noteq> [])"
proof (intro conjI allI impI)
  fix s1 w1 assume r: "execute_try e jid u schema w = (Inr (), s1, w1)"
  then show "\<exists>sr s er.
               analyze_webpage_and_generate_script e u schema = Inr sr \<and> sr_script sr = Some s \<and>
               execute_extraction_script e u s schema = Inr er \<and>
               commits (snd (execute_scraping_job e jid u schema w)) = commits w @
                 [db_add_script jid s (db w),
                  db_add_data jid (er_data er) (er_data_count er) (db_add_script jid s (db w)),
                  db_set_status jid ''completed'' None
                    (db_add_data jid (er_data er) (er_data_count er) (db_add_script jid s (db w)))] \<and>
               db (snd (execute_scraping_job e jid u schema w)) =
                 db_set_status jid ''completed'' None
                   (db_add_data jid (er_data er) (er_data_count er) (db_add_script jid s (db w))) \<and>
               job_status (db_add_script jid s (db w)) jid = Some st \<and>
               job_scripts (db_add_script jid s (db w)) jid \<noteq> [] \<and>
               job_status (db_add_data jid (er_data er) (er_data_count er)
                 (db_add_script jid s (db w))) jid = Some st \<and>
               job_results (db_add_data jid (er_data er) (er_data_count er)
                 (db_add_script jid s (db w))) jid \<noteq> [] \<and>
               job_status (db (snd (execute_scraping_job e jid u schema w))) jid =
                 Some ''completed''"
  proof (cases rule: execute_try_cases [of e jid u schema w])
    case (success w1' s sr er)
    have "commits (snd (execute_scraping_job e jid u schema w)) = commits w1'"
      "db (snd (execute_scraping_job e jid u schema w)) = db w1'"
      using success(1) by (simp_all add: execute_scraping_job_success)
    then show ?thesis
      using success assms
      by (intro exI [where x = sr] exI [where x = s] exI [where x = er])
         (simp add: job_status_set)
  qed simp_all
next
  show "\<forall>d \<in> set (drop (length (commits w)) (commits (snd (execute_scraping_job e jid u schema w))))
                 \<union> {db (snd (execute_scraping_job e jid u schema w))}.
            job_status d jid = Some ''completed'' \<longrightarrow>
            job_scripts d jid \<noteq> [] \<and> job_results d jid \<noteq> []"
    using assms by (rule completed_snapshots)
qed

text \<open>
  C1 on the running job of \<open>world_running\<close>, with collaborators that succeed: the three
  states committed, in order, and the state left.
\<close>

theorem completed_after_script_and_result_witness:
  "job_status (db world_running) ''j1'' = Some ''running'' \<and> ''running'' \<noteq> ''completed'' \<and>
   fst (execute_try env_ok ''j1'' ''http://example.com'' [] world_running) = Inr () \<and>
   commits (snd (execute_scraping_job env_ok ''j1'' ''http://example.com'' [] world_running)) =
     [\<lparr>jobs = [(''j1'', job_example ''running'')],
       scripts = [\<lparr>gs_job_id = ''j1'', script_content = ''return [];'', script_type = ''playwright''\<rparr>],
       extracted = []\<rparr>,
      \<lparr>jobs = [(''j1'', job_example ''running'')],
       scripts = [\<lparr>gs_job_id = ''j1'', script_content = ''return [];'', script_type = ''playwright''\<rparr>],
       extracted = [\<lparr>ed_job_id = ''j1'', data = JList [], data_count = 0\<rparr>]\<rparr>,
      \<lparr>jobs = [(''j1'', job_example ''completed'')],
       scripts = [\<lparr>gs_job_id = ''j1'', script_content = ''return [];'', script_type = ''playwright''\<rparr>],
       extracted = [\<lparr>ed_job_id = ''j1'', data = JList [], data_count = 0\<rparr>]\<rparr>] \<and>
   db (snd (execute_scraping_job env_ok ''j1'' ''http://example.com'' [] world_running)) =
     \<lparr>jobs = [(''j1'', job_example ''completed'')],
      scripts = [\<lparr>gs_job_id = ''j1'', script_content = ''return [];'', script_type = ''playwright''\<rparr>],
      extracted = [\<lparr>ed_job_id = ''j1'', data = JList [], data_count = 0\<rparr>]\<rparr>"
proof -
  have a: "job_status (db world_running) ''j1'' = Some ''running''"
    by code_simp
  have ok: "analyze_webpage_and_generate_script env_ok ''http://example.com'' [] =
        Inr \<lparr>sr_status = ''success'', sr_error = None, sr_script = Some ''return [];''\<rparr>"
      "execute_extraction_script env_ok ''http://example.com'' ''return [];'' [] =
        Inr \<lparr>er_status = ''success'', er_error = None, er_data = JList [], er_data_count = 0\<rparr>"
      "db_commit env_ok n d = None" for n d
    by (simp_all add: env_ok_def)
  have b: "fst (execute_try env_ok ''j1'' ''http://example.com'' [] world_running) = Inr ()"
    by (simp add: execute_try_success [OF ok(1) _ _ ok(2) _ ok(3) ok(3) ok(3)])
  have c: "''running'' \<noteq> ''completed''"
    by simp
  obtain s1 w1 where r: "execute_try env_ok ''j1'' ''http://example.com'' [] world_running =
      (Inr (), s1, w1)"
    using b by (cases "execute_try env_ok ''j1'' ''http://example.com'' [] world_running") simp
  have ai: "analyze_webpage_and_generate_script env_ok ''http://example.com'' [] = Inr sr \<longleftrightarrow>
      sr = \<lparr>sr_status = ''success'', sr_error = None, sr_script = Some ''return [];''\<rparr>" for sr
    by (auto simp: env_ok_def)
  have ex: "execute_extraction_script env_ok ''http://example.com'' s [] = Inr er \<longleftrightarrow>
      er = \<lparr>er_status = ''success'', er_error = None, er_data = JList [], er_data_count = 0\<rparr>" for s er
    by (auto simp: env_ok_def)
  note T = completed_after_script_and_result [OF a c, of env_ok "''http://example.com''" "[]",
      THEN conjunct1, rule_format, OF r]
  from T obtain sr s er where
    1: "analyze_webpage_and_generate_script env_ok ''http://example.com'' [] = Inr sr"
    and 2: "sr_script sr = Some s"
    and 3: "execute_extraction_script env_ok ''http://example.com'' s [] = Inr er"
    and 4: "commits (snd (execute_scraping_job env_ok ''j1'' ''http://example.com'' [] world_running))
       = commits world_running @
           [db_add_script ''j1'' s (db world_running),
            db_add_data ''j1'' (er_data er) (er_data_count er) (db_add_script ''j1'' s (db world_running)),
            db_set_status ''j1'' ''completed'' None
              (db_add_data ''j1'' (er_data er) (er_data_count er)
                 (db_add_script ''j1'' s (db world_running)))]"
    and 5: "db (snd (execute_scraping_job env_ok ''j1'' ''http://example.com'' [] world_running)) =
            db_set_status ''j1'' ''completed'' None
              (db_add_data ''j1'' (er_data er) (er_data_count er)
                 (db_add_script ''j1'' s (db world_running)))"
    by (elim exE conjE)
  have sr: "sr = \<lparr>sr_status = ''success'', sr_error = None, sr_script = Some ''return [];''\<rparr>"
    using 1 ai by simp
  then have s: "s = ''return [];''"
    using 2 by simp
  have er: "er = \<lparr>er_status = ''success'', er_error = None, er_data = JList [], er_data_count = 0\<rparr>"
    using 3 ex by simp
  have d1: "db_add_script ''j1'' ''return [];'' (db world_running) =
     \<lparr>jobs = [(''j1'', job_example ''running'')],
       scripts = [\<lparr>gs_job_id = ''j1'', script_content = ''return [];'', script_type = ''playwright''\<rparr>],
       extracted = []\<rparr>"
    by (simp add: db_add_script_def world_running_def)
  have d2: "db_add_data ''j1'' (JList []) 0
     \<lparr>jobs = [(''j1'', job_example ''running'')],
       scripts = [\<lparr>gs_job_id = ''j1'', script_content = ''return [];'', script_type = ''playwright''\<rparr>],
       extracted = []\<rparr> =
      \<lparr>jobs = [(''j1'', job_example ''running'')],
       scripts = [\<lparr>gs_job_id = ''j1'', script_content = ''return [];'', script_type = ''playwright''\<rparr>],
       extracted = [\<lparr>ed_job_id = ''j1'', data = JList [], data_count = 0\<rparr>]\<rparr>"
    by (simp add: db_add_data_def)
  have d3: "db_set_status ''j1'' ''completed'' None
      \<lparr>jobs = [(''j1'', job_example ''running'')],
       scripts = [\<lparr>gs_job_id = ''j1'', script_content = ''return [];'', script_type = ''playwright''\<rparr>],
       extracted = [\<lparr>ed_job_id = ''j1'', data = JList [], data_count = 0\<rparr>]\<rparr> =
      \<lparr>jobs = [(''j1'', job_example ''completed'')],
       scripts = [\<lparr>gs_job_id = ''j1'', script_content = ''return [];'', script_type = ''playwright''\<rparr>],
       extracted = [\<lparr>ed_job_id = ''j1'', data = JList [], data_count = 0\<rparr>]\<rparr>"
    by (simp add: db_set_status_def update_data_def job_example_def)
  have cw: "commits world_running = []"
    by (simp add: world_running_def)
  have c4: "commits (snd (execute_scraping_job env_ok ''j1'' ''http://example.com'' [] world_running)) =
     [\<lparr>jobs = [(''j1'', job_example ''running'')],
       scripts = [\<lparr>gs_job_id = ''j1'', script_content = ''return [];'', script_type = ''playwright''\<rparr>],
       extracted = []\<rparr>,
      \<lparr>jobs = [(''j1'', job_example ''running'')],
       scripts = [\<lparr>gs_job_id = ''j1'', script_content = ''return [];'', script_type = ''playwright''\<rparr>],
       extracted = [\<lparr>ed_job_id = ''j1'', data = JList [], data_count = 0\<rparr>]\<rparr>,
      \<lparr>jobs = [(''j1'', job_example ''completed'')],
       scripts = [\<lparr>gs_job_id = ''j1'', script_content = ''return [];'', script_type = ''playwright''\<rparr>],
       extracted = [\<lparr>ed_job_id = ''j1'', data = JList [], data_count = 0\<rparr>]\<rparr>]"
    unfolding 4 sr s er extraction_result.simps cw d1 d2 d3 by (simp only: append_Nil)
  have c5: "db (snd (execute_scraping_job env_ok ''j1'' ''http://example.com'' [] world_running)) =
     \<lparr>jobs = [(''j1'', job_example ''completed'')],
      scripts = [\<lparr>gs_job_id = ''j1'', script_content = ''return [];'', script_type = ''playwright''\<rparr>],
      extracted = [\<lparr>ed_job_id = ''j1'', data = JList [], data_count = 0\<rparr>]\<rparr>"
    unfolding 5 sr s er extraction_result.simps d1 d2 d3 by (rule refl)
  show ?thesis
    using a b c c4 c5 by (intro conjI)
qed

lemma jobs_set_status:
  "map_of (jobs (db_set_status j st err d)) j = map_option (update_data st err) (map_of (jobs d) j)"
  by (cases "map_of (jobs d) j") (simp_all add: db_set_status_def map_of_map_entry)

lemma jobs_add [simp]:
  "jobs (db_add_script j s d) = jobs d"
  "jobs (db_add_data j x n d) = jobs d"
  by (simp_all add: db_add_script_def db_add_data_def)

lemma scripts_simps [simp]:
  "scripts (db_set_status j st err d) = scripts d"
  "scripts (db_add_data j x n d) = scripts d"
  "extracted (db_set_status j st err d) = extracted d"
  "extracted (db_add_script j s d) = extracted d"
  by (simp_all add: db_set_status_def db_add_data_def db_add_script_def)

lemma scripts_add_script:
  "take (length (scripts d)) (scripts (db_add_script j s d)) = scripts d"
  by (simp add: db_add_script_def)

lemma extracted_add_data:
  "take (length (extracted d)) (extracted (db_add_data j x n d)) = extracted d"
  by (simp add: db_add_data_def)

lemma error_message_update_data:
  "error_message (update_data st (Some t) j) = (if t = [] then error_message j else Some t)"
  by (simp add: update_data_def)

text \<open>
  Claim C2, amended. The registry entry of the job is removed however the run ends. When
  the body of the try raises an exception that \<open>except Exception\<close> catches (one that is
  no cancellation of the task) on a session that is still usable (the exception is not a
  failed commit), and the database accepts the commit of the handler's status write, the
  function returns, the stored status is \<open>failed\<close>, the stored error message is the
  text of the exception when that text is not empty and is left as it was when the text is
  empty, the script and result records are those present when the exception was raised,
  no record present before the run is lost, and the script saved before a
  later failure is among them.
\<close>

theorem failed_run_outcome:
  assumes "map_of (jobs (db w)) jid = Some j"
  shows "jid \<notin> set (keys (active_jobs (snd (execute_scraping_job e jid u schema w)))) \<and>
    (\<forall>ex w1. execute_try e jid u schema w = (Inl ex, Active, w1) \<and> is_exception ex \<and>
         db_commit e (length (commits w1))
           (db_set_status jid ''failed'' (Some (exc_text ex)) (db w1)) = None \<longrightarrow>
       fst (execute_scraping_job e jid u schema w) = Inr () \<and>
       job_status (db (snd (execute_scraping_job e jid u schema w))) jid = Some ''failed'' \<and>
       map_option error_message
           (map_of (jobs (db (snd (execute_scraping_job e jid u schema w)))) jid) =
         Some (if exc_text ex = [] then error_message j else Some (exc_text ex)) \<and>
       scripts (db (snd (execute_scraping_job e jid u schema w))) = scripts (db w1) \<and>
       extracted (db (snd (execute_scraping_job e jid u schema w))) = extracted (db w1) \<and>
       take (length (scripts (db w))) (scripts (db w1)) = scripts (db w) \<and>
       take (length (extracted (db w))) (extracted (db w1)) = extracted (db w) \<and>
       (\<forall>sr s. analyze_webpage_and_generate_script e u schema = Inr sr \<and>
          sr_status sr = ''success'' \<and> sr_script sr = Some s \<longrightarrow>
          \<lparr>gs_job_id = jid, script_content = s, script_type = ''playwright''\<rparr>
            \<in> set (scripts (db (snd (execute_scraping_job e jid u schema w))))))"
proof (intro conjI allI impI)
  show "jid \<notin> set (keys (active_jobs (snd (execute_scraping_job e jid u schema w))))"
    by (rule execute_scraping_job_registry)
next
  fix ex w1
  assume a: "execute_try e jid u schema w = (Inl ex, Active, w1) \<and> is_exception ex \<and>
         db_commit e (length (commits w1))
           (db_set_status jid ''failed'' (Some (exc_text ex)) (db w1)) = None"
  then have r: "execute_try e jid u schema w = (Inl ex, Active, w1)" and ie: "is_exception ex"
    and ok: "db_commit e (length (commits w1))
           (db_set_status jid ''failed'' (Some (exc_text ex)) (db w1)) = None"
    by simp_all
  have st: "job_status (db w) jid = Some (status j)"
    using assms by (simp add: job_status_def)
  have h: "fst (execute_except e jid ex (Active, w1)) = Inr ()"
      "db (snd (snd (execute_except e jid ex (Active, w1)))) =
         db_set_status jid ''failed'' (Some (exc_text ex)) (db w1)"
    using ok by (cases rule: execute_except_cases [of Active e w1 jid ex]; simp)+
  have w': "db (snd (execute_scraping_job e jid u schema w)) =
        db_set_status jid ''failed'' (Some (exc_text ex)) (db w1)"
    using h by (simp add: execute_scraping_job_handled [OF r ie])
  have jobs1: "jobs (db w1) = jobs (db w)"
    using r by (cases rule: execute_try_cases [of e jid u schema w]) simp_all
  show "fst (execute_scraping_job e jid u schema w) = Inr ()"
    using h by (simp add: execute_scraping_job_handled [OF r ie])
  show "job_status (db (snd (execute_scraping_job e jid u schema w))) jid = Some ''failed''"
  proof -
    have "job_status (db w1) jid = Some (status j)"
      using assms jobs1 by (simp add: job_status_def)
    then show ?thesis
      by (simp add: w' job_status_set)
  qed
  show "map_option error_message
           (map_of (jobs (db (snd (execute_scraping_job e jid u schema w)))) jid) =
         Some (if exc_text ex = [] then error_message j else Some (exc_text ex))"
    using assms jobs1 by (simp add: w' jobs_set_status error_message_update_data)
  show "scripts (db (snd (execute_scraping_job e jid u schema w))) = scripts (db w1)"
    by (simp add: w')
  show "extracted (db (snd (execute_scraping_job e jid u schema w))) = extracted (db w1)"
    by (simp add: w')
  show "take (length (scripts (db w))) (scripts (db w1)) = scripts (db w)"
    using r by (cases rule: execute_try_cases [of e jid u schema w])
      (simp_all add: scripts_add_script)
  show "take (length (extracted (db w))) (extracted (db w1)) = extracted (db w)"
    using r by (cases rule: execute_try_cases [of e jid u schema w])
      (simp_all add: extracted_add_data)
  fix sr s
  assume b: "analyze_webpage_and_generate_script e u schema = Inr sr \<and>
          sr_status sr = ''success'' \<and> sr_script sr = Some s"
  have "db w1 = db_add_script jid s (db w)"
    using r b by (cases rule: execute_try_cases [of e jid u schema w]) simp_all
  then show "\<lparr>gs_job_id = jid, script_content = s, script_type = ''playwright''\<rparr>
            \<in> set (scripts (db (snd (execute_scraping_job e jid u schema w))))"
    by (simp add: w' db_add_script_def)
qed

text \<open>
  Claim C2 as stated fails where the exception has no text: the extraction raises
  \<open>NotImplementedError()\<close>, the handler catches it on a usable session and its status
  write is committed, the job ends \<open>failed\<close>, and the error message stored is \<open>None\<close>,
  not the (empty) text.
\<close>

theorem failed_run_empty_text:
  "(case execute_try env_silent ''j1'' ''http://example.com'' [] world_running of
      (r, s1, w1) \<Rightarrow> r = Inl (PyExc ''NotImplementedError'' []) \<and> s1 = Active \<and>
        db_commit env_silent (length (commits w1))
          (db_set_status ''j1'' ''failed'' (Some []) (db w1)) = None) \<and>
   is_exception (PyExc ''NotImplementedError'' []) \<and>
   (case execute_scraping_job env_silent ''j1'' ''http://example.com'' [] world_running of
      (r, w') \<Rightarrow> r = Inr () \<and> job_status (db w') ''j1'' = Some ''failed'' \<and>
        map_option error_message (map_of (jobs (db w')) ''j1'') = Some None)"
  by code_simp

text \<open>
  The two conditions of the amended claim are needed. A cancellation of the task passes
  the handler: the status stays \<open>running\<close>. A commit that fails in the body of the try
  leaves the session unusable, so the status write of the handler raises
  \<open>PendingRollbackError\<close>: the status stays \<open>running\<close>, and the exception leaves the
  function. In both runs the registry entry is removed.
\<close>

lemma cancelled_run_stays_running:
  "(case execute_try env_cancelled ''j1'' ''http://example.com'' [] world_running of
      (r, s1, w1) \<Rightarrow> r = Inl (PyExc ''CancelledError'' []) \<and> s1 = Active) \<and>
   \<not> is_exception (PyExc ''CancelledError'' []) \<and>
   (case execute_scraping_job env_cancelled ''j1'' ''http://example.com'' [] world_running of
      (r, w') \<Rightarrow> r = Inl (PyExc ''CancelledError'' []) \<and>
        job_status (db w') ''j1'' = Some ''running'' \<and> active_jobs w' = [])"
  by code_simp

lemma refused_commit_stays_running:
  "(case execute_try env_connection_lost ''j1'' ''http://example.com'' [] world_running of
      (r, s1, w1) \<Rightarrow> r = Inl (PyExc ''OperationalError'' ''connection was closed'') \<and>
        s1 = Inactive) \<and>
   is_exception (PyExc ''OperationalError'' ''connection was closed'') \<and>
   (case execute_scraping_job env_connection_lost ''j1'' ''http://example.com'' [] world_running of
      (r, w') \<Rightarrow> r = Inl session_error \<and>
        job_status (db w') ''j1'' = Some ''running'' \<and> active_jobs w' = [])"
  by code_simp

text \<open>C2, amended, on a run whose extraction returns an error after the script was saved.\<close>

theorem failed_run_outcome_witness:
  "map_of (jobs (db world_running)) ''j1'' = Some (job_example ''running'') \<and>
   fst (execute_try env_fail ''j1'' ''http://example.com'' [] world_running) =
     Inl (PyExc ''Exception'' ''Extraction failed: Page crashed'') \<and>
   fst (snd (execute_try env_fail ''j1'' ''http://example.com'' [] world_running)) = Active \<and>
   is_exception (PyExc ''Exception'' ''Extraction failed: Page crashed'') \<and>
   (\<forall>n d. db_commit env_fail n d = None) \<and>
   fst (execute_scraping_job env_fail ''j1'' ''http://example.com'' [] world_running) = Inr () \<and>
   job_status (db (snd (execute_scraping_job env_fail ''j1'' ''http://example.com'' []
     world_running))) ''j1'' = Some ''failed'' \<and>
   map_option error_message
     (map_of (jobs (db (snd (execute_scraping_job env_fail ''j1'' ''http://example.com'' []
        world_running)))) ''j1'') = Some (Some ''Extraction failed: Page crashed'') \<and>
   \<lparr>gs_job_id = ''j1'', script_content = ''return [];'', script_type = ''playwright''\<rparr>
     \<in> set (scripts (db (snd (execute_scraping_job env_fail ''j1'' ''http://example.com'' []
           world_running)))) \<and>
   ''j1'' \<in> set (keys (active_jobs world_running)) \<and>
   ''j1'' \<notin> set (keys (active_jobs
      (snd (execute_scraping_job env_fail ''j1'' ''http://example.com'' [] world_running))))"
proof -
  define ex where "ex = PyExc ''Exception'' ''Extraction failed: Page crashed''"
  have a: "map_of (jobs (db world_running)) ''j1'' = Some (job_example ''running'')"
    by code_simp
  have b: "fst (execute_try env_fail ''j1'' ''http://example.com'' [] world_running) = ex"
      if "ex = Inl (PyExc ''Exception'' ''Extraction failed: Page crashed'')" for ex
    unfolding that by code_simp
  have b1: "fst (execute_try env_fail ''j1'' ''http://example.com'' [] world_running) = Inl ex"
    unfolding ex_def by (rule b) (rule refl)
  have b2: "fst (snd (execute_try env_fail ''j1'' ''http://example.com'' [] world_running)) = Active"
    by code_simp
  obtain w1 where r: "execute_try env_fail ''j1'' ''http://example.com'' [] world_running =
      (Inl ex, Active, w1)"
    using b1 b2 by (cases "execute_try env_fail ''j1'' ''http://example.com'' [] world_running") simp
  have ie: "is_exception ex"
    by (simp add: ex_def is_exception_def)
  have k: "db_commit env_fail n d = None" for n d
    by (simp add: env_fail_def)
  have c: "analyze_webpage_and_generate_script env_fail ''http://example.com'' [] =
      Inr \<lparr>sr_status = ''success'', sr_error = None, sr_script = Some ''return [];''\<rparr>"
    by (simp add: env_fail_def)
  have d: "''j1'' \<in> set (keys (active_jobs world_running))"
    by code_simp
  note t = failed_run_outcome [OF a, of env_fail "''http://example.com''" "[]"]
  note t1 = t [THEN conjunct1]
  have h: "execute_try env_fail ''j1'' ''http://example.com'' [] world_running = (Inl ex, Active, w1) \<and>
      is_exception ex \<and>
      db_commit env_fail (length (commits w1))
        (db_set_status ''j1'' ''failed'' (Some (exc_text ex)) (db w1)) = None"
    using r ie k by simp
  note t2 = t [THEN conjunct2, rule_format, OF h]
  have 0: "fst (execute_scraping_job env_fail ''j1'' ''http://example.com'' [] world_running) = Inr ()"
    using t2 by (elim conjE)
  have 2: "job_status (db (snd (execute_scraping_job env_fail ''j1'' ''http://example.com'' []
      world_running))) ''j1'' = Some ''failed''"
    using t2 by (elim conjE)
  have "map_option error_message
     (map_of (jobs (db (snd (execute_scraping_job env_fail ''j1'' ''http://example.com'' []
        world_running)))) ''j1'') =
      Some (if exc_text ex = [] then error_message (job_example ''running'') else Some (exc_text ex))"
    using t2 by (elim conjE)
  then have 3: "map_option error_message
     (map_of (jobs (db (snd (execute_scraping_job env_fail ''j1'' ''http://example.com'' []
        world_running)))) ''j1'') = Some (Some ''Extraction failed: Page crashed'')"
    by (simp add: ex_def)
  have "\<forall>sr s. analyze_webpage_and_generate_script env_fail ''http://example.com'' [] = Inr sr \<and>
          sr_status sr = ''success'' \<and> sr_script sr = Some s \<longrightarrow>
          \<lparr>gs_job_id = ''j1'', script_content = s, script_type = ''playwright''\<rparr>
            \<in> set (scripts (db (snd (execute_scraping_job env_fail ''j1'' ''http://example.com'' []
                 world_running))))"
    using t2 by (elim conjE)
  from this [rule_format, of "\<lparr>sr_status = ''success'', sr_error = None,
      sr_script = Some ''return [];''\<rparr>" "''return [];''"] c
  have 4: "\<lparr>gs_job_id = ''j1'', script_content = ''return [];'', script_type = ''playwright''\<rparr>
     \<in> set (scripts (db (snd (execute_scraping_job env_fail ''j1'' ''http://example.com'' []
           world_running))))"
    by simp
  show ?thesis
    using a b1 b2 ie k d t1 0 2 3 4 unfolding ex_def by (intro conjI allI)
qed

lemma broadcast_to_all_outbox:
  "outbox (broadcast_to_all e m w) =
     outbox w @ [(c, m). (c, ws) \<leftarrow> active_connections (manager w), send_text e ws m]"
  by (simp add: broadcast_to_all_def Let_def)

lemma broadcast_to_all_sent:
  "x \<in> set (drop (length (outbox w)) (outbox (broadcast_to_all e m w))) \<Longrightarrow> snd x = m"
  by (auto simp: broadcast_to_all_outbox)

text \<open>
  Claim C3. \<open>start_scraping_job\<close> raises "not found" when no job has the id and "not in
  pending status" when the job's status is not \<open>pending\<close>; in both cases the state
  (registry and status included) is unchanged. For a pending job whose status write the
  database accepts it returns with the status \<open>running\<close> and the task registered under
  the id, and the pipeline has not run: no script or result has been added, and the only
  messages sent are the status update. For a pending job whose status write the database
  refuses it raises with the text of the database error, and the state is unchanged.
\<close>

theorem start_scraping_job_contract:
  "(map_of (jobs (db w)) jid = None \<longrightarrow>
      start_scraping_job e jid w =
        (Inl (PyExc ''Exception'' (''Failed to start scraping job: '' @ ''Job '' @ jid @ '' not found'')), w)) \<and>
   (\<forall>j. map_of (jobs (db w)) jid = Some j \<and> status j \<noteq> ''pending'' \<longrightarrow>
      start_scraping_job e jid w =
        (Inl (PyExc ''Exception''
           (''Failed to start scraping job: '' @ ''Job '' @ jid @ '' is not in pending status'')), w)) \<and>
   (\<forall>j. map_of (jobs (db w)) jid = Some j \<and> status j = ''pending'' \<and>
        db_commit e (length (commits w)) (db_set_status jid ''running'' None (db w)) = None \<longrightarrow>
      (\<exists>reply w'. start_scraping_job e jid w = (Inr reply, w') \<and>
         job_status (db w') jid = Some ''running'' \<and>
         map_of (active_jobs w') jid =
           Some \<lparr>t_job_id = jid, t_url = url j, t_schema = schema_definition j\<rparr> \<and>
         scripts (db w') = scripts (db w) \<and> extracted (db w') = extracted (db w) \<and>
         (\<forall>x \<in> set (drop (length (outbox w)) (outbox w')).
            snd x = JobStatusUpdate jid ''running'' None))) \<and>
   (\<forall>j ex. map_of (jobs (db w)) jid = Some j \<and> status j = ''pending'' \<and>
        db_commit e (length (commits w)) (db_set_status jid ''running'' None (db w)) = Some ex \<longrightarrow>
      start_scraping_job e jid w =
        (Inl (if is_exception ex
              then PyExc ''Exception'' (''Failed to start scraping job: '' @ exc_text ex)
              else ex), w))"
proof (intro conjI allI impI)
  show "map_of (jobs (db w)) jid = None \<Longrightarrow>
      start_scraping_job e jid w =
        (Inl (PyExc ''Exception'' (''Failed to start scraping job: '' @ ''Job '' @ jid @ '' not found'')), w)"
    by (simp add: start_scraping_job_def start_try_def is_exception_def)
next
  fix j assume "map_of (jobs (db w)) jid = Some j \<and> status j \<noteq> ''pending''"
  then show "start_scraping_job e jid w =
        (Inl (PyExc ''Exception''
           (''Failed to start scraping job: '' @ ''Job '' @ jid @ '' is not in pending status'')), w)"
    by (simp add: start_scraping_job_def start_try_def is_exception_def)
next
  fix j assume a: "map_of (jobs (db w)) jid = Some j \<and> status j = ''pending'' \<and>
        db_commit e (length (commits w)) (db_set_status jid ''running'' None (db w)) = None"
  define d where "d = db_set_status jid ''running'' None (db w)"
  define w1 where "w1 = broadcast_to_all e (JobStatusUpdate jid ''running'' None)
      (w\<lparr>db := d, commits := commits w @ [d]\<rparr>)"
  define w2 where "w2 = w1\<lparr>active_jobs := AList.update jid
      \<lparr>t_job_id = jid, t_url = url j, t_schema = schema_definition j\<rparr> (active_jobs w1)\<rparr>"
  have u: "update_job_status e jid ''running'' None (Active, w) = (Inr (), Active, w1)"
    using a by (simp add: update_job_status_def commit_def d_def w1_def)
  have r: "start_scraping_job e jid w =
      (Inr [(''status'', ''started''), (''job_id'', jid),
            (''message'', ''Scraping job started successfully'')], w2)"
    using a u by (simp add: start_scraping_job_def start_try_def Let_def w2_def)
  have st: "job_status (db w) jid = Some ''pending''"
    using a by (simp add: job_status_def)
  have 1: "job_status (db w2) jid = Some ''running''"
    using st by (simp add: w2_def w1_def d_def job_status_set)
  have 2: "map_of (active_jobs w2) jid =
      Some \<lparr>t_job_id = jid, t_url = url j, t_schema = schema_definition j\<rparr>"
    by (simp add: w2_def update_conv')
  have 3: "scripts (db w2) = scripts (db w) \<and> extracted (db w2) = extracted (db w)"
    by (simp add: w2_def w1_def d_def)
  have 4: "\<forall>x \<in> set (drop (length (outbox w)) (outbox w2)). snd x = JobStatusUpdate jid ''running'' None"
    using broadcast_to_all_sent [of _ "w\<lparr>db := d, commits := commits w @ [d]\<rparr>" e
        "JobStatusUpdate jid ''running'' None"]
    by (simp add: w2_def w1_def)
  show "\<exists>reply w'. start_scraping_job e jid w = (Inr reply, w') \<and>
         job_status (db w') jid = Some ''running'' \<and>
         map_of (active_jobs w') jid =
           Some \<lparr>t_job_id = jid, t_url = url j, t_schema = schema_definition j\<rparr> \<and>
         scripts (db w') = scripts (db w) \<and> extracted (db w') = extracted (db w) \<and>
         (\<forall>x \<in> set (drop (length (outbox w)) (outbox w')).
            snd x = JobStatusUpdate jid ''running'' None)"
    using r 1 2 3 4 by blast
next
  fix j ex assume a: "map_of (jobs (db w)) jid = Some j \<and> status j = ''pending'' \<and>
        db_commit e (length (commits w)) (db_set_status jid ''running'' None (db w)) = Some ex"
  then have u: "update_job_status e jid ''running'' None (Active, w) = (Inl ex, Inactive, w)"
    by (simp add: update_job_status_def commit_def)
  show "start_scraping_job e jid w =
        (Inl (if is_exception ex
              then PyExc ''Exception'' (''Failed to start scraping job: '' @ exc_text ex)
              else ex), w)"
    using a u by (simp add: start_scraping_job_def start_try_def)
qed

text \<open>
  C3 on an unknown id, on a running job, on a pending job, and on a pending job with a
  database that refuses the write.
\<close>

theorem start_scraping_job_contract_witness:
  "map_of (jobs (db world_pending)) ''j9'' = None \<and>
   start_scraping_job env_ok ''j9'' world_pending =
     (Inl (PyExc ''Exception'' ''Failed to start scraping job: Job j9 not found''), world_pending) \<and>
   map_of (jobs (db world_running)) ''j1'' = Some (job_example ''running'') \<and>
   status (job_example ''running'') \<noteq> ''pending'' \<and>
   start_scraping_job env_ok ''j1'' world_running =
     (Inl (PyExc ''Exception'' ''Failed to start scraping job: Job j1 is not in pending status''),
      world_running) \<and>
   map_of (jobs (db world_pending)) ''j1'' = Some (job_example ''pending'') \<and>
   status (job_example ''pending'') = ''pending'' \<and>
   db_commit env_ok (length (commits world_pending))
     (db_set_status ''j1'' ''running'' None (db world_pending)) = None \<and>
   job_status (db (snd (start_scraping_job env_ok ''j1'' world_pending))) ''j1'' = Some ''running'' \<and>
   map_of (active_jobs (snd (start_scraping_job env_ok ''j1'' world_pending))) ''j1'' =
     Some \<lparr>t_job_id = ''j1'', t_url = ''http://example.com'', t_schema = []\<rparr> \<and>
   db_commit env_connection_lost (length (commits (world_pending\<lparr>commits := [db world_pending]\<rparr>)))
     (db_set_status ''j1'' ''running'' None (db (world_pending\<lparr>commits := [db world_pending]\<rparr>))) =
     Some (PyExc ''OperationalError'' ''connection was closed'') \<and>
   start_scraping_job env_connection_lost ''j1'' (world_pending\<lparr>commits := [db world_pending]\<rparr>) =
     (Inl (PyExc ''Exception'' ''Failed to start scraping job: connection was closed''),
      world_pending\<lparr>commits := [db world_pending]\<rparr>)"
proof -
  have a: "map_of (jobs (db world_pending)) ''j9'' = None"
    by code_simp
  have b: "map_of (jobs (db world_running)) ''j1'' = Some (job_example ''running'')"
    by code_simp
  have b': "status (job_example ''running'') \<noteq> ''pending''"
    by (simp add: job_example_def)
  have c: "map_of (jobs (db world_pending)) ''j1'' = Some (job_example ''pending'')"
    by code_simp
  have c': "status (job_example ''pending'') = ''pending''"
    by (simp add: job_example_def)
  have c'': "db_commit env_ok (length (commits world_pending))
     (db_set_status ''j1'' ''running'' None (db world_pending)) = None"
    by (simp add: env_ok_def)
  have 1: "start_scraping_job env_ok ''j9'' world_pending =
     (Inl (PyExc ''Exception'' (''Failed to start scraping job: '' @ ''Job '' @ ''j9'' @ '' not found'')),
      world_pending)"
    using start_scraping_job_contract [of world_pending "''j9''" env_ok] a by blast
  have 2: "start_scraping_job env_ok ''j1'' world_running =
     (Inl (PyExc ''Exception''
        (''Failed to start scraping job: '' @ ''Job '' @ ''j1'' @ '' is not in pending status'')),
      world_running)"
    using start_scraping_job_contract [of world_running "''j1''" env_ok] b b' by blast
  have "\<exists>reply w'. start_scraping_job env_ok ''j1'' world_pending = (Inr reply, w') \<and>
         job_status (db w') ''j1'' = Some ''running'' \<and>
         map_of (active_jobs w') ''j1'' =
           Some \<lparr>t_job_id = ''j1'', t_url = url (job_example ''pending''),
                 t_schema = schema_definition (job_example ''pending'')\<rparr>"
    using start_scraping_job_contract [of world_pending "''j1''" env_ok] c c' c'' by blast
  then have 3: "job_status (db (snd (start_scraping_job env_ok ''j1'' world_pending))) ''j1'' = Some ''running'' \<and>
    map_of (active_jobs (snd (start_scraping_job env_ok ''j1'' world_pending))) ''j1'' =
      Some \<lparr>t_job_id = ''j1'', t_url = ''http://example.com'', t_schema = []\<rparr>"
    by (auto simp: job_example_def)
  define wl where "wl = world_pending\<lparr>commits := [db world_pending]\<rparr>"
  have d: "map_of (jobs (db wl)) ''j1'' = Some (job_example ''pending'')"
    unfolding wl_def by code_simp
  have d': "db_commit env_connection_lost (length (commits wl))
     (db_set_status ''j1'' ''running'' None (db wl)) =
     Some (PyExc ''OperationalError'' ''connection was closed'')"
    by (simp add: env_connection_lost_def wl_def)
  have ie: "is_exception (PyExc ''OperationalError'' ''connection was closed'')"
    by (simp add: is_exception_def)
  have 4: "start_scraping_job env_connection_lost ''j1'' wl =
     (Inl (PyExc ''Exception'' (''Failed to start scraping job: '' @ ''connection was closed'')), wl)"
  proof -
    have "start_scraping_job env_connection_lost ''j1'' wl =
        (Inl (if is_exception (PyExc ''OperationalError'' ''connection was closed'')
              then PyExc ''Exception'' (''Failed to start scraping job: '' @
                     exc_text (PyExc ''OperationalError'' ''connection was closed''))
              else PyExc ''OperationalError'' ''connection was closed''), wl)"
      using start_scraping_job_contract [of wl "''j1''" env_connection_lost] d c' d' by blast
    then show ?thesis
      using ie by simp
  qed
  have 5: "''Failed to start scraping job: '' @ ''connection was closed'' =
      ''Failed to start scraping job: connection was closed''"
    "''Failed to start scraping job: '' @ ''Job '' @ ''j9'' @ '' not found'' =
      ''Failed to start scraping job: Job j9 not found''"
    "''Failed to start scraping job: '' @ ''Job '' @ ''j1'' @ '' is not in pending status'' =
      ''Failed to start scraping job: Job j1 is not in pending status''"
    by simp_all
  show ?thesis
    using a b b' c c' c'' 1 2 3 4 d' unfolding wl_def 5 by blast
qed

text \<open>
  Claim C8, amended. \<open>create_scraping_job\<close> validates neither the url nor the schema.
  For every url, schema and user id, when the database accepts the insert the call
  returns the new job, stored at the end of the table with status \<open>pending\<close> (and found
  under its id when the id is new), and changes nothing else: scripts, results, registry,
  connection manager and outbox are as before. When the database refuses the insert the
  call raises, with the text of the database error after the prefix, and the state is
  unchanged: no job is persisted.
\<close>

theorem create_scraping_job_persists:
  "(db_commit e (length (commits w))
      (db_add_job new_id \<lparr>url = jc_url job_data, schema_definition = jc_schema_definition job_data,
          status = ''pending'', error_message = None, user_id = uid\<rparr> (db w)) = None \<longrightarrow>
    (\<exists>j w'. create_scraping_job e new_id job_data uid w = (Inr (new_id, j), w') \<and>
       status j = ''pending'' \<and> url j = jc_url job_data \<and>
       schema_definition j = jc_schema_definition job_data \<and> user_id j = uid \<and>
       error_message j = None \<and>
       jobs (db w') = jobs (db w) @ [(new_id, j)] \<and>
       (new_id \<notin> set (keys (jobs (db w))) \<longrightarrow> map_of (jobs (db w')) new_id = Some j) \<and>
       commits w' = commits w @ [db w'] \<and>
       scripts (db w') = scripts (db w) \<and> extracted (db w') = extracted (db w) \<and>
       active_jobs w' = active_jobs w \<and> manager w' = manager w \<and> outbox w' = outbox w)) \<and>
   (\<forall>ex. db_commit e (length (commits w))
      (db_add_job new_id \<lparr>url = jc_url job_data, schema_definition = jc_schema_definition job_data,
          status = ''pending'', error_message = None, user_id = uid\<rparr> (db w)) = Some ex \<longrightarrow>
      create_scraping_job e new_id job_data uid w =
        (Inl (if is_exception ex
              then PyExc ''Exception'' (''Failed to create scraping job: '' @ exc_text ex)
              else ex), w))"
proof (intro conjI allI impI)
  assume a: "db_commit e (length (commits w))
      (db_add_job new_id \<lparr>url = jc_url job_data, schema_definition = jc_schema_definition job_data,
          status = ''pending'', error_message = None, user_id = uid\<rparr> (db w)) = None"
  have m: "new_id \<notin> set (keys (jobs (db w))) \<Longrightarrow> map_of (jobs (db w)) new_id = None"
    by (simp add: keys_def map_of_eq_None_iff)
  show "\<exists>j w'. create_scraping_job e new_id job_data uid w = (Inr (new_id, j), w') \<and>
       status j = ''pending'' \<and> url j = jc_url job_data \<and>
       schema_definition j = jc_schema_definition job_data \<and> user_id j = uid \<and>
       error_message j = None \<and>
       jobs (db w') = jobs (db w) @ [(new_id, j)] \<and>
       (new_id \<notin> set (keys (jobs (db w))) \<longrightarrow> map_of (jobs (db w')) new_id = Some j) \<and>
       commits w' = commits w @ [db w'] \<and>
       scripts (db w') = scripts (db w) \<and> extracted (db w') = extracted (db w) \<and>
       active_jobs w' = active_jobs w \<and> manager w' = manager w \<and> outbox w' = outbox w"
    using a m by (simp add: create_scraping_job_def Let_def commit_def db_add_job_def map_add_def)
next
  fix ex assume "db_commit e (length (commits w))
      (db_add_job new_id \<lparr>url = jc_url job_data, schema_definition = jc_schema_definition job_data,
          status = ''pending'', error_message = None, user_id = uid\<rparr> (db w)) = Some ex"
  then show "create_scraping_job e new_id job_data uid w =
        (Inl (if is_exception ex
              then PyExc ''Exception'' (''Failed to create scraping job: '' @ exc_text ex)
              else ex), w)"
    by (simp add: create_scraping_job_def Let_def commit_def)
qed

text \<open>
  Claim C8 as stated fails on the empty url with the empty schema: on a database that
  enforces the column bounds the call returns the job, and the job is stored with status
  \<open>pending\<close>.
\<close>

theorem create_scraping_job_empty_input:
  "create_scraping_job env_postgres ''j1'' \<lparr>jc_url = [], jc_schema_definition = []\<rparr> ''anonymous''
       world_init =
     (Inr (''j1'', \<lparr>url = [], schema_definition = [], status = ''pending'', error_message = None,
                    user_id = ''anonymous''\<rparr>),
      world_init\<lparr>db := \<lparr>jobs = [(''j1'', \<lparr>url = [], schema_definition = [], status = ''pending'',
                            error_message = None, user_id = ''anonymous''\<rparr>)],
                         scripts = [], extracted = []\<rparr>,
                   commits := [\<lparr>jobs = [(''j1'', \<lparr>url = [], schema_definition = [],
                                  status = ''pending'', error_message = None,
                                  user_id = ''anonymous''\<rparr>)],
                                scripts = [], extracted = []\<rparr>]\<rparr>)"
  by code_simp

text \<open>
  C8, amended, on a database that enforces the column bounds: a second job for
  \<open>world_pending\<close> is stored, and a job with a url of 501 characters is refused.
\<close>

theorem create_scraping_job_persists_witness:
  "db_commit env_postgres (length (commits world_pending))
     (db_add_job ''j2'' \<lparr>url = ''http://example.org'', schema_definition = [],
        status = ''pending'', error_message = None, user_id = ''anonymous''\<rparr>
        (db world_pending)) = None \<and>
   fst (create_scraping_job env_postgres ''j2''
          \<lparr>jc_url = ''http://example.org'', jc_schema_definition = []\<rparr> ''anonymous''
          world_pending) =
     Inr (''j2'', \<lparr>url = ''http://example.org'', schema_definition = [], status = ''pending'',
                   error_message = None, user_id = ''anonymous''\<rparr>) \<and>
   jobs (db (snd (create_scraping_job env_postgres ''j2''
       \<lparr>jc_url = ''http://example.org'', jc_schema_definition = []\<rparr> ''anonymous''
       world_pending))) =
     [(''j1'', job_example ''pending''),
      (''j2'', \<lparr>url = ''http://example.org'', schema_definition = [], status = ''pending'',
                 error_message = None, user_id = ''anonymous''\<rparr>)] \<and>
   length url_long = 501 \<and>
   db_commit env_postgres (length (commits world_pending))
     (db_add_job ''j2'' \<lparr>url = url_long, schema_definition = [],
        status = ''pending'', error_message = None, user_id = ''anonymous''\<rparr>
        (db world_pending)) =
     Some (PyExc ''DBAPIError'' ''value too long for type character varying(500)'') \<and>
   create_scraping_job env_postgres ''j2'' \<lparr>jc_url = url_long, jc_schema_definition = []\<rparr>
       ''anonymous'' world_pending =
     (Inl (PyExc ''Exception''
        ''Failed to create scraping job: value too long for type character varying(500)''),
      world_pending)"
proof -
  define jd where "jd = \<lparr>jc_url = ''http://example.org'', jc_schema_definition = []\<rparr>"
  define jl where "jl = \<lparr>jc_url = url_long, jc_schema_definition = []\<rparr>"
  define j where "j = \<lparr>url = ''http://example.org'', schema_definition = [],
      status = ''pending'', error_message = None, user_id = ''anonymous''\<rparr>"
  have len: "length url_long = 501"
    by (simp add: url_long_def)
  have a: "db_commit env_postgres (length (commits world_pending))
     (db_add_job ''j2'' \<lparr>url = jc_url jd, schema_definition = jc_schema_definition jd,
        status = ''pending'', error_message = None, user_id = ''anonymous''\<rparr>
        (db world_pending)) = None"
    by (simp add: env_postgres_def db_add_job_def world_pending_def job_example_def jd_def)
  have b: "db_commit env_postgres (length (commits world_pending))
     (db_add_job ''j2'' \<lparr>url = jc_url jl, schema_definition = jc_schema_definition jl,
        status = ''pending'', error_message = None, user_id = ''anonymous''\<rparr>
        (db world_pending)) =
     Some (PyExc ''DBAPIError'' ''value too long for type character varying(500)'')"
    using len by (simp add: env_postgres_def db_add_job_def world_pending_def job_example_def jl_def)
  note t = create_scraping_job_persists [of env_postgres world_pending "''j2''" _ "''anonymous''"]
  note t1 = t [where job_data = jd, THEN conjunct1, rule_format, OF a]
  note t2 = t [where job_data = jl, THEN conjunct2, rule_format, OF b]
  from t1 obtain j' w' where r: "create_scraping_job env_postgres ''j2'' jd ''anonymous''
        world_pending = (Inr (''j2'', j'), w')"
    and f: "status j' = ''pending''" "url j' = jc_url jd"
      "schema_definition j' = jc_schema_definition jd" "user_id j' = ''anonymous''"
      "error_message j' = None"
    and js: "jobs (db w') = jobs (db world_pending) @ [(''j2'', j')]"
    by (elim exE conjE)
  have j': "j' = j"
    using f by (simp add: j_def jd_def)
  have 1: "fst (create_scraping_job env_postgres ''j2'' jd ''anonymous'' world_pending) =
      Inr (''j2'', j)"
    using r j' by simp
  have 2: "jobs (db (snd (create_scraping_job env_postgres ''j2'' jd ''anonymous'' world_pending))) =
     [(''j1'', job_example ''pending''), (''j2'', j)]"
    using r js j' by (simp add: world_pending_def)
  have ie: "is_exception (PyExc ''DBAPIError'' ''value too long for type character varying(500)'')"
    by (simp add: is_exception_def)
  have 3: "create_scraping_job env_postgres ''j2'' jl ''anonymous'' world_pending =
     (Inl (PyExc ''Exception''
        ''Failed to create scraping job: value too long for type character varying(500)''),
      world_pending)"
    using t2 ie by simp
  show ?thesis
    using a b len 1 2 3 unfolding jd_def jl_def j_def scraping_job_create.simps
    by (intro conjI)
qed

lemma sent_to_client:
  "distinct (map fst conns) \<Longrightarrow> map_of conns c = Some ws \<Longrightarrow>
   filter (\<lambda>(c', m'). c' = c) [(c', m). (c', ws') \<leftarrow> conns, ok ws'] = (if ok ws then [(c, m)] else [])"
proof (induction conns)
  case Nil
  then show ?case by simp
next
  case (Cons x conns)
  obtain c0 ws0 where x: "x = (c0, ws0)" by (cases x)
  show ?case
  proof (cases "c0 = c")
    case True
    with Cons.prems x have ws: "ws0 = ws" and nin: "c \<notin> fst ` set conns"
      by auto
    have "filter (\<lambda>(c', m'). c' = c) [(c', m). (c', ws') \<leftarrow> conns, ok ws'] = []"
      using nin by (force simp: filter_empty_conv)
    then show ?thesis
      using x True ws by simp
  next
    case False
    with Cons x show ?thesis by simp
  qed
qed

lemma failed_not_client:
  "distinct (map fst conns) \<Longrightarrow> map_of conns c = Some ws \<Longrightarrow> ok ws \<Longrightarrow>
   c \<notin> set [c'. (c', ws') \<leftarrow> conns, \<not> ok ws']"
proof
  assume d: "distinct (map fst conns)" and m: "map_of conns c = Some ws" and ok: "ok ws"
    and "c \<in> set [c'. (c', ws') \<leftarrow> conns, \<not> ok ws']"
  then obtain ws' where "(c, ws') \<in> set conns" "\<not> ok ws'"
    by auto
  with d m have "ws' = ws"
    by simp
  with ok \<open>\<not> ok ws'\<close> show False by simp
qed

lemma active_connections_disconnect [simp]:
  "active_connections (disconnect c h) = AList.delete c (active_connections h)"
  by (simp add: disconnect_def)

lemma fold_disconnect_distinct:
  "distinct (map fst (active_connections h)) \<Longrightarrow>
   distinct (map fst (active_connections (fold disconnect cs h)))"
  by (induction cs arbitrary: h) (simp_all add: distinct_delete)

lemma fold_disconnect_map_of:
  "c \<notin> set cs \<Longrightarrow>
   map_of (active_connections (fold disconnect cs h)) c = map_of (active_connections h) c"
  by (induction cs arbitrary: h) (simp_all add: delete_conv')

lemma delivered_append:
  "outbox w' = outbox w @ xs \<Longrightarrow>
   delivered c w' = delivered c w @ map snd (filter (\<lambda>(c', m). c' = c) xs)"
  by (simp add: delivered_def)

lemma broadcast_to_all_live:
  assumes "live c ws w" and "send_text e ws m"
  shows "live c ws (broadcast_to_all e m w)"
    and "delivered c (broadcast_to_all e m w) = delivered c w @ [m]"
proof -
  let ?conns = "active_connections (manager w)"
  have d: "distinct (map fst ?conns)" and mo: "map_of ?conns c = Some ws"
    using assms(1) by (simp_all add: live_def)
  have nin: "c \<notin> set [c'. (c', ws') \<leftarrow> ?conns, \<not> send_text e ws' m]"
    using d mo assms(2) by (rule failed_not_client [where ok = "\<lambda>ws'. send_text e ws' m"])
  have man: "manager (broadcast_to_all e m w) =
      fold disconnect [c'. (c', ws') \<leftarrow> ?conns, \<not> send_text e ws' m] (manager w)"
    by (simp add: broadcast_to_all_def Let_def)
  show "live c ws (broadcast_to_all e m w)"
    unfolding live_def man
    using d mo nin by (simp add: fold_disconnect_distinct fold_disconnect_map_of)
  have "filter (\<lambda>(c', m'). c' = c) [(c', m). (c', ws') \<leftarrow> ?conns, send_text e ws' m] = [(c, m)]"
    using sent_to_client [OF d mo, where ok = "\<lambda>ws'. send_text e ws' m" and m = m] assms(2)
    by simp
  then show "delivered c (broadcast_to_all e m w) = delivered c w @ [m]"
    using delivered_append [OF broadcast_to_all_outbox, of c e m w] by simp
qed

lemma live_db_update [simp]:
  "live c ws (w\<lparr>db := d, commits := cs\<rparr>) = live c ws w"
  "delivered c (w\<lparr>db := d, commits := cs\<rparr>) = delivered c w"
  by (simp_all add: live_def delivered_def)

lemma log_step:
  assumes "live c ws w \<and> delivered c w = xs" and "\<forall>m. send_text e ws m"
  shows "live c ws (log_job_progress e j s t w) \<and>
         delivered c (log_job_progress e j s t w) = xs @ [JobProgress j s t]"
  using assms broadcast_to_all_live [of c ws w e "JobProgress j s t"]
  by (simp add: log_job_progress_def)

lemma store_step:
  assumes "live c ws w \<and> delivered c w = xs"
  shows "live c ws (w\<lparr>db := d, commits := cs\<rparr>) \<and> delivered c (w\<lparr>db := d, commits := cs\<rparr>) = xs"
  using assms by simp

lemma bcast_step:
  assumes "live c ws w \<and> delivered c w = xs" and "\<forall>m. send_text e ws m"
  shows "live c ws (broadcast_to_all e m w) \<and> delivered c (broadcast_to_all e m w) = xs @ [m]"
  using assms broadcast_to_all_live [of c ws w e m] by simp

lemma commit_live:
  assumes "live c ws w"
  shows "live c ws (snd (snd (commit e d (s, w))))"
  using assms by (cases rule: commit_cases [of s e w d]) simp_all

lemma update_job_status_live:
  assumes "live c ws w" and "\<forall>m. send_text e ws m"
  shows "live c ws (snd (snd (update_job_status e j st err (s, w))))"
proof (cases rule: update_job_status_cases [of s e w j st err])
  case written
  have "live c ws (w\<lparr>db := db_set_status j st err (db w),
      commits := commits w @ [db_set_status j st err (db w)]\<rparr>)"
    using assms(1) by simp
  then show ?thesis
    using written(3) assms(2) by (simp add: broadcast_to_all_live)
next
  case (refused ex)
  then show ?thesis using assms(1) by simp
qed

lemma execute_finally_delivered [simp]:
  "delivered c (execute_finally j w) = delivered c w"
  by (simp add: delivered_def)

lemma execute_try_live:
  assumes l: "live c ws w" and ok: "\<forall>m. send_text e ws m"
  shows "live c ws (snd (snd (execute_try e jid u schema w)))"
proof -
  define w1 where "w1 = log_job_progress e jid ''started'' ''Initializing scraping job'' w"
  define w2 where "w2 = log_job_progress e jid ''generating_script''
      ''AI is generating extraction script'' w1"
  have l1: "live c ws w1"
    unfolding w1_def using log_step [of c ws w _ e] l ok by simp
  have l2: "live c ws w2"
    unfolding w2_def using log_step [of c ws w1 _ e] l1 ok by simp
  show ?thesis
  proof (cases "analyze_webpage_and_generate_script e u schema")
    case (Inl ex)
    then show ?thesis
      using l2 by (simp add: execute_try_def Let_def w1_def w2_def)
  next
    case (Inr sr)
    note ai = this
    show ?thesis
    proof (cases "sr_status sr = ''success''")
      case False
      with ai l2 show ?thesis
        by (simp add: execute_try_def Let_def w1_def w2_def)
    next
      case True
      note st = this
      show ?thesis
      proof (cases "sr_script sr")
        case None
        with ai st l2 show ?thesis
          by (simp add: execute_try_def Let_def w1_def w2_def)
      next
        case (Some s)
        note sc = this
        define w3 where "w3 = log_job_progress e jid ''script_ready''
            (''Generated '' @ str_nat (length s) @ '' character script'') w2"
        have l3: "live c ws w3"
          unfolding w3_def using log_step [of c ws w2 _ e] l2 ok by simp
        show ?thesis
        proof (cases "db_commit e (length (commits w3)) (db_add_script jid s (db w3))")
          case (Some ex)
          with ai st sc l3 show ?thesis
            by (simp add: execute_try_def Let_def commit_def w1_def w2_def w3_def)
        next
          case None
          note k1 = this
          define w4 where "w4 = w3\<lparr>db := db_add_script jid s (db w3),
              commits := commits w3 @ [db_add_script jid s (db w3)]\<rparr>"
          define w5 where "w5 = log_job_progress e jid ''extracting''
              ''Executing script and extracting data'' w4"
          have l4: "live c ws w4"
            unfolding w4_def using l3 by simp
          have l5: "live c ws w5"
            unfolding w5_def using log_step [of c ws w4 _ e] l4 ok by simp
          show ?thesis
          proof (cases "execute_extraction_script e u s schema")
            case (Inl ex)
            with ai st sc k1 l5 show ?thesis
              by (simp add: execute_try_def Let_def commit_def w1_def w2_def w3_def w4_def w5_def)
          next
            case (Inr er)
            note ex = this
            show ?thesis
            proof (cases "er_status er = ''success''")
              case False
              with ai st sc k1 ex l5 show ?thesis
                by (simp add: execute_try_def Let_def commit_def w1_def w2_def w3_def w4_def
                    w5_def)
            next
              case True
              define w6 where "w6 = log_job_progress e jid ''data_extracted''
                  (''Successfully extracted '' @ str_int (er_data_count er) @ '' items'') w5"
              have l6: "live c ws w6"
                unfolding w6_def using log_step [of c ws w5 _ e] l5 ok by simp
              show ?thesis
              proof (cases "db_commit e (length (commits w6))
                  (db_add_data jid (er_data er) (er_data_count er) (db w6))")
                case (Some ex')
                with ai st sc k1 ex True l6 show ?thesis
                  by (simp add: execute_try_def Let_def commit_def w1_def w2_def w3_def w4_def
                      w5_def w6_def)
              next
                case None
                define w7 where "w7 = w6\<lparr>db := db_add_data jid (er_data er) (er_data_count er) (db w6),
                    commits := commits w6 @
                      [db_add_data jid (er_data er) (er_data_count er) (db w6)]\<rparr>"
                define w8 where "w8 = log_job_progress e jid ''completed''
                    (''Job completed successfully with '' @ str_int (er_data_count er) @ '' items'')
                    w7"
                have l7: "live c ws w7"
                  unfolding w7_def using l6 by simp
                have l8: "live c ws w8"
                  unfolding w8_def using log_step [of c ws w7 _ e] l7 ok by simp
                have r: "execute_try e jid u schema w =
                    update_job_status e jid ''completed'' None (Active, w8)"
                  using ai st sc k1 ex True None
                  by (simp add: execute_try_def Let_def commit_def w1_def w2_def w3_def w4_def
                      w5_def w6_def w7_def w8_def)
                show ?thesis
                  unfolding r using l8 ok by (rule update_job_status_live)
              qed
            qed
          qed
        qed
      qed
    qed
  qed
qed

text \<open>
  Claim C10. Every client with an entry in \<open>active_connections\<close> whose socket takes the
  messages receives, whatever \<open>job_subscribers\<close> holds: the six progress events and the
  status update \<open>completed\<close> of a run whose collaborators and commits succeed, in this
  order; at the end of a run whose exception the handler catches the progress event
  \<open>failed\<close>, followed by the status update \<open>failed\<close> exactly when the handler's status
  write is committed; and nothing after the events of the body when the exception passes
  the handler.
\<close>

theorem pipeline_events_broadcast_to_all:
  assumes l: "live c ws w" and ok: "\<forall>m. send_text e ws m"
  shows "(\<forall>sr s er. analyze_webpage_and_generate_script e u schema = Inr sr \<and>
            sr_status sr = ''success'' \<and> sr_script sr = Some s \<and>
            execute_extraction_script e u s schema = Inr er \<and> er_status er = ''success'' \<and>
            db_commit e (length (commits w)) (db_add_script jid s (db w)) = None \<and>
            db_commit e (Suc (length (commits w)))
              (db_add_data jid (er_data er) (er_data_count er) (db_add_script jid s (db w))) = None \<and>
            db_commit e (Suc (Suc (length (commits w))))
              (db_set_status jid ''completed'' None
                 (db_add_data jid (er_data er) (er_data_count er)
                    (db_add_script jid s (db w)))) = None \<longrightarrow>
            delivered c (snd (execute_scraping_job e jid u schema w)) = delivered c w @
              [JobProgress jid ''started'' ''Initializing scraping job'',
               JobProgress jid ''generating_script'' ''AI is generating extraction script'',
               JobProgress jid ''script_ready''
                 (''Generated '' @ str_nat (length s) @ '' character script''),
               JobProgress jid ''extracting'' ''Executing script and extracting data'',
               JobProgress jid ''data_extracted''
                 (''Successfully extracted '' @ str_int (er_data_count er) @ '' items''),
               JobProgress jid ''completed''
                 (''Job completed successfully with '' @ str_int (er_data_count er) @ '' items''),
               JobStatusUpdate jid ''completed'' None]) \<and>
         (\<forall>ex s1 w1. execute_try e jid u schema w = (Inl ex, s1, w1) \<and> is_exception ex \<longrightarrow>
            delivered c (snd (execute_scraping_job e jid u schema w)) = delivered c w1 @
              JobProgress jid ''failed'' (''Job failed: '' @ exc_text ex) #
              (if s1 = Active \<and>
                  db_commit e (length (commits w1))
                    (db_set_status jid ''failed'' (Some (exc_text ex)) (db w1)) = None
               then [JobStatusUpdate jid ''failed'' (Some (exc_text ex))] else [])) \<and>
         (\<forall>ex s1 w1. execute_try e jid u schema w = (Inl ex, s1, w1) \<and> \<not> is_exception ex \<longrightarrow>
            delivered c (snd (execute_scraping_job e jid u schema w)) = delivered c w1)"
proof (intro conjI allI impI)
  fix sr s er
  assume a: "analyze_webpage_and_generate_script e u schema = Inr sr \<and>
            sr_status sr = ''success'' \<and> sr_script sr = Some s \<and>
            execute_extraction_script e u s schema = Inr er \<and> er_status er = ''success'' \<and>
            db_commit e (length (commits w)) (db_add_script jid s (db w)) = None \<and>
            db_commit e (Suc (length (commits w)))
              (db_add_data jid (er_data er) (er_data_count er) (db_add_script jid s (db w))) = None \<and>
            db_commit e (Suc (Suc (length (commits w))))
              (db_set_status jid ''completed'' None
                 (db_add_data jid (er_data er) (er_data_count er)
                    (db_add_script jid s (db w)))) = None"
  define d1 where "d1 = db_add_script jid s (db w)"
  define d2 where "d2 = db_add_data jid (er_data er) (er_data_count er) d1"
  define d3 where "d3 = db_set_status jid ''completed'' None d2"
  define w1 where "w1 = log_job_progress e jid ''started'' ''Initializing scraping job'' w"
  define w2 where "w2 = log_job_progress e jid ''generating_script''
      ''AI is generating extraction script'' w1"
  define w3 where "w3 = log_job_progress e jid ''script_ready''
      (''Generated '' @ str_nat (length s) @ '' character script'') w2"
  define w4 where "w4 = w3\<lparr>db := d1, commits := commits w @ [d1]\<rparr>"
  define w5 where "w5 = log_job_progress e jid ''extracting''
      ''Executing script and extracting data'' w4"
  define w6 where "w6 = log_job_progress e jid ''data_extracted''
      (''Successfully extracted '' @ str_int (er_data_count er) @ '' items'') w5"
  define w7 where "w7 = w6\<lparr>db := d2, commits := commits w @ [d1, d2]\<rparr>"
  define w8 where "w8 = log_job_progress e jid ''completed''
      (''Job completed successfully with '' @ str_int (er_data_count er) @ '' items'') w7"
  define w9 where "w9 = w8\<lparr>db := d3, commits := commits w @ [d1, d2, d3]\<rparr>"
  define w10 where "w10 = broadcast_to_all e (JobStatusUpdate jid ''completed'' None) w9"
  have r: "execute_try e jid u schema w = (Inr (), Active, w10)"
    using a execute_try_success [of e u schema sr s er w jid]
    unfolding w10_def w9_def w8_def w7_def w6_def w5_def w4_def w3_def w2_def w1_def
      d3_def d2_def d1_def
    by blast
  have p0: "live c ws w \<and> delivered c w = delivered c w"
    using l by simp
  note p1 = log_step [OF p0 ok, of jid "''started''" "''Initializing scraping job''", folded w1_def]
  note p2 = log_step [OF p1 ok, of jid "''generating_script''"
      "''AI is generating extraction script''", folded w2_def]
  note p3 = log_step [OF p2 ok, of jid "''script_ready''"
      "''Generated '' @ str_nat (length s) @ '' character script''", folded w3_def]
  note p4 = store_step [OF p3, where d = d1 and cs = "commits w @ [d1]", folded w4_def]
  note p5 = log_step [OF p4 ok, of jid "''extracting''"
      "''Executing script and extracting data''", folded w5_def]
  note p6 = log_step [OF p5 ok, of jid "''data_extracted''"
      "''Successfully extracted '' @ str_int (er_data_count er) @ '' items''", folded w6_def]
  note p7 = store_step [OF p6, where d = d2 and cs = "commits w @ [d1, d2]", folded w7_def]
  note p8 = log_step [OF p7 ok, of jid "''completed''"
      "''Job completed successfully with '' @ str_int (er_data_count er) @ '' items''",
      folded w8_def]
  note p9 = store_step [OF p8, where d = d3 and cs = "commits w @ [d1, d2, d3]", folded w9_def]
  note p10 = bcast_step [OF p9 ok, where m = "JobStatusUpdate jid ''completed'' None", folded w10_def]
  have "delivered c (snd (execute_scraping_job e jid u schema w)) = delivered c w10"
    using r by (simp add: execute_scraping_job_success)
  with p10 show "delivered c (snd (execute_scraping_job e jid u schema w)) = delivered c w @
              [JobProgress jid ''started'' ''Initializing scraping job'',
               JobProgress jid ''generating_script'' ''AI is generating extraction script'',
               JobProgress jid ''script_ready''
                 (''Generated '' @ str_nat (length s) @ '' character script''),
               JobProgress jid ''extracting'' ''Executing script and extracting data'',
               JobProgress jid ''data_extracted''
                 (''Successfully extracted '' @ str_int (er_data_count er) @ '' items''),
               JobProgress jid ''completed''
                 (''Job completed successfully with '' @ str_int (er_data_count er) @ '' items''),
               JobStatusUpdate jid ''completed'' None]"
    by simp
next
  fix ex s1 w1 assume a: "execute_try e jid u schema w = (Inl ex, s1, w1) \<and> is_exception ex"
  then have r: "execute_try e jid u schema w = (Inl ex, s1, w1)" and ie: "is_exception ex"
    by simp_all
  have "live c ws w1"
    using execute_try_live [OF l ok, of jid u schema] r by simp
  then have p0: "live c ws w1 \<and> delivered c w1 = delivered c w1"
    by simp
  define w2 where "w2 = log_job_progress e jid ''failed'' (''Job failed: '' @ exc_text ex) w1"
  note p1 = log_step [OF p0 ok, of jid "''failed''" "''Job failed: '' @ exc_text ex",
      folded w2_def]
  have w2: "db w2 = db w1" "commits w2 = commits w1"
    by (simp_all add: w2_def)
  have h: "execute_except e jid ex (s1, w1) =
      update_job_status e jid ''failed'' (Some (exc_text ex)) (s1, w2)"
    by (simp add: execute_except_def Let_def w2_def)
  have d: "delivered c (snd (execute_scraping_job e jid u schema w)) =
      delivered c (snd (snd (update_job_status e jid ''failed'' (Some (exc_text ex)) (s1, w2))))"
    using h by (simp add: execute_scraping_job_handled [OF r ie])
  show "delivered c (snd (execute_scraping_job e jid u schema w)) = delivered c w1 @
              JobProgress jid ''failed'' (''Job failed: '' @ exc_text ex) #
              (if s1 = Active \<and>
                  db_commit e (length (commits w1))
                    (db_set_status jid ''failed'' (Some (exc_text ex)) (db w1)) = None
               then [JobStatusUpdate jid ''failed'' (Some (exc_text ex))] else [])"
  proof (cases rule: update_job_status_cases [of s1 e w2 jid "''failed''" "Some (exc_text ex)"])
    case written
    define w3 where "w3 = w2\<lparr>db := db_set_status jid ''failed'' (Some (exc_text ex)) (db w2),
        commits := commits w2 @ [db_set_status jid ''failed'' (Some (exc_text ex)) (db w2)]\<rparr>"
    note p2 = store_step [OF p1, where d = "db_set_status jid ''failed'' (Some (exc_text ex)) (db w2)"
        and cs = "commits w2 @ [db_set_status jid ''failed'' (Some (exc_text ex)) (db w2)]",
        folded w3_def]
    note p3 = bcast_step [OF p2 ok, where m = "JobStatusUpdate jid ''failed'' (Some (exc_text ex))"]
    show ?thesis
      unfolding d using written p3 w2 by (simp add: w3_def)
  next
    case (refused ex')
    then show ?thesis
      unfolding d using p1 w2 by auto
  qed
next
  fix ex s1 w1 assume a: "execute_try e jid u schema w = (Inl ex, s1, w1) \<and> \<not> is_exception ex"
  then show "delivered c (snd (execute_scraping_job e jid u schema w)) = delivered c w1"
    by (simp add: execute_scraping_job_passed)
qed

text \<open>C10 on a client that is subscribed to no job.\<close>

theorem pipeline_events_broadcast_to_all_witness:
  "live ''a'' 10 world_running \<and> (\<forall>m. send_text env_ok 10 m) \<and>
   job_subscribers (manager world_running) = [] \<and>
   delivered ''a'' (snd (execute_scraping_job env_ok ''j1'' ''http://example.com'' []
       world_running)) =
     [JobProgress ''j1'' ''started'' ''Initializing scraping job'',
      JobProgress ''j1'' ''generating_script'' ''AI is generating extraction script'',
      JobProgress ''j1'' ''script_ready'' ''Generated 10 character script'',
      JobProgress ''j1'' ''extracting'' ''Executing script and extracting data'',
      JobProgress ''j1'' ''data_extracted'' ''Successfully extracted 0 items'',
      JobProgress ''j1'' ''completed'' ''Job completed successfully with 0 items'',
      JobStatusUpdate ''j1'' ''completed'' None]"
proof -
  define sr where "sr = \<lparr>sr_status = ''success'', sr_error = None, sr_script = Some ''return [];''\<rparr>"
  define er where "er = \<lparr>er_status = ''success'', er_error = None, er_data = JList [],
      er_data_count = 0\<rparr>"
  have l: "live ''a'' 10 world_running"
    by (simp add: live_def world_running_def)
  have ok: "\<forall>m. send_text env_ok 10 m"
    by (simp add: env_ok_def)
  have s: "job_subscribers (manager world_running) = []"
    by (simp add: world_running_def)
  have h: "analyze_webpage_and_generate_script env_ok ''http://example.com'' [] = Inr sr \<and>
      sr_status sr = ''success'' \<and> sr_script sr = Some ''return [];'' \<and>
      execute_extraction_script env_ok ''http://example.com'' ''return [];'' [] = Inr er \<and>
      er_status er = ''success'' \<and>
      db_commit env_ok (length (commits world_running))
        (db_add_script ''j1'' ''return [];'' (db world_running)) = None \<and>
      db_commit env_ok (Suc (length (commits world_running)))
        (db_add_data ''j1'' (er_data er) (er_data_count er)
           (db_add_script ''j1'' ''return [];'' (db world_running))) = None \<and>
      db_commit env_ok (Suc (Suc (length (commits world_running))))
        (db_set_status ''j1'' ''completed'' None
           (db_add_data ''j1'' (er_data er) (er_data_count er)
              (db_add_script ''j1'' ''return [];'' (db world_running)))) = None"
    by (simp add: env_ok_def sr_def er_def)
  have e1: "delivered ''a'' world_running = []"
    by (simp add: delivered_def world_running_def)
  have e2: "''Generated '' @ str_nat (length ''return [];'') @ '' character script'' =
      ''Generated 10 character script''"
    by code_simp
  have e3: "''Successfully extracted '' @ str_int (er_data_count er) @ '' items'' =
      ''Successfully extracted 0 items''"
    unfolding er_def by code_simp
  have e4: "''Job completed successfully with '' @ str_int (er_data_count er) @ '' items'' =
      ''Job completed successfully with 0 items''"
    unfolding er_def by code_simp
  note t = pipeline_events_broadcast_to_all [OF l ok, of "''http://example.com''" "[]" "''j1''",
      THEN conjunct1, rule_format, OF h]
  show ?thesis
    using l ok s t unfolding e1 e2 e3 e4 append_Nil by (intro conjI)
qed


section \<open>The extraction analyzer: score, method and load time\<close>

lemma bump_nonneg: "0 \<le> w \<Longrightarrow> 0 \<le> f_score f \<Longrightarrow> 0 \<le> f_score (bump w r f)"
  by (simp add: bump_def)

lemma bump_each_nonneg: "0 \<le> w \<Longrightarrow> 0 \<le> f_score f \<Longrightarrow> 0 \<le> f_score (bump_each p w r xs f)"
  by (induction xs arbitrary: f) (simp_all add: bump_nonneg)

lemma if_nonneg:
  "0 \<le> f_score a \<Longrightarrow> 0 \<le> f_score b \<Longrightarrow> 0 \<le> f_score (if c then a else b)"
  by simp

lemma option_nonneg:
  "0 \<le> f_score a \<Longrightarrow> (\<And>x. 0 \<le> f_score (b x)) \<Longrightarrow>
   0 \<le> f_score (case v of None \<Rightarrow> a | Some x \<Rightarrow> b x)"
  by (cases v) simp_all

lemma clamped_bounds: "0 \<le> f_score f \<Longrightarrow> 0 \<le> f_score (clamped f) \<and> f_score (clamped f) \<le> 1"
  by (simp add: clamped_def)

lemma zero_factor_nonneg: "0 \<le> f_score \<lparr>f_score = 0, f_reasons = []\<rparr>"
  by simp

lemma analyze_domain_complexity_bounds:
  "0 \<le> f_score (analyze_domain_complexity d) \<and> f_score (analyze_domain_complexity d) \<le> 1"
  unfolding analyze_domain_complexity_def Let_def
  apply (rule clamped_bounds)
  apply (intro bump_nonneg if_nonneg option_nonneg zero_factor_nonneg)
  apply simp_all
  done

lemma analyze_html_complexity_bounds:
  "0 \<le> f_score (analyze_html_complexity h) \<and> f_score (analyze_html_complexity h) \<le> 1"
  unfolding analyze_html_complexity_def Let_def
  apply (rule clamped_bounds)
  apply (intro bump_nonneg if_nonneg bump_each_nonneg zero_factor_nonneg)
  apply simp_all
  done

lemma complex_loop_nonneg: "0 \<le> snd acc \<Longrightarrow> 0 \<le> snd (complex_loop items acc)"
  by (induction items acc rule: complex_loop.induct) simp_all

lemma analyze_schema_complexity_bounds:
  assumes "analyze_schema_complexity s = Inr f"
  shows "0 \<le> f_score f \<and> f_score f \<le> 1"
proof (cases "py_len (schema_fields s)")
  case (Inl ex)
  with assms show ?thesis
    by (simp add: analyze_schema_complexity_def)
next
  case (Inr n)
  note n = this
  show ?thesis
  proof (cases "dict_method ''items'' (schema_fields s)")
    case (Inl ex)
    with assms n show ?thesis
      by (simp add: analyze_schema_complexity_def Let_def)
  next
    case (Inr items)
    define f1 where "f1 = (if n > 15
         then bump (3/10) [Lit (''High number of fields to extract: '' @ str_nat n)]
                \<lparr>f_score = 0, f_reasons = []\<rparr>
         else if n > 8
         then bump (1/10) [Lit (''Moderate number of fields to extract: '' @ str_nat n)]
                \<lparr>f_score = 0, f_reasons = []\<rparr>
         else \<lparr>f_score = 0, f_reasons = []\<rparr>)"
    have f1: "0 \<le> f_score f1"
      unfolding f1_def by (intro bump_nonneg if_nonneg zero_factor_nonneg) simp_all
    obtain k sc where l: "complex_loop items (0, f_score f1) = (k, sc)"
      by (cases "complex_loop items (0, f_score f1)")
    have sc: "0 \<le> sc"
      using complex_loop_nonneg [of "(0, f_score f1)" items] f1 l by simp
    define f2 where "f2 = \<lparr>f_score = sc,
        f_reasons = (if k > 0
           then f_reasons f1 @ [[Lit (''Complex field types detected: '' @
                  str_nat k @ '' array/object fields'')]]
           else f_reasons f1)\<rparr>"
    define p where "p = length (filter (\<lambda>(field_name, field_config).
        has_validation_pattern field_config) items)"
    define f3 where "f3 = (if p > 3
        then bump (1/10) [Lit (''Multiple validation patterns: '' @ str_nat p)] f2 else f2)"
    have f2: "0 \<le> f_score f2"
      unfolding f2_def using sc by simp
    have "0 \<le> f_score f3"
      unfolding f3_def using f2 by (intro bump_nonneg if_nonneg) simp_all
    moreover have "analyze_schema_complexity s = Inr (clamped f3)"
      unfolding analyze_schema_complexity_def Let_def n Inr sum.case
      unfolding f1_def [symmetric] l prod.case
      unfolding f2_def [symmetric] p_def [symmetric] f3_def [symmetric]
      by (rule refl)
    ultimately show ?thesis
      using assms by (simp add: clamped_bounds)
  qed
qed

lemma in_unit_case:
  "(\<And>x. in_unit (g x)) \<Longrightarrow> in_unit (case r of Inl ex \<Rightarrow> Inl ex | Inr x \<Rightarrow> g x)"
  by (cases r) (simp_all add: in_unit_def)

lemma in_unit_clamped: "0 \<le> f_score f \<Longrightarrow> in_unit (Inr (clamped f))"
  by (simp add: in_unit_def clamped_bounds)

lemma in_unit_Inr: "in_unit (Inr f) \<Longrightarrow> 0 \<le> f_score f \<and> f_score f \<le> 1"
  by (simp add: in_unit_def)

lemma analyze_page_metrics_in_unit: "in_unit (analyze_page_metrics m)"
  unfolding analyze_page_metrics_def Let_def
  apply (intro in_unit_case in_unit_clamped bump_nonneg if_nonneg zero_factor_nonneg)
  apply simp_all
  done

lemma analyze_page_metrics_bounds:
  "analyze_page_metrics m = Inr f \<Longrightarrow> 0 \<le> f_score f \<and> f_score f \<le> 1"
  using analyze_page_metrics_in_unit [of m] by (simp add: in_unit_def)

lemma complexity_factors_bounds:
  assumes "complexity_factors d h s m = Inr fs"
  shows "\<forall>f \<in> set fs. 0 \<le> f_score f \<and> f_score f \<le> 1"
proof -
  obtain sf where sf: "analyze_schema_complexity s = Inr sf"
    using assms by (cases "analyze_schema_complexity s") (simp_all add: complexity_factors_def)
  note b = analyze_domain_complexity_bounds [of d] analyze_html_complexity_bounds [of h]
    analyze_schema_complexity_bounds [OF sf]
  show ?thesis
  proof (cases "m = None \<or> m = Some []")
    case True
    then have "fs = [analyze_domain_complexity d, analyze_html_complexity h, sf]"
      using assms sf by (auto simp: complexity_factors_def)
    then show ?thesis using b by simp
  next
    case False
    then obtain mm where mm: "m = Some mm" "mm \<noteq> []" by auto
    then obtain pm where pm: "analyze_page_metrics mm = Inr pm"
      using assms sf by (cases "analyze_page_metrics mm") (simp_all add: complexity_factors_def)
    then have "fs = [analyze_domain_complexity d, analyze_html_complexity h, sf, pm]"
      using assms sf mm by (simp add: complexity_factors_def)
    then show ?thesis using b analyze_page_metrics_bounds [OF pm] by simp
  qed
qed

lemma mean_bounds:
  fixes xs :: "rat list"
  assumes "\<forall>x \<in> set xs. 0 \<le> x \<and> x \<le> 1" and "xs \<noteq> []"
  shows "0 \<le> sum_list xs / of_nat (length xs) \<and> sum_list xs / of_nat (length xs) \<le> 1"
proof -
  have "0 \<le> sum_list xs"
    using assms(1) by (simp add: sum_list_nonneg)
  moreover have "sum_list xs \<le> of_nat (length xs)"
    using assms(1) by (induction xs) (simp_all add: add_mono)
  moreover have "0 < (of_nat (length xs) :: rat)"
    using assms(2) by simp
  ultimately show ?thesis
    by (simp add: divide_le_eq)
qed

lemma analyze_try_Inr:
  assumes "analyze_try netloc u h s m = Inr a"
  obtains host z hints fs where
    "netloc u = Inr host"
    "generate_zod_validation s = Inr z"
    "generate_extraction_hints s h = Inr hints"
    "complexity_factors (lower host) h s m = Inr fs"
    "complexity_score a = sum_list (map f_score fs) / of_nat (length fs)"
    "extraction_method a = (if requires_user_interaction h s (lower host) then ''playwright''
                 else if complexity_score a > 6/10 then ''playwright'' else ''javascript'')"
    "estimated_load_time a = (if complexity_score a > 6/10
        then min 90 \<lfloor>10 + complexity_score a * 80\<rfloor>
        else min 15 \<lfloor>3 + complexity_score a * 12\<rfloor>)"
    "requires_interaction a = requires_user_interaction h s (lower host)"
proof (cases "netloc u")
  case (Inl ex)
  with assms show ?thesis by (simp add: analyze_try_def)
next
  case (Inr host)
  note host = this
  show ?thesis
  proof (cases "generate_zod_validation s")
    case (Inl ex)
    with assms host show ?thesis by (simp add: analyze_try_def)
  next
    case (Inr z)
    note z = this
    show ?thesis
    proof (cases "generate_extraction_hints s h")
      case (Inl ex)
      with assms host z show ?thesis by (simp add: analyze_try_def)
    next
      case (Inr hints)
      note hints = this
      show ?thesis
      proof (cases "complexity_factors (lower host) h s m")
        case (Inl ex)
        with assms host z hints show ?thesis by (simp add: analyze_try_def)
      next
        case (Inr fs)
        have a: "a = \<lparr>extraction_method = (if requires_user_interaction h s (lower host) then ''playwright''
              else if sum_list (map f_score fs) / of_nat (length fs) > 6/10
                   then ''playwright'' else ''javascript''),
            complexity_score = sum_list (map f_score fs) / of_nat (length fs),
            reasons = (if requires_user_interaction h s (lower host)
               then concat (map f_reasons fs) @
                    [[Lit ''Requires user interaction (clicks, scrolling, form filling)'']]
               else concat (map f_reasons fs)),
            estimated_load_time = (if sum_list (map f_score fs) / of_nat (length fs) > 6/10
               then min 90 \<lfloor>10 + sum_list (map f_score fs) / of_nat (length fs) * 80\<rfloor>
               else min 15 \<lfloor>3 + sum_list (map f_score fs) / of_nat (length fs) * 12\<rfloor>),
            requires_interaction = requires_user_interaction h s (lower host),
            zod_validation = z, extraction_hints = hints\<rparr>"
        proof -
          have "Inr a = analyze_try netloc u h s m"
            using assms by simp
          then show ?thesis
            unfolding analyze_try_def host z hints Inr sum.case Let_def
            by (simp only: sum.inject)
        qed
        show ?thesis
          by (rule that [OF host z hints Inr]) (simp_all add: a)
      qed
    qed
  qed
qed

lemma complexity_factors_shape:
  assumes "complexity_factors d h s m = Inr fs"
  shows "\<exists>sf. analyze_schema_complexity s = Inr sf \<and>
     ((m = None \<or> m = Some []) \<and>
        fs = [analyze_domain_complexity d, analyze_html_complexity h, sf] \<or>
      (\<exists>mm pm. m = Some mm \<and> mm \<noteq> [] \<and> analyze_page_metrics mm = Inr pm \<and>
        fs = [analyze_domain_complexity d, analyze_html_complexity h, sf, pm]))"
proof -
  obtain sf where sf: "analyze_schema_complexity s = Inr sf"
    using assms by (cases "analyze_schema_complexity s") (simp_all add: complexity_factors_def)
  show ?thesis
  proof (cases "m = None \<or> m = Some []")
    case True
    then have "fs = [analyze_domain_complexity d, analyze_html_complexity h, sf]"
      using assms sf by (auto simp: complexity_factors_def)
    with sf True show ?thesis by blast
  next
    case False
    then obtain mm where mm: "m = Some mm" "mm \<noteq> []" by auto
    then obtain pm where pm: "analyze_page_metrics mm = Inr pm"
      using assms sf by (cases "analyze_page_metrics mm") (simp_all add: complexity_factors_def)
    then have "fs = [analyze_domain_complexity d, analyze_html_complexity h, sf, pm]"
      using assms sf mm by (simp add: complexity_factors_def)
    with sf mm pm show ?thesis by blast
  qed
qed

lemma complexity_score_bounds:
  assumes "analyze_try netloc u h s m = Inr a"
  shows "0 \<le> complexity_score a \<and> complexity_score a \<le> 1"
proof -
  from assms obtain host fs where fs: "complexity_factors (lower host) h s m = Inr fs"
    and sc: "complexity_score a = sum_list (map f_score fs) / of_nat (length fs)"
    by (rule analyze_try_Inr)
  have "fs \<noteq> []"
    using complexity_factors_shape [OF fs] by auto
  then have "0 \<le> sum_list (map f_score fs) / of_nat (length (map f_score fs)) \<and>
      sum_list (map f_score fs) / of_nat (length (map f_score fs)) \<le> 1"
    using complexity_factors_bounds [OF fs] by (intro mean_bounds) auto
  then show ?thesis
    by (simp add: sc)
qed

text \<open>The analyzer on the three example pages.\<close>

lemma analyze_try_light:
  "analyze_try netloc_example ''http://Shop.Example.com/x'' html_example schema_example
     (Some metrics_example) = Inr analysis_light"
  by code_simp

lemma analyze_try_login:
  "analyze_try netloc_example ''http://Shop.Example.com/x'' html_login schema_example None =
     Inr analysis_login"
  by code_simp

lemma analyze_try_heavy:
  "analyze_try netloc_heavy ''https://app.netflix.com/browse'' html_example schema_example None =
     Inr analysis_heavy"
  by code_simp

text \<open>
  Claim C5. On the path of the analyzer that raises nothing, the list of factors is
  domain, content and schema, followed by the page-metrics factor exactly when
  \<open>page_metrics\<close> is given and not empty; the complexity score is the arithmetic mean of
  the scores in that list; each of these scores lies between 0 and 1, and so does the
  complexity score.
\<close>

theorem complexity_score_is_mean:
  assumes "analyze_try netloc u h s m = Inr a"
  shows "\<exists>host fs sf. netloc u = Inr host \<and>
      complexity_factors (lower host) h s m = Inr fs \<and>
      analyze_schema_complexity s = Inr sf \<and>
      ((m = None \<or> m = Some []) \<and>
         fs = [analyze_domain_complexity (lower host), analyze_html_complexity h, sf] \<or>
       (\<exists>mm pm. m = Some mm \<and> mm \<noteq> [] \<and> analyze_page_metrics mm = Inr pm \<and>
         fs = [analyze_domain_complexity (lower host), analyze_html_complexity h, sf, pm])) \<and>
      complexity_score a = sum_list (map f_score fs) / of_nat (length fs) \<and>
      (\<forall>f \<in> set fs. 0 \<le> f_score f \<and> f_score f \<le> 1) \<and>
      0 \<le> complexity_score a \<and> complexity_score a \<le> 1"
proof -
  from assms obtain host fs where host: "netloc u = Inr host"
    and fs: "complexity_factors (lower host) h s m = Inr fs"
    and sc: "complexity_score a = sum_list (map f_score fs) / of_nat (length fs)"
    by (rule analyze_try_Inr)
  from complexity_factors_shape [OF fs] obtain sf where
    sf: "analyze_schema_complexity s = Inr sf" and
    shape: "(m = None \<or> m = Some []) \<and>
         fs = [analyze_domain_complexity (lower host), analyze_html_complexity h, sf] \<or>
       (\<exists>mm pm. m = Some mm \<and> mm \<noteq> [] \<and> analyze_page_metrics mm = Inr pm \<and>
         fs = [analyze_domain_complexity (lower host), analyze_html_complexity h, sf, pm])"
    by blast
  note b = complexity_factors_bounds [OF fs] complexity_score_bounds [OF assms]
  show ?thesis
    using host fs sf shape sc b by blast
qed

text \<open>C5 on a page with four factors, whose mean is 19/40.\<close>

theorem complexity_score_is_mean_witness:
  "analyze_try netloc_example ''http://Shop.Example.com/x'' html_example schema_example
     (Some metrics_example) = Inr analysis_light \<and>
   complexity_score analysis_light = 19 / 40 \<and>
   0 \<le> complexity_score analysis_light \<and> complexity_score analysis_light \<le> 1"
  using complexity_score_is_mean [OF analyze_try_light] analyze_try_light
  by (simp add: analysis_light_def)

text \<open>
  Claim C4, amended. On the path of the analyzer that raises nothing, the method is
  \<open>playwright\<close> if and only if the complexity score is greater than 0.6 or an
  interaction indicator is present; otherwise it is \<open>javascript\<close>. An indicator is an
  authentication, pagination or modal word in the text of the page, or a domain of the
  fixed list in the host of the url: the schema is not read for indicators and has no
  part in the override. With an indicator present the method is \<open>playwright\<close> and
  \<open>requires_interaction\<close> is true, whatever the score.
\<close>

theorem method_is_playwright_iff:
  assumes "analyze_try netloc u h s m = Inr a"
  shows "\<exists>host. netloc u = Inr host \<and>
      (extraction_method a = ''playwright'' \<longleftrightarrow>
         complexity_score a > 6/10 \<or> requires_user_interaction h s (lower host)) \<and>
      (extraction_method a = ''playwright'' \<or> extraction_method a = ''javascript'') \<and>
      requires_interaction a = requires_user_interaction h s (lower host) \<and>
      (requires_user_interaction h s (lower host) \<longrightarrow>
         extraction_method a = ''playwright'' \<and> requires_interaction a) \<and>
      (\<forall>s'. requires_user_interaction h s' (lower host) =
            requires_user_interaction h s (lower host)) \<and>
      (requires_user_interaction h s (lower host) \<longleftrightarrow>
         list_ex (\<lambda>i. py_in i (lower h))
           [''login'', ''sign in'', ''authenticate'', ''password'',
            ''data-requires-auth'', ''protected'', ''unauthorized''] \<or>
         list_ex (\<lambda>i. py_in i (lower h))
           [''load more'', ''show more'', ''next page'', ''pagination'',
            ''infinite-scroll'', ''lazy-load''] \<or>
         list_ex (\<lambda>i. py_in i (lower h)) [''modal'', ''popup'', ''dialog'', ''overlay''] \<or>
         list_ex (\<lambda>i. py_in i (lower host))
           [''linkedin.com'', ''facebook.com'', ''instagram.com'',
            ''twitter.com'', ''discord.com'', ''slack.com''])"
proof -
  from assms obtain host where host: "netloc u = Inr host"
    and me: "extraction_method a = (if requires_user_interaction h s (lower host) then ''playwright''
                 else if complexity_score a > 6/10 then ''playwright'' else ''javascript'')"
    and ri: "requires_interaction a = requires_user_interaction h s (lower host)"
    by (rule analyze_try_Inr)
  have 1: "extraction_method a = ''playwright'' \<longleftrightarrow>
         complexity_score a > 6/10 \<or> requires_user_interaction h s (lower host)"
    by (simp add: me)
  have 2: "extraction_method a = ''playwright'' \<or> extraction_method a = ''javascript''"
    by (simp add: me)
  have 3: "requires_user_interaction h s (lower host) \<longrightarrow>
         extraction_method a = ''playwright'' \<and> requires_interaction a"
    by (simp add: me ri)
  have 4: "requires_user_interaction h s (lower host) \<longleftrightarrow>
         list_ex (\<lambda>i. py_in i (lower h))
           [''login'', ''sign in'', ''authenticate'', ''password'',
            ''data-requires-auth'', ''protected'', ''unauthorized''] \<or>
         list_ex (\<lambda>i. py_in i (lower h))
           [''load more'', ''show more'', ''next page'', ''pagination'',
            ''infinite-scroll'', ''lazy-load''] \<or>
         list_ex (\<lambda>i. py_in i (lower h)) [''modal'', ''popup'', ''dialog'', ''overlay''] \<or>
         list_ex (\<lambda>i. py_in i (lower host))
           [''linkedin.com'', ''facebook.com'', ''instagram.com'',
            ''twitter.com'', ''discord.com'', ''slack.com'']"
    unfolding requires_user_interaction_def by (simp only: if_bool_eq_disj) blast
  have 5: "\<forall>s'. requires_user_interaction h s' (lower host) =
      requires_user_interaction h s (lower host)"
    by (simp add: requires_user_interaction_def)
  show ?thesis
    using host 1 2 3 4 5 ri by blast
qed

text \<open>
  Claim C4 as stated fails where only the schema carries the indicators: for a schema
  whose fields are named \<open>login\<close> and \<open>password\<close>, described with "load more" and
  "modal", on a page and a host without indicator, the analyzer returns on its path
  without error the method \<open>javascript\<close> with \<open>requires_interaction\<close> false.
\<close>

theorem schema_indicators_are_not_read:
  "map_option keys (case map_of schema_login ''properties'' of Some (JDict fs) \<Rightarrow> Some fs
      | _ \<Rightarrow> None) = Some [''login'', ''password''] \<and>
   (case analyze_try netloc_example ''http://Shop.Example.com/x'' html_plain schema_login None of
      Inl ex \<Rightarrow> False
    | Inr a \<Rightarrow>
        analyze_extraction_requirements netloc_example ''http://Shop.Example.com/x'' html_plain
          schema_login None = Inr a \<and>
        extraction_method a = ''javascript'' \<and> \<not> requires_interaction a \<and>
        complexity_score a = 0)"
  by code_simp

text \<open>C4 on a light page, on a page forced by an indicator, and on a page heavy by its score.\<close>

theorem method_is_playwright_iff_witness:
  "analyze_try netloc_example ''http://Shop.Example.com/x'' html_example schema_example
     (Some metrics_example) = Inr analysis_light \<and>
   extraction_method analysis_light = ''javascript'' \<and>
   analyze_try netloc_example ''http://Shop.Example.com/x'' html_login schema_example None =
     Inr analysis_login \<and>
   extraction_method analysis_login = ''playwright'' \<and> requires_interaction analysis_login \<and>
   \<not> complexity_score analysis_login > 6/10 \<and>
   analyze_try netloc_heavy ''https://app.netflix.com/browse'' html_example schema_example None =
     Inr analysis_heavy \<and>
   extraction_method analysis_heavy = ''playwright'' \<and> \<not> requires_interaction analysis_heavy \<and>
   complexity_score analysis_heavy > 6/10"
  using method_is_playwright_iff [OF analyze_try_light] method_is_playwright_iff [OF analyze_try_login]
    method_is_playwright_iff [OF analyze_try_heavy]
    analyze_try_light analyze_try_login analyze_try_heavy
  by (simp add: analysis_light_def analysis_login_def analysis_heavy_def)

text \<open>
  Claim C6, amended. On the path of the analyzer that raises nothing, the estimated load
  time is a function of the complexity score alone; it lies in 3 to 15 seconds when the
  score is at most 0.6, so whenever the method is \<open>javascript\<close>, and in 10 to 90 seconds
  when the score is greater than 0.6, so whenever the method is \<open>playwright\<close> without the
  interaction override.
\<close>

theorem estimated_load_time_ranges:
  assumes "analyze_try netloc u h s m = Inr a"
  shows "estimated_load_time a =
      (if complexity_score a > 6/10 then min 90 \<lfloor>10 + complexity_score a * 80\<rfloor>
       else min 15 \<lfloor>3 + complexity_score a * 12\<rfloor>) \<and>
    (complexity_score a \<le> 6/10 \<longrightarrow> 3 \<le> estimated_load_time a \<and> estimated_load_time a \<le> 15) \<and>
    (complexity_score a > 6/10 \<longrightarrow> 10 \<le> estimated_load_time a \<and> estimated_load_time a \<le> 90) \<and>
    (extraction_method a = ''javascript'' \<longrightarrow> 3 \<le> estimated_load_time a \<and> estimated_load_time a \<le> 15) \<and>
    (extraction_method a = ''playwright'' \<and> \<not> requires_interaction a \<longrightarrow>
       10 \<le> estimated_load_time a \<and> estimated_load_time a \<le> 90)"
proof -
  from assms obtain host where
    me: "extraction_method a = (if requires_user_interaction h s (lower host) then ''playwright''
                 else if complexity_score a > 6/10 then ''playwright'' else ''javascript'')"
    and t: "estimated_load_time a = (if complexity_score a > 6/10
        then min 90 \<lfloor>10 + complexity_score a * 80\<rfloor>
        else min 15 \<lfloor>3 + complexity_score a * 12\<rfloor>)"
    and ri: "requires_interaction a = requires_user_interaction h s (lower host)"
    by (rule analyze_try_Inr)
  have nn: "0 \<le> complexity_score a"
    using complexity_score_bounds [OF assms] by simp
  have "(3::rat) \<le> 3 + complexity_score a * 12"
    using nn by simp
  then have lo: "3 \<le> \<lfloor>3 + complexity_score a * 12\<rfloor>"
    by (simp add: le_floor_iff)
  have "(10::rat) \<le> 10 + complexity_score a * 80"
    using nn by simp
  then have hi: "10 \<le> \<lfloor>10 + complexity_score a * 80\<rfloor>"
    by (simp add: le_floor_iff)
  have light: "complexity_score a \<le> 6/10 \<Longrightarrow>
      3 \<le> estimated_load_time a \<and> estimated_load_time a \<le> 15"
    using lo by (simp add: t)
  have heavy: "complexity_score a > 6/10 \<Longrightarrow>
      10 \<le> estimated_load_time a \<and> estimated_load_time a \<le> 90"
    using hi by (simp add: t)
  have js: "extraction_method a = ''javascript'' \<Longrightarrow> complexity_score a \<le> 6/10"
    using me by (auto split: if_splits)
  have pw: "extraction_method a = ''playwright'' \<and> \<not> requires_interaction a \<Longrightarrow> complexity_score a > 6/10"
    using me ri by (auto split: if_splits)
  show ?thesis
    using t light heavy js pw by blast
qed

text \<open>
  Claim C6 as stated fails on a decision forced by the interaction override: a page with
  the word "Login" and score 1/15 gets the method \<open>playwright\<close> and an estimated load
  time of 3 seconds.
\<close>

theorem interaction_override_keeps_light_estimate:
  "map_sum id (\<lambda>a. (extraction_method a, requires_interaction a, complexity_score a, estimated_load_time a))
     (analyze_extraction_requirements netloc_example ''http://Shop.Example.com/x'' html_login
        schema_example None) =
   Inr (''playwright'', True, 1/15, 3)"
  by code_simp

text \<open>C6, amended, on a light page (8 seconds) and on a page heavy by its score (68 seconds).\<close>

theorem estimated_load_time_ranges_witness:
  "analyze_try netloc_example ''http://Shop.Example.com/x'' html_example schema_example
     (Some metrics_example) = Inr analysis_light \<and>
   extraction_method analysis_light = ''javascript'' \<and> estimated_load_time analysis_light = 8 \<and>
   analyze_try netloc_heavy ''https://app.netflix.com/browse'' html_example schema_example None =
     Inr analysis_heavy \<and>
   extraction_method analysis_heavy = ''playwright'' \<and> \<not> requires_interaction analysis_heavy \<and>
   complexity_score analysis_heavy > 6/10 \<and> estimated_load_time analysis_heavy = 68"
  using estimated_load_time_ranges [OF analyze_try_light] estimated_load_time_ranges [OF analyze_try_heavy]
    analyze_try_light analyze_try_heavy
  by (simp add: analysis_light_def analysis_heavy_def)

text \<open>
  Claim C7 fails on the code. On the schema \<open>{"type": "array", "items": [{"type":
  "string"}]}\<close> the first call of \<open>_generate_zod_validation\<close> raises inside the
  \<open>try\<close>, and the handler, which calls it again to build the fallback, raises the same
  \<open>AttributeError\<close> to the caller.
\<close>

theorem schema_failure_escapes_the_fallback:
  "analyze_extraction_requirements netloc_example ''http://Shop.Example.com/x'' html_example
     schema_tuple_items None =
   Inl (PyExc ''AttributeError''
     (quoted ''list'' @ '' object has no attribute '' @ quoted ''items''))"
  by code_simp

text \<open>
  The analyzer raises exactly the exceptions of \<open>_generate_zod_validation\<close>; every other
  failure inside the \<open>try\<close> ends in the fallback.
\<close>

lemma analyze_extraction_requirements_raises_iff:
  "analyze_extraction_requirements netloc u h s m = Inl ex \<longleftrightarrow> generate_zod_validation s = Inl ex"
proof (cases "generate_zod_validation s")
  case (Inl e)
  then have "analyze_try netloc u h s m = Inl e \<or> (\<exists>e'. analyze_try netloc u h s m = Inl e')"
    by (cases "netloc u") (simp_all add: analyze_try_def)
  then show ?thesis
    using Inl by (auto simp: analyze_extraction_requirements_def)
next
  case (Inr z)
  then show ?thesis
    by (cases "analyze_try netloc u h s m") (simp_all add: analyze_extraction_requirements_def)
qed

lemma analyze_fallback:
  assumes "analyze_try netloc u h s m = Inl e" and "generate_zod_validation s = Inr z"
  shows "analyze_extraction_requirements netloc u h s m =
     Inr \<lparr>extraction_method = ''playwright'', complexity_score = 8/10,
          reasons = [[Lit (''Analysis error, defaulting to Playwright: '' @ exc_text e)]],
          estimated_load_time = 30, requires_interaction = False,
          zod_validation = z, extraction_hints = []\<rparr>"
  using assms by (simp add: analyze_extraction_requirements_def)

end
